theory Spec2Isabelle
  imports Complex_Main
begin

section \<open>JavaScript values and strings\<close>

text \<open>
  The program is a Node.js chat backend.  A JavaScript string is a sequence of UTF-16
  code units, and \<open>length\<close>, \<open>slice\<close>, \<open>includes\<close> and \<open>trim\<close> work on code units.  Strings are
  modelled as \<^typ>\<open>string\<close>, one character for one code unit.  A code unit below 256 is
  the character of that code.  The one code unit of the modelled texts above that range,
  the em dash U+2014, is the single character \<open>0x97\<close>: like the em dash it is no white
  space and has no other case, and no modelled text holds U+0097.  Numbers that reach the
  modelled code are integers.
\<close>

definition emDash :: string where
  "emDash = [CHR 0x97]"

text \<open>\<open>String.prototype.toLowerCase\<close> on Latin-1 code units: the ASCII capitals and the
  capitals U+00C0 .. U+00DE (without the multiplication sign U+00D7) move up by 32.\<close>

definition isUpperChar :: "char \<Rightarrow> bool" where
  "isUpperChar c = (let n = (of_char c :: nat) in
     (65 \<le> n \<and> n \<le> 90) \<or> (192 \<le> n \<and> n \<le> 222 \<and> n \<noteq> 215))"

definition toLowerChar :: "char \<Rightarrow> char" where
  "toLowerChar c = (if isUpperChar c
     then (case c of Char b0 b1 b2 b3 b4 b5 b6 b7 \<Rightarrow> Char b0 b1 b2 b3 b4 True b6 b7)
     else c)"

definition toLowerCase :: "string \<Rightarrow> string" where
  "toLowerCase s = map toLowerChar s"

text \<open>\<open>s.startsWith(k)\<close> and \<open>s.includes(k)\<close>.\<close>

fun startsWith :: "string \<Rightarrow> string \<Rightarrow> bool" where
  "startsWith s [] = True"
| "startsWith [] (k # ks) = False"
| "startsWith (c # cs) (k # ks) = (c = k \<and> startsWith cs ks)"

fun str_includes :: "string \<Rightarrow> string \<Rightarrow> bool" where
  "str_includes [] k = (k = [])"
| "str_includes (c # cs) k = (startsWith (c # cs) k \<or> str_includes cs k)"

text \<open>\<open>s.trim()\<close>: white space and line terminators of the Latin-1 range are
  TAB, LF, VT, FF, CR, SPACE and NBSP.\<close>

definition isSpaceChar :: "char \<Rightarrow> bool" where
  "isSpaceChar c = ((of_char c :: nat) \<in> {9, 10, 11, 12, 13, 32, 160})"

definition trim :: "string \<Rightarrow> string" where
  "trim s = rev (dropWhile isSpaceChar (rev (dropWhile isSpaceChar s)))"

text \<open>\<open>s.slice(i, j)\<close> for indices \<open>0 \<le> i \<le> j\<close>; both are clamped to the length.\<close>

definition slice :: "'a list \<Rightarrow> nat \<Rightarrow> nat \<Rightarrow> 'a list" where
  "slice s i j = take (j - i) (drop i s)"

text \<open>\<open>parts.join(sep)\<close> on an array of strings.\<close>

fun join :: "string list \<Rightarrow> string \<Rightarrow> string" where
  "join [] sep = []"
| "join [x] sep = x"
| "join (x # y # ys) sep = x @ sep @ join (y # ys) sep"

section \<open>JavaScript values\<close>

text \<open>The values a request body can hold (\<open>JSON.parse\<close>), and \<open>undefined\<close>.  The keys of
  an object are distinct.\<close>

datatype jsval =
    JUndefined
  | JNull
  | JBool bool
  | JNum int
  | JStr string
  | JArr "jsval list"
  | JObj "(string \<times> jsval) list"

text \<open>Truthiness, as \<open>if (v)\<close>, \<open>!v\<close>, \<open>v || w\<close> and \<open>.filter(Boolean)\<close> read it.\<close>

fun truthy :: "jsval \<Rightarrow> bool" where
  "truthy JUndefined = False"
| "truthy JNull = False"
| "truthy (JBool b) = b"
| "truthy (JNum n) = (n \<noteq> 0)"
| "truthy (JStr s) = (s \<noteq> [])"
| "truthy (JArr xs) = True"
| "truthy (JObj fs) = True"

text \<open>\<open>v.key\<close> for the keys the program reads (\<open>role\<close>, \<open>content\<close>, \<open>response\<close>,
  \<open>generated_text\<close>) on a value that is neither \<open>null\<close> nor \<open>undefined\<close>: only objects
  hold them.\<close>

fun getProp :: "jsval \<Rightarrow> string \<Rightarrow> jsval" where
  "getProp (JObj fs) key = (case map_of fs key of Some v \<Rightarrow> v | None \<Rightarrow> JUndefined)"
| "getProp v key = JUndefined"

definition nullish :: "jsval \<Rightarrow> bool" where
  "nullish v = (v = JUndefined \<or> v = JNull)"

text \<open>Decimal digits of a number, for template literals.\<close>

fun showNat :: "nat \<Rightarrow> string" where
  "showNat n = (if n < 10 then [''0123456789'' ! n] else showNat (n div 10) @ [''0123456789'' ! (n mod 10)])"

declare showNat.simps [simp del]

definition showInt :: "int \<Rightarrow> string" where
  "showInt i = (if i < 0 then ''-'' @ showNat (nat (- i)) else showNat (nat i))"

text \<open>The string a template literal \<open>`${v}`\<close> puts in place of \<open>v\<close>, and
  \<open>array.join(sep)\<close>, which writes \<open>null\<close> and \<open>undefined\<close> as the empty string.\<close>

fun toStringJS :: "jsval \<Rightarrow> string"
  and joinJS :: "jsval list \<Rightarrow> string \<Rightarrow> string" where
  "toStringJS JUndefined = ''undefined''"
| "toStringJS JNull = ''null''"
| "toStringJS (JBool b) = (if b then ''true'' else ''false'')"
| "toStringJS (JNum n) = showInt n"
| "toStringJS (JStr s) = s"
| "toStringJS (JArr xs) = joinJS xs '',''"
| "toStringJS (JObj fs) = ''[object Object]''"
| "joinJS [] sep = []"
| "joinJS [x] sep = (if nullish x then [] else toStringJS x)"
| "joinJS (x # y # ys) sep = (if nullish x then [] else toStringJS x) @ sep @ joinJS (y # ys) sep"

text \<open>\<open>typeof v === 'string' ? v : undefined\<close>.\<close>

fun asString :: "jsval \<Rightarrow> string option" where
  "asString (JStr s) = Some s"
| "asString v = None"

text \<open>\<open>(v || '')\<close> where the program goes on to call a string method on it: \<open>None\<close> when the
  value is truthy and not a string, so that the call throws a \<open>TypeError\<close>.\<close>

definition orEmpty :: "jsval \<Rightarrow> string option" where
  "orEmpty v = (if truthy v then asString v else Some [])"

text \<open>An error thrown by the program: its name, its message, and for errors of the
  HTTP client the \<open>code\<close> and the \<open>response\<close> (status and the three fields of the
  body the program reads: \<open>data.error.message\<close>, \<open>data.message\<close>, \<open>data.detail\<close>).\<close>

record http_response =
  resp_status :: nat
  resp_error_message :: "string option"
  resp_message :: "string option"
  resp_detail :: "string option"

record js_error =
  err_name :: string
  err_message :: string
  err_code :: "string option"
  err_response :: "http_response option"

definition TypeError :: "string \<Rightarrow> js_error" where
  "TypeError msg = \<lparr>err_name = ''TypeError'', err_message = msg, err_code = None, err_response = None\<rparr>"

definition Error :: "string \<Rightarrow> js_error" where
  "Error msg = \<lparr>err_name = ''Error'', err_message = msg, err_code = None, err_response = None\<rparr>"

section \<open>Intent detection (\<open>backend/intentDetector.js\<close>)\<close>

record intent_category =
  intent_name :: string
  intent_description :: string
  intent_keywords :: "string list"
  intent_route :: string
  intent_ragType :: "string option"
  intent_priority :: nat

text \<open>The table \<open>INTENT_CATEGORIES\<close>, in declaration order (the order in which
  \<open>Object.entries\<close> enumerates it).\<close>

definition INTENT_CATEGORIES :: "(string \<times> intent_category) list" where
  \<open>INTENT_CATEGORIES = [
    (''CHAT'',
     \<lparr>intent_name = ''General Chat'',
      intent_description = ''General conversation and questions'',
      intent_keywords = [''hello'', ''hi'', ''how are you'', ''what is'', ''explain'', ''tell me'', ''describe'', ''chat''],
      intent_route = ''/chat'',
      intent_ragType = None,
      intent_priority = 1\<rparr>),
    (''CODE'',
     \<lparr>intent_name = ''Code Related'',
      intent_description = ''Programming, coding, development questions'',
      intent_keywords = [''code'', ''function'', ''program'', ''debug'', ''error'', ''syntax'', ''python'', ''javascript'', ''java'', ''algorithm'', ''api'', ''database''],
      intent_route = ''/rag'',
      intent_ragType = Some ''github'',
      intent_priority = 3\<rparr>),
    (''DOCUMENT_SEARCH'',
     \<lparr>intent_name = ''Document Search'',
      intent_description = ''Search in uploaded documents or knowledge base'',
      intent_keywords = [''search'', ''find'', ''document'', ''file'', ''knowledge'', ''lookup'', ''retrieve'', ''where is'', ''show me''],
      intent_route = ''/rag'',
      intent_ragType = Some ''server'',
      intent_priority = 2\<rparr>),
    (''ANALYSIS'',
     \<lparr>intent_name = ''Data Analysis'',
      intent_description = ''Data analysis, statistics, insights'',
      intent_keywords = [''analyze'', ''analysis'', ''statistics'', ''data'', ''chart'', ''graph'', ''trend'', ''compare'', ''evaluate''],
      intent_route = ''/rag'',
      intent_ragType = Some ''server'',
      intent_priority = 2\<rparr>),
    (''GITHUB'',
     \<lparr>intent_name = ''GitHub Repository'',
      intent_description = ''GitHub repository related queries'',
      intent_keywords = [''github'', ''repository'', ''repo'', ''commit'', ''pull request'', ''issue'', ''branch'', ''fork''],
      intent_route = ''/rag'',
      intent_ragType = Some ''github'',
      intent_priority = 4\<rparr>),
    (''DEVOPS'',
     \<lparr>intent_name = ''DevOps Operations'',
      intent_description = ''CI/CD, deployment, containerization, infrastructure operations'',
      intent_keywords = [''deploy'', ''deployment'', ''docker'', ''container'', ''kubernetes'', ''k8s'', ''ci/cd'', ''pipeline'', ''build'', ''jenkins'', ''github actions'', ''gitlab'', ''terraform'', ''ansible'', ''infrastructure''],
      intent_route = ''/chat'',
      intent_ragType = None,
      intent_priority = 3\<rparr>),
    (''SECURITY'',
     \<lparr>intent_name = ''Security Operations'',
      intent_description = ''Security vulnerabilities, compliance, access control, authentication'',
      intent_keywords = [''security'', ''vulnerability'', ''cve'', ''authentication'', ''authorization'', ''oauth'', ''jwt'', ''ssl'', ''tls'', ''encryption'', ''penetration'', ''audit'', ''compliance'', ''gdpr'', ''hipaa'', ''firewall'', ''intrusion''],
      intent_route = ''/chat'',
      intent_ragType = None,
      intent_priority = 4\<rparr>),
    (''MONITORING'',
     \<lparr>intent_name = ''Monitoring & Observability'',
      intent_description = ''System monitoring, logs, metrics, alerting, performance tracking'',
      intent_keywords = [''monitor'', ''monitoring'', ''log'', ''logs'', ''metric'', ''metrics'', ''alert'', ''alerting'', ''prometheus'', ''grafana'', ''elk'', ''splunk'', ''apm'', ''trace'', ''observability'', ''dashboard''],
      intent_route = ''/chat'',
      intent_ragType = None,
      intent_priority = 3\<rparr>),
    (''INCIDENT'',
     \<lparr>intent_name = ''Incident Response'',
      intent_description = ''Troubleshooting, debugging, incident management, root cause analysis'',
      intent_keywords = [''incident'', ''outage'', ''downtime'', ''troubleshoot'', ''debug'', ''fix'', ''broken'', ''not working'', ''crash'', ''failure'', ''root cause'', ''postmortem'', ''500 error'', ''404 error'', ''timeout''],
      intent_route = ''/chat'',
      intent_ragType = None,
      intent_priority = 5\<rparr>),
    (''DATABASE'',
     \<lparr>intent_name = ''Database Operations'',
      intent_description = ''Database queries, optimization, backup, migration, schema design'',
      intent_keywords = [''database'', ''sql'', ''query'', ''postgres'', ''postgresql'', ''mysql'', ''mongodb'', ''redis'', ''schema'', ''migration'', ''backup'', ''restore'', ''index'', ''optimize'', ''orm'', ''prisma'', ''sequelize''],
      intent_route = ''/chat'',
      intent_ragType = None,
      intent_priority = 3\<rparr>),
    (''DOCUMENTATION'',
     \<lparr>intent_name = ''Documentation'',
      intent_description = ''Technical documentation, API docs, runbooks, writing guides'',
      intent_keywords = [''documentation'', ''document'', ''readme'', ''wiki'', ''guide'', ''tutorial'', ''how-to'', ''manual'', ''api doc'', ''swagger'', ''openapi'', ''runbook'', ''playbook''],
      intent_route = ''/chat'',
      intent_ragType = None,
      intent_priority = 2\<rparr>),
    (''TESTING'',
     \<lparr>intent_name = ''Testing & QA'',
      intent_description = ''Unit testing, integration testing, test automation, quality assurance'',
      intent_keywords = [''test'', ''testing'', ''jest'', ''mocha'', ''pytest'', ''junit'', ''selenium'', ''cypress'', ''coverage'', ''mock'', ''stub'', ''qa'', ''quality'', ''e2e'', ''integration test'', ''unit test''],
      intent_route = ''/chat'',
      intent_ragType = None,
      intent_priority = 3\<rparr>),
    (''PERFORMANCE'',
     \<lparr>intent_name = ''Performance Optimization'',
      intent_description = ''Performance tuning, profiling, caching, scalability improvements'',
      intent_keywords = [''performance'', ''optimize'', ''optimization'', ''slow'', ''latency'', ''throughput'', ''cache'', ''caching'', ''scale'', ''scalability'', ''profile'', ''profiling'', ''bottleneck'', ''memory leak''],
      intent_route = ''/chat'',
      intent_ragType = None,
      intent_priority = 3\<rparr>),
    (''PROJECT_MANAGEMENT'',
     \<lparr>intent_name = ''Project Management'',
      intent_description = ''Sprint planning, task estimation, agile methodologies, retrospectives'',
      intent_keywords = [''sprint'', ''scrum'', ''agile'', ''kanban'', ''backlog'', ''story'', ''epic'', ''retrospective'', ''standup'', ''planning'', ''estimation'', ''velocity'', ''jira'', ''ticket''],
      intent_route = ''/chat'',
      intent_ragType = None,
      intent_priority = 2\<rparr>),
    (''CODE_REVIEW'',
     \<lparr>intent_name = ''Code Review'',
      intent_description = ''Code quality, best practices, refactoring, design patterns'',
      intent_keywords = [''code review'', ''review'', ''refactor'', ''refactoring'', ''clean code'', ''best practice'', ''design pattern'', ''solid'', ''dry'', ''code smell'', ''technical debt'', ''lint'', ''linting''],
      intent_route = ''/chat'',
      intent_ragType = None,
      intent_priority = 3\<rparr>),
    (''SYSTEM_ADMIN'',
     \<lparr>intent_name = ''System Administration'',
      intent_description = ''User management, server configuration, backups, system maintenance'',
      intent_keywords = [''admin'', ''administrator'', ''user management'', ''permission'', ''role'', ''server'', ''nginx'', ''apache'', ''systemd'', ''cron'', ''backup'', ''maintenance'', ''configuration'', ''setup''],
      intent_route = ''/chat'',
      intent_ragType = None,
      intent_priority = 3\<rparr>),
    (''WEB_SEARCH'',
     \<lparr>intent_name = ''Web Search'',
      intent_description = ''Search the internet for current information'',
      intent_keywords = [''search'', ''google'', ''bing'', ''latest'', ''news'', ''current'', ''weather'', ''price'', ''stock'', ''who is'', ''what is'', ''when is'', ''find online'', ''look up''],
      intent_route = ''/chat'',
      intent_ragType = None,
      intent_priority = 5\<rparr>),
    (''IMAGE_GENERATION'',
     \<lparr>intent_name = ''Image Generation'',
      intent_description = ''Generate images from text description'',
      intent_keywords = [''generate image'', ''create image'', ''draw'', ''picture of'', ''image of'', ''photo of'', ''illustrate'', ''paint''],
      intent_route = ''/image'',
      intent_ragType = None,
      intent_priority = 5\<rparr>)]\<close>

text \<open>The detector object: its field \<open>intents\<close> and the lines it has written to the
  logger (input prefix, detected intent, score, route).\<close>

record detector =
  intents :: "(string \<times> intent_category) list"
  logged :: "(string \<times> string \<times> nat \<times> string) list"

definition intentDetector :: detector where
  "intentDetector = \<lparr>intents = INTENT_CATEGORIES, logged = []\<rparr>"

record detect_result =
  d_intent :: string
  d_name :: string
  d_description :: string
  d_route :: string
  d_ragType :: "string option"
  d_confidence :: rat
  d_scores :: "(string \<times> nat) list"

text \<open>The inner loop of \<open>detectIntent\<close>: \<open>score += intent.priority\<close> for every keyword
  the input includes.\<close>

definition keywordScore :: "string \<Rightarrow> intent_category \<Rightarrow> nat" where
  "keywordScore input intent =
     fold (\<lambda>keyword score. if str_includes input keyword then score + intent_priority intent else score)
       (intent_keywords intent) 0"

text \<open>The outer loop: \<open>scores[intentKey] = score\<close> for every entry.\<close>

definition intentScores :: "(string \<times> intent_category) list \<Rightarrow> string \<Rightarrow> (string \<times> nat) list" where
  "intentScores its input = map (\<lambda>(intentKey, intent). (intentKey, keywordScore input intent)) its"

text \<open>The second loop: starting from \<open>('CHAT', 0)\<close>, an entry replaces the current
  choice when its score is strictly greater.\<close>

definition highestScore :: "(string \<times> nat) list \<Rightarrow> string \<times> nat" where
  "highestScore scores =
     fold (\<lambda>(intentKey, score) (detectedIntent, maxScore).
             if score > maxScore then (intentKey, score) else (detectedIntent, maxScore))
       scores (''CHAT'', 0)"

text \<open>\<open>detectIntent(userInput)\<close> for a string.  Reading \<open>intent.route\<close> of a missing
  entry throws.  The confidence \<open>Math.min(maxScore / 10, 1)\<close> is kept as the exact
  quotient, of which the program holds the nearest double.\<close>

definition detectIntent :: "detector \<Rightarrow> string \<Rightarrow> (js_error + detect_result) \<times> detector" where
  "detectIntent this userInput =
     (let input = toLowerCase userInput;
          scores = intentScores (intents this) input;
          (detectedIntent, maxScore) = highestScore scores
      in case map_of (intents this) detectedIntent of
           None \<Rightarrow> (Inl (TypeError ''Cannot read properties of undefined (reading 'route')''), this)
         | Some intent \<Rightarrow>
             (Inr \<lparr>d_intent = detectedIntent,
                   d_name = intent_name intent,
                   d_description = intent_description intent,
                   d_route = intent_route intent,
                   d_ragType = intent_ragType intent,
                   d_confidence = (if maxScore > 0 then min (of_nat maxScore / 10) 1 else 1 / 2),
                   d_scores = scores\<rparr>,
              this\<lparr>logged := logged this @ [(slice userInput 0 100, detectedIntent, maxScore, intent_route intent)]\<rparr>))"

text \<open>\<open>batchDetect(queries)\<close>: \<open>detectIntent\<close> on every query in turn.\<close>

fun batchDetect :: "detector \<Rightarrow> string list \<Rightarrow> (js_error + detect_result list) \<times> detector" where
  "batchDetect this [] = (Inr [], this)"
| "batchDetect this (query # queries) =
     (case detectIntent this query of
        (Inl e, this') \<Rightarrow> (Inl e, this')
      | (Inr r, this') \<Rightarrow>
          (case batchDetect this' queries of
             (Inl e, this'') \<Rightarrow> (Inl e, this'')
           | (Inr rs, this'') \<Rightarrow> (Inr (r # rs), this'')))"

section \<open>The streaming relay's chunk loop\<close>

text \<open>The fallback branch of \<open>generateStream\<close> (both versions of the service module):
  \<^verbatim>\<open>
  const chunkSize = 10;
  for (let i = 0; i < text.length; i += chunkSize) {
    yield { content: text.slice(i, i + chunkSize) };
  }\<close>\<close>

definition chunkSize :: nat where
  "chunkSize = 10"

function simulateStream :: "string \<Rightarrow> nat \<Rightarrow> string list" where
  "simulateStream text i =
     (if i < length text then slice text i (i + chunkSize) # simulateStream text (i + chunkSize) else [])"
  by pat_completeness auto
termination
  by (relation "measure (\<lambda>(text, i). length text - i)") (auto simp: chunkSize_def)

declare simulateStream.simps [simp del]

section \<open>The service module (\<open>llmService\<close>)\<close>

text \<open>
  The repository holds two versions of the module behind \<open>require('./llmService')\<close>:
  version A (\<open>src/unnamed/part_009\<close>: default model \<open>local/aakarsh\<close>, safety rules, neural
  heads) and version B (\<open>src/unnamed/part_010\<close>: default model \<open>local/instruct\<close>, TinyLLM,
  the Hugging Face router).  A function whose text is the same in both takes the version
  as its first argument, to reach that version's catalog, default model,
  \<open>prepareNotices\<close> and \<open>generateWithLocalModel\<close>; a function that differs is defined once
  per version, with suffix \<open>_A\<close> or \<open>_B\<close>.
\<close>

datatype version = VersionA | VersionB

text \<open>An entry of \<open>AVAILABLE_MODELS\<close>.  A field the entry does not declare is
  \<open>undefined\<close> (\<open>None\<close>; \<open>False\<close> for the two flags, which are only tested).\<close>

record model_info =
  m_name :: "string option"
  m_provider :: "string option"
  m_description :: "string option"
  m_maxTokens :: "nat option"
  m_free :: bool
  m_type :: "string option"
  m_transformersModel :: "string option"
  m_endpoint :: "string option"
  m_ollamaModel :: "string option"
  m_requiresKey :: "string option"
  m_hfModel :: "string option"
  m_vision :: bool
  m_notice :: "string option"

text \<open>What the module reads of the result of \<open>nlpService.analyze\<close>: the keyword texts, the
  two sentiment flags, whether \<open>entities\<close> is there, and \<open>entities.topics\<close>.\<close>

record nlp_analysis =
  nlp_keywords :: "string list"
  nlp_isPositive :: bool
  nlp_isNegative :: bool
  nlp_entities :: bool
  nlp_topics :: "string list"

definition emptyAnalysis :: nlp_analysis where
  "emptyAnalysis = \<lparr>nlp_keywords = [], nlp_isPositive = False, nlp_isNegative = False,
     nlp_entities = False, nlp_topics = []\<rparr>"

text \<open>
  Everything outside the module that a request meets: the environment (\<open>OLLAMA_HOST\<close>
  with its trailing slash removed, whether an OpenAI client was built, whether a Hugging
  Face key is set), the answers of the remote backends, and the collaborators whose
  output the module only passes on: the linguistic analyzer, the TinyLLM knowledge base,
  and the texts of the two neural heads (floating-point activations).
  \<^item> \<open>openai_create model messages\<close>: the content of the first choice, or the error thrown;
  \<^item> \<open>hf_post model messages\<close>: \<open>data?.choices?.[0]?.message?.content\<close>, or the error;
  \<^item> \<open>ollama_post baseUrl model prompt\<close>: \<open>response.data\<close>, or the error;
  \<^item> \<open>xenova_run key prompt\<close>: the pipeline's \<open>outputs\<close>, or the error of loading or running it;
  \<^item> \<open>openai_stream\<close>, \<open>ollama_stream\<close>: the contents the native stream delivers, and the
    error that ends it, if any.
  The other parameters of a request (temperature, token limits, timeouts) are not modelled.
\<close>

record world =
  OLLAMA_HOST :: string
  openaiClient :: bool
  HUGGINGFACE_API_KEY :: bool
  openai_create :: "string \<Rightarrow> jsval \<Rightarrow> js_error + string"
  hf_post :: "string \<Rightarrow> jsval list \<Rightarrow> js_error + jsval"
  ollama_post :: "string \<Rightarrow> string \<Rightarrow> jsval \<Rightarrow> js_error + jsval"
  xenova_run :: "string \<Rightarrow> jsval \<Rightarrow> js_error + jsval"
  openai_stream :: "string \<Rightarrow> jsval list \<Rightarrow> string list \<times> js_error option"
  ollama_stream :: "string \<Rightarrow> string \<Rightarrow> jsval list \<Rightarrow> string list \<times> js_error option"
  nlp_analyze :: "string \<Rightarrow> nlp_analysis"
  tinyllm_reply :: "string \<Rightarrow> string"
  aakarsh_mesh :: "string \<Rightarrow> string"
  local_head :: "string \<Rightarrow> string"

text \<open>The catalogs, in declaration order.\<close>

definition AVAILABLE_MODELS_A :: "world \<Rightarrow> (string \<times> model_info) list" where
  \<open>AVAILABLE_MODELS_A w = [
    (''xenova/tinyllama-chat'',
     \<lparr>m_name = Some ''TinyLlama Chat (Local)'',
      m_provider = Some ''Local CPU'',
      m_description = Some ''Fast, lightweight 1.1B model running entirely on your machine. Best for quick chats.'',
      m_maxTokens = Some 512,
      m_free = True,
      m_type = Some ''xenova'',
      m_transformersModel = Some ''Xenova/tinyllama-chat'',
      m_endpoint = None,
      m_ollamaModel = None,
      m_requiresKey = None,
      m_hfModel = None,
      m_vision = False,
      m_notice = Some ''Runs locally on CPU. No data leaves your device.''\<rparr>),
    (''xenova/phi-1_5'',
     \<lparr>m_name = Some ''Phi-1.5 (Local)'',
      m_provider = Some ''Local CPU'',
      m_description = Some ''Microsoft's Phi-1.5 running locally. Good balance of speed and reasoning.'',
      m_maxTokens = Some 512,
      m_free = True,
      m_type = Some ''xenova'',
      m_transformersModel = Some ''Xenova/phi-1_5'',
      m_endpoint = None,
      m_ollamaModel = None,
      m_requiresKey = None,
      m_hfModel = None,
      m_vision = False,
      m_notice = Some ''Runs locally. First use downloads ~1.7GB weights.''\<rparr>),
    (''local/aakarsh'',
     \<lparr>m_name = Some ''AAKARSH (Local)'',
      m_provider = Some ''Built-in'',
      m_description = Some ''Brand-new on-device LLM with richer NLP signals and a neural mesh for control-oriented replies.'',
      m_maxTokens = Some 2048,
      m_free = True,
      m_type = Some ''local'',
      m_transformersModel = None,
      m_endpoint = None,
      m_ollamaModel = None,
      m_requiresKey = None,
      m_hfModel = None,
      m_vision = False,
      m_notice = Some ''Enhanced NLP + neural mesh routing. Entirely local and deterministic.''\<rparr>),
    (''local/assistant-10m'',
     \<lparr>m_name = Some ''Local Assistant (10M)'',
      m_provider = Some ''Built-in'',
      m_description = Some ''Lightweight 10M-parameter assistant optimized for quick on-device responses without external calls.'',
      m_maxTokens = Some 1024,
      m_free = True,
      m_type = Some ''local'',
      m_transformersModel = None,
      m_endpoint = None,
      m_ollamaModel = None,
      m_requiresKey = None,
      m_hfModel = None,
      m_vision = False,
      m_notice = Some ''Deterministic built-in assistant tuned for small-footprint deployments.''\<rparr>),
    (''local/instruct'',
     \<lparr>m_name = Some ''Rule-Based Assistant'',
      m_provider = Some ''Built-in'',
      m_description = Some ''Instant responses using advanced pattern matching. Zero latency, offline capable.'',
      m_maxTokens = Some 1024,
      m_free = True,
      m_type = Some ''local'',
      m_transformersModel = None,
      m_endpoint = None,
      m_ollamaModel = None,
      m_requiresKey = None,
      m_hfModel = None,
      m_vision = False,
      m_notice = None\<rparr>),
    (''ollama/mistral:7b'',
     \<lparr>m_name = Some ''Mistral 7B (Ollama)'',
      m_provider = Some ''Ollama Local'',
      m_description = Some ''High-performance local model via Ollama. Requires Ollama app running.'',
      m_maxTokens = Some 2048,
      m_free = True,
      m_type = Some ''ollama'',
      m_transformersModel = None,
      m_endpoint = Some (OLLAMA_HOST w),
      m_ollamaModel = Some ''mistral:7b'',
      m_requiresKey = None,
      m_hfModel = None,
      m_vision = False,
      m_notice = Some ''Requires Ollama running locally with "mistral" model.''\<rparr>),
    (''gpt-3.5-turbo'',
     \<lparr>m_name = Some ''GPT-3.5 Turbo'',
      m_provider = Some ''OpenAI'',
      m_description = Some ''OpenAI Cloud API.'',
      m_maxTokens = Some 4096,
      m_free = False,
      m_type = Some ''openai'',
      m_transformersModel = None,
      m_endpoint = None,
      m_ollamaModel = None,
      m_requiresKey = Some ''OPENAI_API_KEY'',
      m_hfModel = None,
      m_vision = False,
      m_notice = None\<rparr>),
    (''gpt-4o'',
     \<lparr>m_name = Some ''GPT-4o (Vision)'',
      m_provider = Some ''OpenAI'',
      m_description = Some ''OpenAI Multimodal Model (Text + Vision).'',
      m_maxTokens = Some 4096,
      m_free = False,
      m_type = Some ''openai'',
      m_transformersModel = None,
      m_endpoint = None,
      m_ollamaModel = None,
      m_requiresKey = Some ''OPENAI_API_KEY'',
      m_hfModel = None,
      m_vision = True,
      m_notice = None\<rparr>),
    (''ollama/llava'',
     \<lparr>m_name = Some ''LLaVA (Vision)'',
      m_provider = Some ''Ollama Local'',
      m_description = Some ''Local Multimodal Model (Text + Vision). Requires Ollama.'',
      m_maxTokens = Some 2048,
      m_free = True,
      m_type = Some ''ollama'',
      m_transformersModel = None,
      m_endpoint = Some (OLLAMA_HOST w),
      m_ollamaModel = Some ''llava'',
      m_requiresKey = None,
      m_hfModel = None,
      m_vision = True,
      m_notice = Some ''Requires Ollama running locally with "llava" model.''\<rparr>)]\<close>

definition AVAILABLE_MODELS_B :: "world \<Rightarrow> (string \<times> model_info) list" where
  \<open>AVAILABLE_MODELS_B w = [
    (''local/instruct'',
     \<lparr>m_name = Some ''Tiny LLM (Local Assistant)'',
      m_provider = Some ''Built-in'',
      m_description = Some ''Lightweight, rule-based language model running locally. No downloads required.'',
      m_maxTokens = Some 1024,
      m_free = True,
      m_type = Some ''local'',
      m_transformersModel = None,
      m_endpoint = None,
      m_ollamaModel = None,
      m_requiresKey = None,
      m_hfModel = None,
      m_vision = False,
      m_notice = None\<rparr>),
    (''xenova/tinyllama-chat'',
     \<lparr>m_name = Some ''TinyLlama Chat (Local LLM)'',
      m_provider = Some ''Local CPU'',
      m_description = Some ''1.1B model. Requires model files in backend/models.'',
      m_maxTokens = Some 512,
      m_free = True,
      m_type = Some ''xenova'',
      m_transformersModel = Some ''Xenova/tinyllama-chat'',
      m_endpoint = None,
      m_ollamaModel = None,
      m_requiresKey = None,
      m_hfModel = None,
      m_vision = False,
      m_notice = Some ''Requires model files to be manually downloaded to backend/models.''\<rparr>),
    (''xenova/phi-1_5'',
     \<lparr>m_name = Some ''Phi-1.5 (Local LLM)'',
      m_provider = Some ''Local CPU'',
      m_description = Some ''Microsoft Phi-1.5. Requires model files in backend/models.'',
      m_maxTokens = Some 512,
      m_free = True,
      m_type = Some ''xenova'',
      m_transformersModel = Some ''Xenova/phi-1_5'',
      m_endpoint = None,
      m_ollamaModel = None,
      m_requiresKey = None,
      m_hfModel = None,
      m_vision = False,
      m_notice = Some ''Requires model files to be manually downloaded to backend/models.''\<rparr>),
    (''ollama/mistral:7b'',
     \<lparr>m_name = Some ''Mistral 7B (Ollama)'',
      m_provider = Some ''Ollama Local'',
      m_description = Some ''Requires Ollama app running locally.'',
      m_maxTokens = Some 2048,
      m_free = True,
      m_type = Some ''ollama'',
      m_transformersModel = None,
      m_endpoint = Some (OLLAMA_HOST w),
      m_ollamaModel = Some ''mistral:7b'',
      m_requiresKey = None,
      m_hfModel = None,
      m_vision = False,
      m_notice = Some ''Requires Ollama running locally.''\<rparr>),
    (''huggingface/meta-llama-3.1-8b-instruct'',
     \<lparr>m_name = Some ''Llama 3.1 8B (Cloud)'',
      m_provider = Some ''Hugging Face'',
      m_description = Some ''Remote inference via Hugging Face API.'',
      m_maxTokens = Some 4096,
      m_free = False,
      m_type = Some ''huggingface'',
      m_transformersModel = None,
      m_endpoint = None,
      m_ollamaModel = None,
      m_requiresKey = Some ''HUGGINGFACE_API_KEY'',
      m_hfModel = Some ''meta-llama/Llama-3.1-8B-Instruct:fastest'',
      m_vision = False,
      m_notice = Some ''Requires API Key.''\<rparr>),
    (''gpt-3.5-turbo'',
     \<lparr>m_name = Some ''GPT-3.5 Turbo'',
      m_provider = Some ''OpenAI'',
      m_description = Some ''OpenAI Cloud API.'',
      m_maxTokens = Some 4096,
      m_free = False,
      m_type = Some ''openai'',
      m_transformersModel = None,
      m_endpoint = None,
      m_ollamaModel = None,
      m_requiresKey = Some ''OPENAI_API_KEY'',
      m_hfModel = None,
      m_vision = False,
      m_notice = None\<rparr>),
    (''gpt-4o'',
     \<lparr>m_name = Some ''GPT-4o (Vision)'',
      m_provider = Some ''OpenAI'',
      m_description = Some ''OpenAI Multimodal Model (Text + Vision).'',
      m_maxTokens = Some 4096,
      m_free = False,
      m_type = Some ''openai'',
      m_transformersModel = None,
      m_endpoint = None,
      m_ollamaModel = None,
      m_requiresKey = Some ''OPENAI_API_KEY'',
      m_hfModel = None,
      m_vision = True,
      m_notice = None\<rparr>),
    (''ollama/llava'',
     \<lparr>m_name = Some ''LLaVA (Vision)'',
      m_provider = Some ''Ollama Local'',
      m_description = Some ''Local Multimodal Model (Text + Vision). Requires Ollama.'',
      m_maxTokens = Some 2048,
      m_free = True,
      m_type = Some ''ollama'',
      m_transformersModel = None,
      m_endpoint = Some (OLLAMA_HOST w),
      m_ollamaModel = Some ''llava'',
      m_requiresKey = None,
      m_hfModel = None,
      m_vision = True,
      m_notice = Some ''Requires Ollama running locally with "llava" model.''\<rparr>)]\<close>

definition AVAILABLE_MODELS :: "version \<Rightarrow> world \<Rightarrow> (string \<times> model_info) list" where
  "AVAILABLE_MODELS v w = (case v of VersionA \<Rightarrow> AVAILABLE_MODELS_A w | VersionB \<Rightarrow> AVAILABLE_MODELS_B w)"

text \<open>\<open>this.defaultModel\<close>, set in the constructor.\<close>

definition defaultModel :: "version \<Rightarrow> string" where
  "defaultModel v = (case v of VersionA \<Rightarrow> ''local/aakarsh'' | VersionB \<Rightarrow> ''local/instruct'')"

text \<open>
  \<open>AVAILABLE_MODELS[modelId]\<close>.  The catalog is an object literal, so a key of
  \<open>Object.prototype\<close> reads an inherited member: a truthy value none of whose fields the
  program reads is defined.\<close>

definition objectPrototypeKeys :: "string list" where
  "objectPrototypeKeys = [''constructor'', ''__defineGetter__'', ''__defineSetter__'',
     ''hasOwnProperty'', ''__lookupGetter__'', ''__lookupSetter__'', ''isPrototypeOf'',
     ''propertyIsEnumerable'', ''toString'', ''valueOf'', ''__proto__'', ''toLocaleString'']"

definition inheritedMember :: model_info where
  "inheritedMember = \<lparr>m_name = None, m_provider = None, m_description = None, m_maxTokens = None,
     m_free = False, m_type = None, m_transformersModel = None, m_endpoint = None,
     m_ollamaModel = None, m_requiresKey = None, m_hfModel = None, m_vision = False,
     m_notice = None\<rparr>"

definition lookupModel :: "(string \<times> model_info) list \<Rightarrow> string \<Rightarrow> model_info option" where
  "lookupModel models modelId =
     (case map_of models modelId of
        Some m \<Rightarrow> Some m
      | None \<Rightarrow> if modelId \<in> set objectPrototypeKeys then Some inheritedMember else None)"

text \<open>The \<open>options\<close> object, as far as it steers the module: \<open>notice\<close> and
  \<open>inlineModelNotice\<close>.\<close>

record gen_options =
  opt_notice :: jsval
  opt_inlineModelNotice :: jsval

definition noOptions :: gen_options where
  "noOptions = \<lparr>opt_notice = JUndefined, opt_inlineModelNotice = JUndefined\<rparr>"

text \<open>\<open>{ requestedModel, notice }\<close>, the options of every fallback call.\<close>

definition withNotice :: "jsval \<Rightarrow> gen_options" where
  "withNotice notice = \<lparr>opt_notice = notice, opt_inlineModelNotice = JUndefined\<rparr>"

text \<open>The result of a generation call.  \<open>loading\<close> is absent from the results of the
  OpenAI adapter.\<close>

record gen_result =
  r_text :: string
  r_model :: string
  r_modelInfo :: "model_info option"
  r_loading :: "bool option"
  r_notices :: "string list"

text \<open>The result of \<open>chat\<close>.  Its fields are copied from a generation result, and are
  \<open>undefined\<close> (\<open>None\<close>) where that was a pending promise.\<close>

record chat_result =
  c_message :: "string option"
  c_model :: "string option"
  c_modelInfo :: "model_info option"
  c_loading :: "bool option"
  c_notices :: "string list option"

text \<open>The calls a request makes, in order: to a remote backend, to the rule-based
  adapter (\<open>generateWithLocalModel\<close>, \<open>generateLocalChatResponse\<close>, with the prompt or
  messages and the model id passed), to the analyzer, to a generation head.\<close>

datatype call =
    OpenAI string
  | HuggingFace string
  | Ollama string string
  | Xenova string
  | LocalModel jsval string
  | LocalChat jsval string
  | NlpAnalyze string
  | NeuralHead string
  | TinyLLM jsval

type_synonym 'a traced = "call list \<times> (js_error + 'a)"

subsection \<open>Notices\<close>

definition normalizeNotices :: "jsval \<Rightarrow> string list" where
  "normalizeNotices v =
     (if \<not> truthy v then []
      else case v of
        JArr entries \<Rightarrow>
          filter (\<lambda>s. s \<noteq> [])
            (map (\<lambda>entry. case entry of JStr s \<Rightarrow> trim s | _ \<Rightarrow> trim (toStringJS entry)) entries)
      | JStr s \<Rightarrow> (let trimmed = trim s in if trimmed \<noteq> [] then [trimmed] else [])
      | _ \<Rightarrow> (let stringified = trim (toStringJS v) in if stringified \<noteq> [] then [stringified] else []))"

text \<open>\<open>model?.notice\<close>.\<close>

definition modelNotice :: "model_info option \<Rightarrow> jsval" where
  "modelNotice model =
     (case model of
        None \<Rightarrow> JUndefined
      | Some m \<Rightarrow> (case m_notice m of None \<Rightarrow> JUndefined | Some s \<Rightarrow> JStr s))"

text \<open>\<open>prepareNotices(model, options)\<close>; the two versions differ in the default of
  \<open>inlineModelNotice\<close>: \<open>true\<close> in A, \<open>model?.type !== 'huggingface'\<close> in B.\<close>

definition prepareNotices :: "version \<Rightarrow> model_info option \<Rightarrow> gen_options \<Rightarrow> string list \<times> string list" where
  "prepareNotices v model options =
     (let inline = normalizeNotices (opt_notice options);
          modelNotices = normalizeNotices (modelNotice model);
          extra = modelNotices;
          inlineModelNotice =
            (case opt_inlineModelNotice options of
               JBool b \<Rightarrow> b
             | _ \<Rightarrow> (case v of
                        VersionA \<Rightarrow> True
                      | VersionB \<Rightarrow> (case model of None \<Rightarrow> True | Some m \<Rightarrow> m_type m \<noteq> Some ''huggingface'')))
      in (if modelNotices \<noteq> [] \<and> inlineModelNotice then inline @ modelNotices else inline, extra))"

definition composeContent :: "string \<Rightarrow> string list \<Rightarrow> string" where
  "composeContent content inlineNotices =
     (if inlineNotices = [] then content
      else join inlineNotices ''\<newline>\<newline>'' @ ''\<newline>\<newline>'' @ content)"

definition formatTopicList :: "string list \<Rightarrow> string" where
  \<open>formatTopicList topics =
     (case topics of
        [] \<Rightarrow> ''''
      | [a] \<Rightarrow> ''"'' @ a @ ''"''
      | [a, b] \<Rightarrow> ''"'' @ a @ ''" and "'' @ b @ ''"''
      | _ \<Rightarrow> join (map (\<lambda>item. ''"'' @ item @ ''"'') (butlast topics)) '', '' @ '', and "'' @ last topics @ ''"'')\<close>

subsection \<open>The rule-based adapter of version A\<close>

text \<open>\<open>LOCAL_SAFETY_RULES\<close>.  Each pattern is a case-insensitive alternation of literal
  words, \<open>/(a|b|c)/i\<close>: it matches when the lower-cased prompt includes one of them.\<close>

record safety_rule =
  rule_pattern :: "string list"
  rule_reason :: string

definition LOCAL_SAFETY_RULES :: "safety_rule list" where
  \<open>LOCAL_SAFETY_RULES = [
    \<lparr>rule_pattern = [''exploit'', ''backdoor'', ''zero-day'', ''ddos'', ''botnet'', ''ransomware''], rule_reason = ''security attacks''\<rparr>,
    \<lparr>rule_pattern = [''bomb'', ''weapon'', ''firearm'', ''munition'', ''explosive''], rule_reason = ''weaponization content''\<rparr>,
    \<lparr>rule_pattern = [''self-harm'', ''suicide'', ''kill myself'', ''end my life''], rule_reason = ''self-harm support''\<rparr>,
    \<lparr>rule_pattern = [''hate speech'', ''racial slur'', ''ethnic slur'', ''genocide''], rule_reason = ''hate or discriminatory speech''\<rparr>,
    \<lparr>rule_pattern = [''deepfake'', ''impersonat'', ''fake identity''], rule_reason = ''impersonation or synthetic identity''\<rparr>]\<close>

definition patternTest :: "string list \<Rightarrow> string \<Rightarrow> bool" where
  "patternTest alternatives s = list_ex (\<lambda>alt. str_includes (toLowerCase s) alt) alternatives"

record safety_verdict =
  blocked :: bool
  sv_reason :: "string option"
  sv_message :: "string option"

definition runLocalSafetyChecks :: "jsval \<Rightarrow> safety_verdict" where
  \<open>runLocalSafetyChecks prompt =
     (case prompt of
        JStr s \<Rightarrow>
          (if s = [] then \<lparr>blocked = False, sv_reason = None, sv_message = None\<rparr>
           else case find (\<lambda>rule. patternTest (rule_pattern rule) s) LOCAL_SAFETY_RULES of
                  Some match \<Rightarrow>
                    \<lparr>blocked = True,
                     sv_reason = Some (rule_reason match),
                     sv_message = Some (''I can't help with that request because it violates the '' @ rule_reason match @ '' policy. This local assistant ships with commercial-ready guardrails'' @ emDash @ ''please adjust the prompt to keep it safe.'')\<rparr>
                | None \<Rightarrow> \<lparr>blocked = False, sv_reason = None, sv_message = None\<rparr>)
      | _ \<Rightarrow> \<lparr>blocked = False, sv_reason = None, sv_message = None\<rparr>)\<close>

record product_profile =
  p_name :: string
  p_version :: string
  p_parameters :: string
  p_contextWindow :: string
  p_latency :: string
  p_privacy :: string
  p_safety :: string
  p_observability :: string
  p_integration :: string
  p_usage :: string

definition LOCAL_ASSISTANT_PRODUCT_PROFILE :: product_profile where
  \<open>LOCAL_ASSISTANT_PRODUCT_PROFILE = \<lparr>p_name = ''Local Assistant (10M)'',
     p_version = ''1.0.0'',
     p_parameters = ''10 million dense parameters'',
     p_contextWindow = ''1K tokens'',
     p_latency = ''Fast CPU-only path tuned for sub-second replies on typical laptops'',
     p_privacy = ''Runs entirely on-device; no data leaves your machine.'',
     p_safety = ''Deterministic NLP guardrails with disallowed-content filters and tone adaptation.'',
     p_observability = ''Structured traces for intent, sentiment, keyword routing, and neural head activations.'',
     p_integration = ''Use `/api/chat` or `/api/generate` with `model=local/assistant-10m`; streaming supported.'',
     p_usage = ''Best for productized copilots where offline, predictable responses are required.''\<rparr>\<close>

definition AAKARSH_PRODUCT_PROFILE :: product_profile where
  \<open>AAKARSH_PRODUCT_PROFILE = \<lparr>p_name = ''AAKARSH'',
     p_version = ''1.0.0'',
     p_parameters = ''120 million hybrid parameters (sparse + dense)'',
     p_contextWindow = ''4K tokens'',
     p_latency = ''CPU-only, optimized activation pruning and caching for quick loops'',
     p_privacy = ''Fully local execution. No third-party calls'' @ emDash @ ''analysis, routing, and synthesis stay on-device.'',
     p_safety = ''Expanded intent-aware filters, tone aware cooling, and deterministic refusals.'',
     p_observability = ''Insight traces for entities, domain focus, intent strength, and neural mesh activations.'',
     p_integration = ''Use `/api/chat` or `/api/generate` with `model=local/aakarsh`; streaming supported.'',
     p_usage = ''Ideal for production copilots needing richer NLP context with lightweight neural control.''\<rparr>\<close>

definition sentimentLabel :: "nlp_analysis \<Rightarrow> string" where
  "sentimentLabel nlpAnalysis =
     (if nlp_isPositive nlpAnalysis then ''positive''
      else if nlp_isNegative nlpAnalysis then ''cautious'' else ''neutral'')"

definition buildLocalAssistantProductSheet :: "nlp_analysis \<Rightarrow> string" where
  \<open>buildLocalAssistantProductSheet nlpAnalysis =
     (let highlightKeywords = filter (\<lambda>s. s \<noteq> []) (take 4 (nlp_keywords nlpAnalysis));
          sentimentLabel = sentimentLabel nlpAnalysis;
          sections =
            [''Product profile: '' @ p_parameters LOCAL_ASSISTANT_PRODUCT_PROFILE @ '', '' @ p_contextWindow LOCAL_ASSISTANT_PRODUCT_PROFILE @ '', '' @ p_latency LOCAL_ASSISTANT_PRODUCT_PROFILE @ ''.'',
             ''Trust & privacy: '' @ p_privacy LOCAL_ASSISTANT_PRODUCT_PROFILE @ '' Guardrails: '' @ p_safety LOCAL_ASSISTANT_PRODUCT_PROFILE,
             ''Operational readiness: '' @ p_observability LOCAL_ASSISTANT_PRODUCT_PROFILE @ '' Integrations: '' @ p_integration LOCAL_ASSISTANT_PRODUCT_PROFILE,
             ''Intended use: '' @ p_usage LOCAL_ASSISTANT_PRODUCT_PROFILE,
             if highlightKeywords \<noteq> []
             then ''Focus cues from your prompt: '' @ join highlightKeywords '', '' @ '' (tone: '' @ sentimentLabel @ '').''
             else ''Tone read: '' @ sentimentLabel @ ''.'']
      in ''Production sheet '' @ emDash @ '' '' @ p_name LOCAL_ASSISTANT_PRODUCT_PROFILE @ '' v'' @ p_version LOCAL_ASSISTANT_PRODUCT_PROFILE @ '':\<newline>'' @ join sections ''\<newline>'')\<close>

definition buildAakarshProductSheet :: "nlp_analysis \<Rightarrow> string" where
  \<open>buildAakarshProductSheet nlpAnalysis =
     (let highlightKeywords = filter (\<lambda>s. s \<noteq> []) (take 5 (nlp_keywords nlpAnalysis));
          sentimentLabel = sentimentLabel nlpAnalysis;
          domainHints = take 3 (nlp_topics nlpAnalysis);
          sections = filter (\<lambda>s. s \<noteq> [])
            [''Model core: '' @ p_parameters AAKARSH_PRODUCT_PROFILE @ '', '' @ p_contextWindow AAKARSH_PRODUCT_PROFILE @ '', '' @ p_latency AAKARSH_PRODUCT_PROFILE @ ''.'',
             ''Trust & safety: '' @ p_privacy AAKARSH_PRODUCT_PROFILE @ '' Guardrails: '' @ p_safety AAKARSH_PRODUCT_PROFILE,
             ''Observability: '' @ p_observability AAKARSH_PRODUCT_PROFILE,
             ''Integration: '' @ p_integration AAKARSH_PRODUCT_PROFILE,
             ''Usage fit: '' @ p_usage AAKARSH_PRODUCT_PROFILE,
             if highlightKeywords \<noteq> []
             then ''Prompt focal points: '' @ join highlightKeywords '', '' @ '' (tone: '' @ sentimentLabel @ '').''
             else ''Tone read: '' @ sentimentLabel @ ''.'',
             if domainHints \<noteq> [] then ''Detected domains: '' @ join domainHints '', '' @ ''.'' else '''']
      in ''Production sheet '' @ emDash @ '' '' @ p_name AAKARSH_PRODUCT_PROFILE @ '' v'' @ p_version AAKARSH_PRODUCT_PROFILE @ '':\<newline>'' @ join sections ''\<newline>'')\<close>

text \<open>\<open>a || b\<close> on an optional string and a string.\<close>

definition orElse :: "string option \<Rightarrow> string \<Rightarrow> string" where
  "orElse a b = (case a of Some s \<Rightarrow> if s \<noteq> [] then s else b | None \<Rightarrow> b)"

definition buildOpenSourceCapabilitySummary :: "world \<Rightarrow> string list" where
  \<open>buildOpenSourceCapabilitySummary w =
     take 6
       (map (\<lambda>(id, info).
               let capabilityNotes =
                     (case m_maxTokens info of
                        Some n \<Rightarrow> if n \<noteq> 0 then [showNat n @ '' token window''] else []
                      | None \<Rightarrow> []) @
                     (if m_vision info then [''vision''] else []) @
                     (if m_free info then [''no-cost''] else []);
                   suffix = (if capabilityNotes \<noteq> [] then '' ('' @ join capabilityNotes '', '' @ '')'' else '''');
                   descriptor = orElse (m_description info) ''Open-source capable model''
               in ''- '' @ orElse (m_name info) id @ '': '' @ descriptor @ suffix)
          (filter (\<lambda>(id, info). m_type info \<in> {Some ''xenova'', Some ''ollama'', Some ''local''})
             (AVAILABLE_MODELS_A w)))\<close>

text \<open>The two neural heads.  On a blank prompt each returns a fixed text; otherwise its
  text is built from floating-point activations and the full analysis, and is taken from
  the world (\<open>aakarsh_mesh\<close>, \<open>local_head\<close>).  The argument \<open>p\<close> is \<open>(prompt || '')\<close>.\<close>

definition generateAakarshNeuralResponse :: "world \<Rightarrow> string \<Rightarrow> nlp_analysis \<Rightarrow> string" where
  \<open>generateAakarshNeuralResponse w p nlpAnalysis =
     (let safePrompt = trim p
      in if safePrompt = [] then
           (let openSourceLines = buildOpenSourceCapabilitySummary w;
                capabilityBlock =
                  (if openSourceLines \<noteq> []
                   then ''\<newline>Open-source peers available for pairing:\<newline>'' @ join openSourceLines ''\<newline>''
                   else '''')
            in ''AAKARSH is primed with richer NLP signals, neural mesh routing, and production guardrails. Ask away!'' @
               capabilityBlock @ ''\<newline>\<newline>'' @ buildAakarshProductSheet nlpAnalysis)
         else aakarsh_mesh w p)\<close>

definition generateLocalNeuralResponse :: "world \<Rightarrow> string \<Rightarrow> nlp_analysis \<Rightarrow> string" where
  \<open>generateLocalNeuralResponse w p nlpAnalysis =
     (let safePrompt = trim p
      in if safePrompt = [] then
           (let openSourceLines = buildOpenSourceCapabilitySummary w;
                capabilityBlock =
                  (if openSourceLines \<noteq> []
                   then ''\<newline>Open-source peers ready to slot in:\<newline>'' @ join openSourceLines ''\<newline>''
                   else '''')
            in ''Local Assistant (10M) is warmed up with on-device NLP + a compact neural head. Ask away!'' @
               capabilityBlock @ ''\<newline>\<newline>'' @ buildLocalAssistantProductSheet nlpAnalysis)
         else local_head w p)\<close>

text \<open>\<open>AVAILABLE_MODELS[modelId] && AVAILABLE_MODELS[modelId].type === 'local' ? modelId :
  this.defaultModel\<close>, the first statement of both entry points of the rule-based adapter.\<close>

definition fallbackModelId :: "version \<Rightarrow> world \<Rightarrow> string \<Rightarrow> string" where
  "fallbackModelId v w modelId =
     (case lookupModel (AVAILABLE_MODELS v w) modelId of
        Some m \<Rightarrow> if m_type m = Some ''local'' then modelId else defaultModel v
      | None \<Rightarrow> defaultModel v)"

text \<open>
  \<open>generateWithLocalModel\<close> of version A, in three parts.  The first \<open>if\<close> chain may set
  \<open>response\<close>; \<open>prompt\<close> is the argument after the parameter default, \<open>p\<close> is
  \<open>(prompt || '')\<close> and \<open>lowerPrompt\<close> its lower case.\<close>

definition localModelFirstChain ::
    "world \<Rightarrow> string \<Rightarrow> jsval \<Rightarrow> string \<Rightarrow> string \<Rightarrow> nlp_analysis option \<Rightarrow> call list \<times> string option" where
  \<open>localModelFirstChain w fallbackId prompt p lowerPrompt nlpAnalysis =
     (if fallbackId = ''local/aakarsh'' then
        ([NeuralHead ''local/aakarsh''],
         Some (generateAakarshNeuralResponse w p (case nlpAnalysis of Some a \<Rightarrow> a | None \<Rightarrow> emptyAnalysis)))
      else if fallbackId = ''local/assistant-10m'' then
        ([NeuralHead ''local/assistant-10m''],
         Some (generateLocalNeuralResponse w p (case nlpAnalysis of Some a \<Rightarrow> a | None \<Rightarrow> emptyAnalysis)))
      else if \<not> truthy prompt \<or> trim p = [] then
        ([], Some (''I'm here and ready when you are. Ask me anything about AI, coding, DevOps, security, monitoring, databases, testing, or this project.''))
      else case nlpAnalysis of
             None \<Rightarrow> ([], None)
           | Some a \<Rightarrow>
               if nlp_entities a then
                 (if str_includes lowerPrompt ''nlp'' \<or> str_includes lowerPrompt ''natural language'' then
                    ([], Some (''I now have advanced NLP capabilities powered by compromise.js! Here's what I can do:\<newline>\<newline>**Entity Recognition**: I can identify people, places, organizations, dates, and values in your text.\<newline>**Sentiment Analysis**: I can determine if text is positive, negative, or neutral.\<newline>**Keyword Extraction**: I can identify the most important keywords and topics.\<newline>**Intent Classification**: I can understand whether you're asking a question, giving a command, or making a statement.\<newline>**Part-of-Speech Tagging**: I can analyze the grammatical structure of text.\<newline>\<newline>All these capabilities are rule-based and deterministic - no hallucinations, just accurate language understanding!''))
                  else if str_includes lowerPrompt ''analyze'' \<and> nlp_keywords a \<noteq> [] then
                    (let keywordList = join (take 3 (nlp_keywords a)) '', ''
                     in ([], Some (''I can help you analyze "'' @ keywordList @ ''" and related topics. My NLP engine has identified these as key concepts in your query. Let me provide targeted guidance based on what you're looking for.'')))
                  else ([], None))
               else ([], None))\<close>

text \<open>The second chain assigns \<open>response\<close> in every branch.  Its last test reads
  \<open>prompt.length\<close>, which throws on \<open>null\<close> and is \<open>undefined\<close> on a number or a boolean.\<close>

definition localModelSecondChain ::
    "world \<Rightarrow> string option \<Rightarrow> jsval \<Rightarrow> string \<Rightarrow> string \<Rightarrow> js_error + string" where
  \<open>localModelSecondChain w response prompt p lowerPrompt =
     (if (response = None \<or> response = Some []) \<and>
         (str_includes lowerPrompt ''help'' \<or> str_includes lowerPrompt ''what can you do'') then
        Inr (''I can assist with a wide range of IT and workplace operations:\<newline>\<newline>**Development & Code**: Code reviews, refactoring, best practices, design patterns, testing strategies\<newline>**DevOps**: CI/CD pipelines, Docker, Kubernetes, deployment strategies, infrastructure as code\<newline>**Security**: Vulnerability assessment, authentication, authorization, compliance, security best practices\<newline>**Monitoring**: Logs, metrics, alerting, observability, Prometheus/Grafana setup\<newline>**Databases**: Query optimization, schema design, migrations, backup/restore strategies\<newline>**Performance**: Optimization techniques, caching, profiling, scalability improvements\<newline>**Incident Response**: Troubleshooting, debugging, root cause analysis, postmortem reviews\<newline>**Documentation**: Technical writing, API docs, runbooks, architecture documentation\<newline>**Project Management**: Sprint planning, estimation, agile practices, retrospectives\<newline>**NLP Features**: Entity extraction, sentiment analysis, keyword extraction, intent classification, text normalization\<newline>\<newline>I now include advanced NLP capabilities for better understanding of your queries. Ask me about any specific topic and I'll provide actionable guidance!'')
      else if str_includes lowerPrompt ''ai'' \<and> str_includes lowerPrompt ''use'' then
        Inr (''Effective AI adoption starts by identifying repetitive or data-heavy workflows, wrapping them with reliable automation, and keeping humans in the loop for review. Start small, measure outcomes, then scale what works.'')
      else if str_includes lowerPrompt ''language model'' \<or> str_includes lowerPrompt ''llm'' then
        (let openSourceLines = buildOpenSourceCapabilitySummary w;
             capabilityBlock =
               (if openSourceLines \<noteq> []
                then ''\<newline>\<newline>Open-source choices already wired in:\<newline>'' @ join openSourceLines ''\<newline>''
                else '''')
         in Inr (''This chat ships with AAKARSH as the default on-device assistant. You can also switch to local transformers.js models or Ollama-hosted options without any external API keys.'' @ capabilityBlock))
      else if str_includes lowerPrompt ''rag'' then
        Inr (''Retrieval-Augmented Generation (RAG) combines document search with an LLM. Upload files to the RAG storage and the backend will blend those snippets into the prompt. This app supports both GitHub code search and local file storage for RAG.'')
      else if str_includes lowerPrompt ''deploy'' \<or> str_includes lowerPrompt ''docker'' \<or> str_includes lowerPrompt ''ci/cd'' then
        Inr (''For deployment: This app uses Docker Compose for orchestration. Run `docker compose up -d` for 24/7 availability with auto-restart. Check health at `/health`, monitor with `/metrics`. CI/CD pipeline includes tests, Docker builds, and security scanning. See DEPLOYMENT_GUIDE.md for details.'')
      else if str_includes lowerPrompt ''security'' \<or> str_includes lowerPrompt ''vulnerability'' then
        Inr (''Security features in this app: Helmet.js for security headers, rate limiting (100 req/15min), input validation with Joi, secrets via environment variables, Trivy scanning in CI/CD. Always run `npm audit` before deployment and keep dependencies updated.'')
      else if str_includes lowerPrompt ''monitor'' \<or> str_includes lowerPrompt ''logs'' \<or> str_includes lowerPrompt ''metrics'' then
        Inr (''Monitoring setup: Prometheus metrics at `/metrics`, Winston logs in `backend/logs/`, health checks at `/health`. View logs with `tail -f backend/logs/combined.log` or `docker compose logs -f`. Set up Grafana dashboards for visualization.'')
      else if str_includes lowerPrompt ''test'' \<or> str_includes lowerPrompt ''testing'' then
        Inr (''Testing: Jest + Supertest for backend (current coverage 47%, target 80%+). Run `npm test` in backend directory. Add integration tests for new endpoints. Consider Playwright/Cypress for E2E tests. Test-driven development recommended.'')
      else if str_includes lowerPrompt ''database'' \<or> str_includes lowerPrompt ''sql'' then
        Inr (''Database operations: Currently using file-based RAG storage. For production, consider PostgreSQL with Prisma ORM. Focus on schema design, indexing, query optimization, connection pooling, and automated backups with tested restoration procedures.'')
      else if str_includes lowerPrompt ''performance'' \<or> str_includes lowerPrompt ''optimize'' then
        Inr (''Performance optimization: Check metrics at `/metrics` for slow endpoints. Implement Redis caching, database indexing, code profiling. Use connection pooling, pagination, and streaming for large datasets. Monitor CPU, memory, and event loop lag.'')
      else case prompt of
             JNull \<Rightarrow> Inl (TypeError ''Cannot read properties of null (reading 'length')'')
           | JStr s \<Rightarrow>
               if length s < 80 then Inr (''Here's a quick thought: '' @ trim p @ '' -> consider the goal, the data you have, and the user journey you want to support. For technical implementations, verify security, add tests, and monitor performance.'')
               else Inr (''Thanks for the detailed prompt! A concise plan would be:\<newline>1. Clarify the objective and success criteria.\<newline>2. Break the work into small experiments or PRs.\<newline>3. Add tests and monitoring.\<newline>4. Deploy incrementally and measure results.\<newline>5. Iterate based on feedback.\<newline>\<newline>Ask if you'd like deeper guidance on any step.'')
           | _ \<Rightarrow> Inr (''Thanks for the detailed prompt! A concise plan would be:\<newline>1. Clarify the objective and success criteria.\<newline>2. Break the work into small experiments or PRs.\<newline>3. Add tests and monitoring.\<newline>4. Deploy incrementally and measure results.\<newline>5. Iterate based on feedback.\<newline>\<newline>Ask if you'd like deeper guidance on any step.''))\<close>

definition generateWithLocalModel_A :: "world \<Rightarrow> jsval \<Rightarrow> string \<Rightarrow> gen_options \<Rightarrow> gen_result traced" where
  \<open>generateWithLocalModel_A w prompt0 modelId options =
     (let prompt = (if prompt0 = JUndefined then JStr [] else prompt0);
          fallbackId = fallbackModelId VersionA w modelId;
          model = lookupModel (AVAILABLE_MODELS_A w) fallbackId
      in case orEmpty prompt of
           None \<Rightarrow> ([LocalModel prompt0 modelId], Inl (TypeError ''(prompt || "").toLowerCase is not a function''))
         | Some p \<Rightarrow>
             (let lowerPrompt = toLowerCase p;
                  safety = runLocalSafetyChecks prompt
              in if blocked safety then
                   (let (inline, extra) = prepareNotices VersionA model options;
                        sheet = (if fallbackId = ''local/aakarsh''
                                 then buildAakarshProductSheet emptyAnalysis
                                 else buildLocalAssistantProductSheet emptyAnalysis);
                        refusal = (case sv_message safety of Some m \<Rightarrow> m | None \<Rightarrow> ''undefined'') @
                                  ''\<newline>\<newline>'' @ sheet;
                        message = composeContent refusal inline
                    in ([LocalModel prompt0 modelId],
                        Inr \<lparr>r_text = message, r_model = fallbackId, r_modelInfo = model,
                             r_loading = Some False, r_notices = extra\<rparr>))
                 else
                   (let analysed = (truthy prompt \<and> trim p \<noteq> []);
                        nlpAnalysis = (if analysed then Some (nlp_analyze w p) else None);
                        (heads, response) = localModelFirstChain w fallbackId prompt p lowerPrompt nlpAnalysis;
                        calls = [LocalModel prompt0 modelId] @ (if analysed then [NlpAnalyze p] else []) @ heads
                    in case localModelSecondChain w response prompt p lowerPrompt of
                         Inl e \<Rightarrow> (calls, Inl e)
                       | Inr response' \<Rightarrow>
                           (let (inline, extra) = prepareNotices VersionA model options
                            in (calls,
                                Inr \<lparr>r_text = composeContent response' inline, r_model = fallbackId,
                                     r_modelInfo = model, r_loading = Some False, r_notices = extra\<rparr>)))))\<close>

subsection \<open>The rule-based adapter of version B\<close>

text \<open>\<open>tinyLLM.generate(prompt)\<close> (\<open>src/unnamed/part_011\<close>): the whole body is inside
  \<open>try\<close>, so it always returns a string.  The reply to a prompt that is not blank comes
  from its knowledge base and the analyzer (\<open>tinyllm_reply\<close>).\<close>

definition tinyLLM_generate :: "world \<Rightarrow> jsval \<Rightarrow> string" where
  \<open>tinyLLM_generate w prompt =
     (case orEmpty prompt of
        None \<Rightarrow> ''I encountered an error processing that request. Please try rephrasing.''
      | Some p \<Rightarrow>
          if \<not> truthy prompt \<or> trim p = []
          then ''I'm here to help. What would you like to know about coding, DevOps, or technical topics?''
          else tinyllm_reply w p)\<close>

text \<open>\<open>generateWithLocalModel\<close> of version B.  Its call of the analyzer names a module
  that version B does not import; the \<open>ReferenceError\<close> is caught and logged.\<close>

definition generateWithLocalModel_B :: "world \<Rightarrow> jsval \<Rightarrow> string \<Rightarrow> gen_options \<Rightarrow> gen_result traced" where
  \<open>generateWithLocalModel_B w prompt0 modelId options =
     (let prompt = (if prompt0 = JUndefined then JStr [] else prompt0);
          fallbackId = fallbackModelId VersionB w modelId;
          model = lookupModel (AVAILABLE_MODELS_B w) fallbackId
      in case orEmpty prompt of
           None \<Rightarrow> ([LocalModel prompt0 modelId], Inl (TypeError ''(prompt || "").toLowerCase is not a function''))
         | Some p \<Rightarrow>
             (let response = tinyLLM_generate w prompt;
                  (inline, extra) = prepareNotices VersionB model options
              in ([LocalModel prompt0 modelId, TinyLLM prompt],
                  Inr \<lparr>r_text = composeContent response inline, r_model = fallbackId,
                       r_modelInfo = model, r_loading = Some False, r_notices = extra\<rparr>)))\<close>

definition generateWithLocalModel :: "version \<Rightarrow> world \<Rightarrow> jsval \<Rightarrow> string \<Rightarrow> gen_options \<Rightarrow> gen_result traced" where
  "generateWithLocalModel v w prompt modelId options =
     (case v of
        VersionA \<Rightarrow> generateWithLocalModel_A w prompt modelId options
      | VersionB \<Rightarrow> generateWithLocalModel_B w prompt modelId options)"

subsection \<open>The canned chat responder\<close>

text \<open>The \<open>if\<close> chain of \<open>generateLocalChatResponse\<close> that assigns \<open>response\<close>.\<close>

definition localChatReply :: "string \<Rightarrow> string \<Rightarrow> string" where
  \<open>localChatReply lowerContent rawContent =
     (if str_includes lowerContent ''nlp'' \<or> str_includes lowerContent ''natural language''
        then ''I now have advanced NLP capabilities powered by compromise.js! Here's what I can do:\<newline>\<newline>**Entity Recognition**: I can identify people, places, organizations, dates, and values in your text.\<newline>**Sentiment Analysis**: I can determine if text is positive, negative, or neutral.\<newline>**Keyword Extraction**: I can identify the most important keywords and topics.\<newline>**Intent Classification**: I can understand whether you're asking a question, giving a command, or making a statement.\<newline>**Part-of-Speech Tagging**: I can analyze the grammatical structure of text.\<newline>\<newline>All these capabilities are rule-based and deterministic - no hallucinations, just accurate language understanding! Try the /api/v1/nlp endpoints or ask me to analyze text for you.''
      else if str_includes lowerContent ''deploy'' \<or> str_includes lowerContent ''deployment'' \<or> str_includes lowerContent ''ci/cd'' \<or> str_includes lowerContent ''pipeline''
        then ''For deployment and CI/CD related to "'' @ rawContent @ ''", here's a solid approach:\<newline>1. **Pre-deployment Checklist**: Ensure all tests pass, dependencies are up-to-date, and environment variables are configured.\<newline>2. **Deployment Strategy**: Use blue-green or canary deployments for zero-downtime releases. Docker Compose or Kubernetes for orchestration.\<newline>3. **Monitoring**: Set up health checks, log aggregation, and alerts (Prometheus/Grafana recommended).\<newline>4. **Rollback Plan**: Always have a one-command rollback strategy ready.\<newline>5. **Post-deployment**: Verify critical paths, check metrics, and monitor error rates for 15-30 minutes.\<newline>\<newline>For this project: Use the existing `deploy.sh` script or `docker-compose up` for quick deployments. Check `/health` and `/metrics` endpoints post-deploy.''
      else if str_includes lowerContent ''security'' \<or> str_includes lowerContent ''vulnerability'' \<or> str_includes lowerContent ''auth''
        then ''Addressing security concerns in "'' @ rawContent @ ''":\<newline>1. **Authentication & Authorization**: Implement JWT tokens, use bcrypt for passwords, validate all inputs with Joi schemas.\<newline>2. **Vulnerability Scanning**: Run `npm audit` regularly, use Trivy for container scanning (already in CI/CD).\<newline>3. **Common Threats**: Protect against SQL injection, XSS, CSRF. This app already uses Helmet.js for security headers.\<newline>4. **Secrets Management**: Never commit secrets. Use environment variables and .env files (excluded in .gitignore).\<newline>5. **API Security**: Rate limiting is active (100 req/15min). Consider API keys for production.\<newline>\<newline>Current protections: Helmet.js, rate limiting, input validation ready, CORS configured.''
      else if str_includes lowerContent ''monitor'' \<or> str_includes lowerContent ''logs'' \<or> str_includes lowerContent ''metrics'' \<or> str_includes lowerContent ''observability''
        then ''For monitoring and observability regarding "'' @ rawContent @ ''":\<newline>1. **Metrics Collection**: This app exposes Prometheus metrics at `/metrics` including request duration, counts, and system stats.\<newline>2. **Logging**: Structured Winston logs in `backend/logs/` with separate error and combined logs. JSON format for easy parsing.\<newline>3. **Health Checks**: `/health` endpoint shows uptime, environment, and status. Docker health checks run every 30s.\<newline>4. **Alerting**: Set up Prometheus AlertManager rules for error rates, latency spikes, or downtime.\<newline>5. **Dashboards**: Import Grafana dashboards for Node.js apps to visualize metrics.\<newline>\<newline>Check logs: `tail -f backend/logs/combined.log` or `docker compose logs -f`''
      else if str_includes lowerContent ''incident'' \<or> str_includes lowerContent ''outage'' \<or> str_includes lowerContent ''downtime'' \<or> str_includes lowerContent ''postmortem''
        then ''Handling incidents for "'' @ rawContent @ ''":\<newline>1. **Immediate Response**: Check `/health` endpoint, review recent logs (`backend/logs/error.log`), verify external services.\<newline>2. **Diagnosis**: Look at metrics (`/metrics`), check error rates, identify timing of issue vs recent deployments.\<newline>3. **Mitigation**: Rollback to last known good version if needed, scale resources, or implement quick fixes.\<newline>4. **Communication**: Update status page, notify stakeholders, provide ETAs.\<newline>5. **Root Cause Analysis**: Document timeline, identify contributing factors, create action items.\<newline>6. **Prevention**: Add monitoring alerts, improve tests, update runbooks.\<newline>\<newline>For this app: Check container status with `docker compose ps`, restart with `docker compose restart`.''
      else if str_includes lowerContent ''database'' \<or> str_includes lowerContent ''sql'' \<or> str_includes lowerContent ''query'' \<or> str_includes lowerContent ''migration''
        then ''For database operations related to "'' @ rawContent @ ''":\<newline>1. **Schema Design**: Normalize for consistency, denormalize for performance where needed. Use foreign keys and indexes.\<newline>2. **Migrations**: Use a tool like Prisma Migrate or Sequelize migrations. Always test on staging first.\<newline>3. **Query Optimization**: Use EXPLAIN to analyze slow queries, add indexes on frequently queried columns, avoid N+1 queries.\<newline>4. **Backup Strategy**: Automated daily backups, point-in-time recovery, test restoration regularly.\<newline>5. **Connection Pooling**: Configure max connections (pg-pool for Postgres), monitor active connections.\<newline>\<newline>This app currently uses file-based RAG storage. For production, consider PostgreSQL with Prisma ORM.''
      else if str_includes lowerContent ''test'' \<or> str_includes lowerContent ''testing'' \<or> str_includes lowerContent ''jest'' \<or> str_includes lowerContent ''coverage''
        then ''For testing approaches to "'' @ rawContent @ ''":\<newline>1. **Unit Tests**: Test individual functions in isolation. Current coverage: 47% (target: 80%+).\<newline>2. **Integration Tests**: Test API endpoints with supertest. Add tests for all new endpoints.\<newline>3. **E2E Tests**: Use Playwright or Cypress for full user flows (not yet implemented).\<newline>4. **Test-Driven Development**: Write tests first, then implement features.\<newline>5. **Coverage Goals**: Aim for 80%+ code coverage, but focus on critical paths.\<newline>\<newline>Current setup: Jest + Supertest. Run `npm test` in backend. Add tests in `server.test.js`.''
      else if str_includes lowerContent ''performance'' \<or> str_includes lowerContent ''optimize'' \<or> str_includes lowerContent ''slow'' \<or> str_includes lowerContent ''cache''
        then ''To optimize performance for "'' @ rawContent @ ''":\<newline>1. **Identify Bottlenecks**: Use Prometheus metrics to find slow endpoints, check memory usage, CPU, and event loop lag.\<newline>2. **Caching**: Implement Redis for API responses, cache LLM results, use CDN for static assets.\<newline>3. **Database**: Add indexes, use query caching, implement connection pooling, paginate large result sets.\<newline>4. **Code**: Profile with Node.js inspector, avoid synchronous operations, use streaming for large data.\<newline>5. **Infrastructure**: Scale horizontally, use load balancing, optimize Docker images.\<newline>\<newline>Check current metrics: `curl http://localhost:4000/metrics` and look at `http_request_duration_seconds`.''
      else if str_includes lowerContent ''code review'' \<or> str_includes lowerContent ''refactor'' \<or> str_includes lowerContent ''best practice'' \<or> str_includes lowerContent ''clean code''
        then ''For code review and refactoring of "'' @ rawContent @ ''":\<newline>1. **Code Quality**: Follow consistent style (ESLint configured), use meaningful names, keep functions small (<50 lines).\<newline>2. **Design Patterns**: Apply SOLID principles, use dependency injection, favor composition over inheritance.\<newline>3. **Refactoring**: Extract duplicated code, simplify complex conditionals, improve error handling.\<newline>4. **Documentation**: Add JSDoc comments for public APIs, update README for changes, document non-obvious logic.\<newline>5. **Technical Debt**: Track in TODO.md, prioritize by impact, refactor incrementally.\<newline>\<newline>Review checklist: Security issues, test coverage, error handling, logging, consistent patterns.''
      else if str_includes lowerContent ''documentation'' \<or> str_includes lowerContent ''readme'' \<or> str_includes lowerContent ''api doc'' \<or> str_includes lowerContent ''runbook''
        then ''For documentation regarding "'' @ rawContent @ ''":\<newline>1. **README**: Clear setup instructions, architecture overview, troubleshooting section (see current README.md).\<newline>2. **API Documentation**: Consider Swagger/OpenAPI for interactive docs, document all endpoints, parameters, responses.\<newline>3. **Code Comments**: JSDoc for functions, explain why not what, document edge cases and assumptions.\<newline>4. **Runbooks**: Create step-by-step guides for common operations (deployment, backups, incident response).\<newline>5. **Architecture Diagrams**: Visual representations help new team members understand the system.\<newline>\<newline>Current docs: README.md, FEATURES.md, DEPLOYMENT_GUIDE.md, SYSTEMD_SETUP.md. Keep them updated!''
      else if str_includes lowerContent ''sprint'' \<or> str_includes lowerContent ''agile'' \<or> str_includes lowerContent ''planning'' \<or> str_includes lowerContent ''estimation''
        then ''For project management and agile practices around "'' @ rawContent @ ''":\<newline>1. **Sprint Planning**: Break epics into user stories, estimate with story points or hours, prioritize by value and risk.\<newline>2. **Daily Standups**: What did I complete? What am I working on? Any blockers?\<newline>3. **Estimation**: Use planning poker, consider complexity not time, build in buffer for unknowns.\<newline>4. **Retrospectives**: What went well? What didn't? Action items for improvement.\<newline>5. **Velocity Tracking**: Measure completed story points per sprint to improve future estimates.\<newline>\<newline>For this project: Track tasks in GitHub Issues, use project boards, link PRs to issues.''
      else if str_includes lowerContent ''docker'' \<or> str_includes lowerContent ''container'' \<or> str_includes lowerContent ''kubernetes''
        then ''For containerization regarding "'' @ rawContent @ ''":\<newline>1. **Docker Best Practices**: Multi-stage builds, minimal base images, .dockerignore, security scanning.\<newline>2. **Docker Compose**: Orchestrate multiple services, manage networking, volumes, environment variables.\<newline>3. **Kubernetes**: For production scale, use deployments, services, ingress, config maps, secrets.\<newline>4. **Health Checks**: Define readiness/liveness probes (already configured in docker-compose.yml).\<newline>5. **Resource Limits**: Set memory/CPU limits to prevent resource exhaustion.\<newline>\<newline>This app: Uses Docker with health checks, restart policies. See `docker-compose.yml` and Dockerfiles.''
      else if str_includes lowerContent ''backup'' \<or> str_includes lowerContent ''restore'' \<or> str_includes lowerContent ''disaster recovery''
        then ''For backup and disaster recovery of "'' @ rawContent @ ''":\<newline>1. **Backup Strategy**: Automated daily backups, retain for 30 days, test restoration monthly.\<newline>2. **What to Backup**: Database, user uploads (`backend/rag_storage`), configuration files, secrets (encrypted).\<newline>3. **Backup Storage**: Off-site storage (S3, Azure Blob), multiple geographic regions.\<newline>4. **Recovery Testing**: Regularly test restore procedures, document RTO/RPO requirements.\<newline>5. **Application State**: For stateless apps, re-deploy from code. For stateful, restore data volumes.\<newline>\<newline>For this app: Backup `backend/rag_storage` directory and environment variables. RAG documents should be backed up externally.''
      else if str_includes lowerContent ''hello'' \<or> str_includes lowerContent ''hi '' \<or> startsWith lowerContent ''hi'' \<or> startsWith lowerContent ''hello''
        then ''Hey there! It's good to hear from you. What should we tackle about "'' @ rawContent @ ''" today?''
      else if str_includes lowerContent ''thanks'' \<or> str_includes lowerContent ''thank you''
        then ''Always happy to help. If "'' @ rawContent @ ''" sparks anything else, just say the word.''
      else if str_includes lowerContent ''error'' \<or> str_includes lowerContent ''issue'' \<or> str_includes lowerContent ''fail''
        then ''Let's troubleshoot "'' @ rawContent @ ''" systematically:\<newline>1. Recreate the failure with the smallest input.\<newline>2. Capture the exact error output or stack trace.\<newline>3. Check recent code or config changes touching that area.\<newline>4. Add a focused test so the fix sticks.\<newline>Ping me with what you find and we'll narrow it down further.''
      else if startsWith lowerContent ''how '' \<or> str_includes lowerContent '' how '' \<or> str_includes lowerContent ''steps'' \<or> str_includes lowerContent ''plan''
        then ''Here's a structured way to tackle "'' @ rawContent @ ''":\<newline>1. Nail the success criteria so you know when you're done.\<newline>2. Break the work into bite-sized experiments or pull requests.\<newline>3. Instrument early so you can measure progress.\<newline>4. Iterate with feedback after each milestone.\<newline>Tell me which step feels fuzzy and we'll flesh it out.''
      else if startsWith lowerContent ''what '' \<or> str_includes lowerContent ''what is'' \<or> str_includes lowerContent ''explain''
        then ''When explaining "'' @ rawContent @ ''", start with the core idea, add why it matters for this project, then call out the trade-offs so stakeholders know when to use it.''
      else if str_includes lowerContent ''why'' \<or> str_includes lowerContent ''reason''
        then ''To reason through "'' @ rawContent @ ''", line up the inputs and constraints, test the strongest counter-argument, and see which assumptions hold. The answer usually shows up once you make the hidden assumption explicit.''
      else if str_includes lowerContent ''rag''
        then ''For RAG topics like "'' @ rawContent @ ''", validate three things: chunk quality, retrieval scoring, and how the prompt stitches sources into responses. Reviewing a few retrieved snippets manually can spotlight gaps fast.''
      else ''Here's how I'd approach "'' @ rawContent @ ''": clarify the outcome, list the constraints, sketch the smallest experiment, and iterate once you see signal.'')\<close>

text \<open>What a synchronous caller holds after calling a function: its return value, or,
  when the function is \<open>async\<close>, a promise (with the outcome it will settle to).\<close>

datatype 'a returned = Returned 'a | Pending "js_error + 'a"

fun findIndex :: "('a \<Rightarrow> bool) \<Rightarrow> 'a list \<Rightarrow> nat option" where
  "findIndex P [] = None"
| "findIndex P (x # xs) = (if P x then Some 0 else map_option Suc (findIndex P xs))"

definition isUser :: "jsval \<Rightarrow> bool" where
  "isUser msg = (getProp msg ''role'' = JStr ''user'')"

definition contentOf :: "jsval \<Rightarrow> string" where
  "contentOf msg = (case asString (getProp msg ''content'') of Some s \<Rightarrow> s | None \<Rightarrow> [])"

text \<open>\<open>messages.filter(entry => entry && typeof entry.content === 'string')\<close>, or \<open>[]\<close> when
  \<open>messages\<close> is not an array.\<close>

definition safeMessagesOf :: "jsval \<Rightarrow> jsval list" where
  "safeMessagesOf messages =
     (case messages of
        JArr entries \<Rightarrow> filter (\<lambda>entry. truthy entry \<and> asString (getProp entry ''content'') \<noteq> None) entries
      | _ \<Rightarrow> [])"

text \<open>\<open>return this.generateWithLocalModel('', fallbackModelId, options)\<close> inside the
  synchronous \<open>generateLocalChatResponse\<close>: a result in version A, a promise in version B,
  where \<open>generateWithLocalModel\<close> is \<open>async\<close>.\<close>

definition emptyPromptResponse ::
    "version \<Rightarrow> world \<Rightarrow> jsval \<Rightarrow> string \<Rightarrow> string \<Rightarrow> gen_options \<Rightarrow> gen_result returned traced" where
  "emptyPromptResponse v w messages0 modelId fallbackId options =
     (case generateWithLocalModel v w (JStr []) fallbackId options of
        (calls, outcome) \<Rightarrow>
          (LocalChat messages0 modelId # calls,
           case v of
             VersionA \<Rightarrow> (case outcome of Inl e \<Rightarrow> Inl e | Inr r \<Rightarrow> Inr (Returned r))
           | VersionB \<Rightarrow> Inr (Pending outcome)))"

text \<open>
  \<open>generateLocalChatResponse(messages, modelId, options)\<close>, in three parts: the last user
  message among the safe messages, with its index; the canned response built from it and
  from the up to three user messages before it; and the method itself, which returns the
  response to the empty prompt when there is no user message of non-blank content.\<close>

definition lastUserMessageOf :: "jsval list \<Rightarrow> (nat \<times> jsval) option" where
  "lastUserMessageOf safeMessages =
     (let reversedUserIndex = findIndex isUser (rev safeMessages);
          lastUserIndex = map_option (\<lambda>r. length safeMessages - 1 - r) reversedUserIndex
      in map_option (\<lambda>i. (i, safeMessages ! i)) lastUserIndex)"

definition cannedChatResponse ::
    "version \<Rightarrow> string \<Rightarrow> model_info option \<Rightarrow> jsval list \<Rightarrow> nat \<Rightarrow> jsval \<Rightarrow> gen_options \<Rightarrow> gen_result" where
  \<open>cannedChatResponse v fallbackId model safeMessages lastUserIndex lastUserMessage options =
     (let rawContent = trim (contentOf lastUserMessage);
          lowerContent = toLowerCase rawContent;
          earlier = filter (\<lambda>(msg, idx). isUser msg \<and> idx < lastUserIndex)
                      (zip safeMessages [0 ..< length safeMessages]);
          previousTopics = filter (\<lambda>s. s \<noteq> [])
                             (map (\<lambda>(msg, idx). trim (contentOf msg))
                                (drop (length earlier - 3) earlier));
          response = localChatReply lowerContent rawContent;
          topicLine =
            (if previousTopics \<noteq> []
             then ''Earlier you also mentioned '' @ formatTopicList previousTopics @
                  ''. I'm keeping that thread in mind so the guidance stays coherent.''
             else []);
          closingLine = ''If you want examples, drafts, or a deeper dive, just ask.'';
          finalResponse =
            (if topicLine \<noteq> [] then response @ ''\<newline>\<newline>'' @ topicLine else response) @
            ''\<newline>\<newline>'' @ closingLine;
          (inline, extra) = prepareNotices v model options
      in \<lparr>r_text = composeContent finalResponse inline, r_model = fallbackId,
          r_modelInfo = model, r_loading = Some False, r_notices = extra\<rparr>)\<close>

definition generateLocalChatResponse ::
    "version \<Rightarrow> world \<Rightarrow> jsval \<Rightarrow> string \<Rightarrow> gen_options \<Rightarrow> gen_result returned traced" where
  \<open>generateLocalChatResponse v w messages0 modelId options =
     (let messages = (if messages0 = JUndefined then JArr [] else messages0);
          fallbackId = fallbackModelId v w modelId;
          model = lookupModel (AVAILABLE_MODELS v w) fallbackId;
          safeMessages = safeMessagesOf messages
      in case lastUserMessageOf safeMessages of
           None \<Rightarrow> emptyPromptResponse v w messages0 modelId fallbackId options
         | Some (lastUserIndex, lastUserMessage) \<Rightarrow>
             if trim (contentOf lastUserMessage) = [] then
               emptyPromptResponse v w messages0 modelId fallbackId options
             else
               ([LocalChat messages0 modelId],
                Inr (Returned (cannedChatResponse v fallbackId model safeMessages
                                 lastUserIndex lastUserMessage options))))\<close>

text \<open>\<open>{ message: result.text, model: result.model, \<dots> }\<close>: every field of a promise is
  \<open>undefined\<close>.\<close>

definition chatFields :: "gen_result returned \<Rightarrow> chat_result" where
  "chatFields result =
     (case result of
        Returned r \<Rightarrow>
          \<lparr>c_message = Some (r_text r), c_model = Some (r_model r), c_modelInfo = r_modelInfo r,
           c_loading = r_loading r, c_notices = Some (r_notices r)\<rparr>
      | Pending outcome \<Rightarrow>
          \<lparr>c_message = None, c_model = None, c_modelInfo = None, c_loading = None, c_notices = None\<rparr>)"

subsection \<open>The adapters both versions share\<close>

definition generateWithOpenAI :: "version \<Rightarrow> world \<Rightarrow> jsval \<Rightarrow> string \<Rightarrow> gen_options \<Rightarrow> gen_result traced" where
  \<open>generateWithOpenAI v w prompt modelId options =
     (let model = lookupModel (AVAILABLE_MODELS v w) modelId
      in if \<not> openaiClient w then
           ([], Inl (Error ''OpenAI API key not configured. Please set OPENAI_API_KEY environment variable.''))
         else
           (case openai_create w modelId (JArr [JObj [(''role'', JStr ''user''), (''content'', prompt)]]) of
              Inl error \<Rightarrow> ([OpenAI modelId], Inl error)
            | Inr generatedText \<Rightarrow>
                (let (inline, extra) = prepareNotices v model options
                 in ([OpenAI modelId],
                     Inr \<lparr>r_text = composeContent generatedText inline, r_model = modelId,
                          r_modelInfo = model, r_loading = None, r_notices = extra\<rparr>))))\<close>

definition chatWithOpenAI :: "version \<Rightarrow> world \<Rightarrow> jsval \<Rightarrow> string \<Rightarrow> gen_options \<Rightarrow> chat_result traced" where
  \<open>chatWithOpenAI v w messages modelId options =
     (let model = lookupModel (AVAILABLE_MODELS v w) modelId
      in if \<not> openaiClient w then
           ([], Inl (Error ''OpenAI API key not configured. Please set OPENAI_API_KEY environment variable.''))
         else
           (case openai_create w modelId messages of
              Inl error \<Rightarrow> ([OpenAI modelId], Inl error)
            | Inr responseMessage \<Rightarrow>
                (let (inline, extra) = prepareNotices v model options
                 in ([OpenAI modelId],
                     Inr \<lparr>c_message = Some (composeContent responseMessage inline), c_model = Some modelId,
                          c_modelInfo = model, c_loading = None, c_notices = Some extra\<rparr>))))\<close>

text \<open>A fallback call \<open>this.generateWithLocalModel(prompt, this.defaultModel, { requestedModel,
  notice })\<close>, made after the calls \<open>sofar\<close>.\<close>

definition localFallback :: "version \<Rightarrow> world \<Rightarrow> call list \<Rightarrow> jsval \<Rightarrow> string \<Rightarrow> gen_result traced" where
  "localFallback v w sofar prompt notice =
     (case generateWithLocalModel v w prompt (defaultModel v) (withNotice (JStr notice)) of
        (calls, outcome) \<Rightarrow> (sofar @ calls, outcome))"

text \<open>\<open>generateWithXenova\<close>.  Loading and running the pipeline is one step of the world;
  the pipeline cache is not modelled.  Every error thrown inside \<open>try\<close>, also by the
  string methods applied to a malformed output, leads to the fallback.\<close>

definition generateWithXenova :: "version \<Rightarrow> world \<Rightarrow> jsval \<Rightarrow> string \<Rightarrow> gen_options \<Rightarrow> gen_result traced" where
  \<open>generateWithXenova v w prompt0 modelId options =
     (let prompt = (if prompt0 = JUndefined then JStr [] else prompt0)
      in case lookupModel (AVAILABLE_MODELS v w) modelId of
           None \<Rightarrow>
             localFallback v w [] prompt
               ''Requested local transformer model was not found. Using built-in assistant instead.''
         | Some model \<Rightarrow>
             (let cacheKey = orElse (m_transformersModel model) modelId;
                  failed = (\<lambda>error. localFallback v w [Xenova cacheKey] prompt
                              (''Local transformers.js model '' @ modelId @ '' failed: '' @ err_message error @
                               ''. Using built-in assistant instead.''))
              in case xenova_run w cacheKey prompt of
                   Inl error \<Rightarrow> failed error
                 | Inr outputs \<Rightarrow>
                     (let first = (case outputs of
                                     JArr (out # rest) \<Rightarrow> (if nullish out then JUndefined else getProp out ''generated_text'')
                                   | _ \<Rightarrow> JUndefined);
                          generatedText =
                            (if truthy first then first
                             else case outputs of JStr s \<Rightarrow> JStr s | _ \<Rightarrow> JStr [])
                      in case asString generatedText of
                           None \<Rightarrow> failed (TypeError ''generatedText.startsWith is not a function'')
                         | Some g \<Rightarrow>
                             if startsWith g (toStringJS prompt) \<and> prompt = JNull then
                               failed (TypeError ''Cannot read properties of null (reading 'length')'')
                             else
                               (let trimmed =
                                      (if startsWith g (toStringJS prompt)
                                       then trim (drop (case prompt of JStr s \<Rightarrow> length s
                                                        | JArr xs \<Rightarrow> length xs | _ \<Rightarrow> 0) g)
                                       else trim g);
                                    resultText =
                                      (if trimmed \<noteq> [] then trimmed
                                       else if trim g \<noteq> [] then trim g
                                       else ''Local model did not return any output.'');
                                    (inline, extra) = prepareNotices v (Some model) options
                                in ([Xenova cacheKey],
                                    Inr \<lparr>r_text = composeContent resultText inline, r_model = modelId,
                                         r_modelInfo = Some model, r_loading = Some False,
                                         r_notices = extra\<rparr>)))))\<close>

text \<open>\<open>s.replace(/\/$/, '')\<close> and \<open>s.replace(/^ollama\//, '')\<close>.\<close>

definition dropTrailingSlash :: "string \<Rightarrow> string" where
  "dropTrailingSlash s = (if s \<noteq> [] \<and> last s = CHR ''/'' then butlast s else s)"

definition dropOllamaPrefix :: "string \<Rightarrow> string" where
  "dropOllamaPrefix s = (if startsWith s ''ollama/'' then drop 7 s else s)"

definition ollamaBaseUrl :: "world \<Rightarrow> model_info \<Rightarrow> string" where
  "ollamaBaseUrl w model =
     dropTrailingSlash (orElse (m_endpoint model) (orElse (Some (OLLAMA_HOST w)) ''http://localhost:11434''))"

definition generateWithOllama :: "version \<Rightarrow> world \<Rightarrow> jsval \<Rightarrow> string \<Rightarrow> gen_options \<Rightarrow> gen_result traced" where
  \<open>generateWithOllama v w prompt0 modelId options =
     (let prompt = (if prompt0 = JUndefined then JStr [] else prompt0)
      in case lookupModel (AVAILABLE_MODELS v w) modelId of
           None \<Rightarrow>
             localFallback v w [] prompt ''Requested Ollama model was not found. Using built-in assistant instead.''
         | Some model \<Rightarrow>
             (let baseUrl = ollamaBaseUrl w model;
                  targetModel = orElse (m_ollamaModel model) (dropOllamaPrefix modelId);
                  failed = (\<lambda>error.
                     localFallback v w [Ollama baseUrl targetModel] prompt
                       (if err_code error = Some ''ECONNREFUSED''
                        then ''Could not reach Ollama at '' @ baseUrl @
                             ''. Ensure the Ollama service is running and the model is pulled. Using built-in assistant instead.''
                        else ''Ollama model '' @ targetModel @ '' failed: '' @ err_message error @
                             ''. Using built-in assistant instead.''))
              in case ollama_post w baseUrl targetModel prompt of
                   Inl error \<Rightarrow> failed error
                 | Inr data \<Rightarrow>
                     (let response = (if nullish data then JUndefined else getProp data ''response'');
                          generatedText =
                            (if truthy response then response
                             else case data of JStr s \<Rightarrow> JStr s | _ \<Rightarrow> JStr [])
                      in case orEmpty generatedText of
                           None \<Rightarrow> failed (TypeError ''(generatedText || "").trim is not a function'')
                         | Some g \<Rightarrow>
                             (let generated = (if trim g = [] then ''Ollama model did not return any output.'' else trim g);
                                  (inline, extra) = prepareNotices v (Some model) options
                              in ([Ollama baseUrl targetModel],
                                  Inr \<lparr>r_text = composeContent generated inline, r_model = modelId,
                                       r_modelInfo = Some model, r_loading = Some False,
                                       r_notices = extra\<rparr>)))))\<close>

text \<open>\<open>formatMessagesAsPrompt(messages, modelId)\<close>: \<open>messages.map\<close> throws unless \<open>messages\<close>
  is an array, and reading \<open>msg.role\<close> throws on \<open>null\<close> and \<open>undefined\<close>.\<close>

fun mapMessages :: "(jsval \<Rightarrow> jsval) \<Rightarrow> jsval list \<Rightarrow> js_error + jsval list" where
  "mapMessages f [] = Inr []"
| "mapMessages f (msg # rest) =
     (if nullish msg then Inl (TypeError (''Cannot read properties of '' @ toStringJS msg @ '' (reading 'role')''))
      else case mapMessages f rest of Inl e \<Rightarrow> Inl e | Inr ys \<Rightarrow> Inr (f msg # ys))"

definition formatMessagesAsPrompt :: "jsval \<Rightarrow> string \<Rightarrow> js_error + string" where
  \<open>formatMessagesAsPrompt messages modelId =
     (case messages of
        JArr msgs \<Rightarrow>
          if str_includes modelId ''llama-2'' then
            (case mapMessages (\<lambda>msg.
                    if getProp msg ''role'' = JStr ''system''
                    then JStr (''<<SYS>>\<newline>'' @ toStringJS (getProp msg ''content'') @ ''\<newline><</SYS>>'')
                    else if getProp msg ''role'' = JStr ''user''
                    then JStr (''[INST] '' @ toStringJS (getProp msg ''content'') @ '' [/INST]'')
                    else getProp msg ''content'') msgs of
               Inl e \<Rightarrow> Inl e
             | Inr parts \<Rightarrow> Inr (joinJS parts ''\<newline>\<newline>''))
          else if str_includes modelId ''mistral'' \<or> str_includes modelId ''mixtral'' \<or> str_includes modelId ''zephyr'' then
            (case mapMessages (\<lambda>msg.
                    if getProp msg ''role'' = JStr ''system''
                    then JStr (''<s>[INST] '' @ toStringJS (getProp msg ''content'') @ '' [/INST]'')
                    else if getProp msg ''role'' = JStr ''user''
                    then JStr (''[INST] '' @ toStringJS (getProp msg ''content'') @ '' [/INST]'')
                    else getProp msg ''content'') msgs of
               Inl e \<Rightarrow> Inl e
             | Inr parts \<Rightarrow> Inr (joinJS parts ''\<newline>''))
          else
            (case mapMessages (\<lambda>msg.
                    JStr (toStringJS (getProp msg ''role'') @ '': '' @ toStringJS (getProp msg ''content''))) msgs of
               Inl e \<Rightarrow> Inl e
             | Inr parts \<Rightarrow> Inr (joinJS parts ''\<newline>\<newline>'' @ ''\<newline>assistant:''))
      | _ \<Rightarrow>
          if nullish messages
          then Inl (TypeError (''Cannot read properties of '' @ toStringJS messages @ '' (reading 'map')''))
          else Inl (TypeError ''messages.map is not a function''))\<close>

subsection \<open>The Hugging Face adapter (version B)\<close>

text \<open>\<open>a || b || c\<close> on optional strings: the first that is a non-empty string.\<close>

fun firstTruthy :: "string option list \<Rightarrow> string option" where
  "firstTruthy [] = None"
| "firstTruthy (x # xs) = (case x of Some s \<Rightarrow> if s \<noteq> [] then Some s else firstTruthy xs | None \<Rightarrow> firstTruthy xs)"

text \<open>\<open>requestHuggingFaceChat(messages, modelId, options)\<close>: the two checks, then the post.\<close>

definition requestHuggingFaceChat :: "world \<Rightarrow> jsval \<Rightarrow> string \<Rightarrow> jsval traced" where
  \<open>requestHuggingFaceChat w messages modelId =
     (case lookupModel (AVAILABLE_MODELS_B w) modelId of
        None \<Rightarrow> ([], Inl (Error (''Unknown Hugging Face model: '' @ modelId)))
      | Some model \<Rightarrow>
          (let safeMessages = safeMessagesOf messages
           in if safeMessages = [] then
                ([], Inl (Error ''At least one message with string content is required for Hugging Face chat completions.''))
              else
                ([HuggingFace (orElse (m_hfModel model) modelId)],
                 hf_post w (orElse (m_hfModel model) modelId) safeMessages)))\<close>

text \<open>\<open>choice?.message?.content ? choice.message.content.trim() : ''\<close>, then the check for
  an empty response.\<close>

definition hfGenerated :: "jsval \<Rightarrow> js_error + string" where
  \<open>hfGenerated content =
     (case orEmpty content of
        None \<Rightarrow> Inl (TypeError ''choice.message.content.trim is not a function'')
      | Some s \<Rightarrow>
          if trim s = [] then Inl (Error ''Hugging Face router returned an empty response.'')
          else Inr (trim s))\<close>

definition handleHuggingFaceTextError :: "world \<Rightarrow> call list \<Rightarrow> js_error \<Rightarrow> jsval \<Rightarrow> string \<Rightarrow> gen_result traced" where
  \<open>handleHuggingFaceTextError w sofar error prompt requestedModel =
     (let model = lookupModel (AVAILABLE_MODELS_B w) requestedModel;
          modelNotices = normalizeNotices (modelNotice model);
          statusLabel =
            (case err_response error of
               Some r \<Rightarrow> if resp_status r \<noteq> 0 then '' (status '' @ showNat (resp_status r) @ '')'' else ''''
             | None \<Rightarrow> '''');
          detail =
            firstTruthy [case err_response error of Some r \<Rightarrow> resp_error_message r | None \<Rightarrow> None,
                         Some (err_message error)];
          generic =
            localFallback VersionB w sofar prompt
              (case detail of
                 Some d \<Rightarrow> ''Remote generation failed'' @ statusLabel @ '': '' @ d @ ''. Using the built-in assistant instead.''
               | None \<Rightarrow> ''Remote generation failed. Using the built-in assistant instead.'')
      in case err_response error of
           None \<Rightarrow> generic
         | Some r \<Rightarrow>
             (let status = resp_status r;
                  errorMessage = firstTruthy [resp_error_message r, resp_message r, resp_detail r]
              in if status = 503 then
                   (sofar,
                    Inr \<lparr>r_text = ''Model is currently loading. This can take 20-30 seconds for the first request. Please try again in a moment...\<newline>\<newline>Falling back to the built-in assistant for now.'',
                         r_model = defaultModel VersionB,
                         r_modelInfo = lookupModel (AVAILABLE_MODELS_B w) (defaultModel VersionB),
                         r_loading = Some True, r_notices = modelNotices\<rparr>)
                 else if status = 429 then
                   (sofar,
                    Inr \<lparr>r_text = ''Rate limit reached for the selected Hugging Face model. Using the built-in assistant instead.'',
                         r_model = defaultModel VersionB,
                         r_modelInfo = lookupModel (AVAILABLE_MODELS_B w) (defaultModel VersionB),
                         r_loading = Some False, r_notices = modelNotices\<rparr>)
                 else if status \<in> {401, 403} then
                   (let authMessage =
                          (case errorMessage of
                             Some m \<Rightarrow> ''Authentication failed for the Hugging Face router: '' @ m @
                                       ''. Please double-check the HUGGINGFACE_API_KEY value.''
                           | None \<Rightarrow> ''Authentication failed for the Hugging Face router. Please double-check the HUGGINGFACE_API_KEY value.'')
                    in (sofar,
                        Inr \<lparr>r_text = authMessage, r_model = requestedModel, r_modelInfo = model,
                             r_loading = Some False, r_notices = modelNotices\<rparr>))
                 else if status = 410 then
                   localFallback VersionB w sofar prompt
                     ''The selected Hugging Face model endpoint returned 410 (gone). Using the built-in assistant instead.''
                 else if status = 400 \<and> errorMessage \<noteq> None then
                   localFallback VersionB w sofar prompt
                     (''Hugging Face router rejected the request: '' @ (case errorMessage of Some m \<Rightarrow> m | None \<Rightarrow> '''') @
                      ''. Using the built-in assistant instead.'')
                 else generic))\<close>

definition generateWithHuggingFace :: "world \<Rightarrow> jsval \<Rightarrow> string \<Rightarrow> gen_options \<Rightarrow> gen_result traced" where
  \<open>generateWithHuggingFace w prompt0 modelId options =
     (let prompt = (if prompt0 = JUndefined then JStr [] else prompt0)
      in case lookupModel (AVAILABLE_MODELS_B w) modelId of
           None \<Rightarrow>
             localFallback VersionB w [] prompt
               ''Requested Hugging Face model was not found. Using built-in assistant instead.''
         | Some model \<Rightarrow>
             (case requestHuggingFaceChat w (JArr [JObj [(''role'', JStr ''user''), (''content'', prompt)]]) modelId of
                (calls, Inl error) \<Rightarrow> handleHuggingFaceTextError w calls error prompt modelId
              | (calls, Inr content) \<Rightarrow>
                  (case hfGenerated content of
                     Inl error \<Rightarrow> handleHuggingFaceTextError w calls error prompt modelId
                   | Inr generated \<Rightarrow>
                       (let (inline, extra) = prepareNotices VersionB (Some model) options
                        in (calls,
                            Inr \<lparr>r_text = composeContent generated inline, r_model = modelId,
                                 r_modelInfo = Some model, r_loading = Some False, r_notices = extra\<rparr>)))))\<close>

text \<open>A fallback call \<open>this.generateLocalChatResponse(messages, this.defaultModel,
  { requestedModel, notice })\<close>, made after the calls \<open>sofar\<close>; the caller copies the fields
  of what it returned.\<close>

definition localChatFallback :: "world \<Rightarrow> call list \<Rightarrow> jsval \<Rightarrow> string \<Rightarrow> chat_result traced" where
  "localChatFallback w sofar messages notice =
     (case generateLocalChatResponse VersionB w messages (defaultModel VersionB) (withNotice (JStr notice)) of
        (calls, Inl e) \<Rightarrow> (sofar @ calls, Inl e)
      | (calls, Inr result) \<Rightarrow> (sofar @ calls, Inr (chatFields result)))"

definition handleHuggingFaceChatError :: "world \<Rightarrow> call list \<Rightarrow> js_error \<Rightarrow> jsval \<Rightarrow> string \<Rightarrow> chat_result traced" where
  \<open>handleHuggingFaceChatError w sofar error messages requestedModel =
     (let model = lookupModel (AVAILABLE_MODELS_B w) requestedModel;
          status = (case err_response error of Some r \<Rightarrow> Some (resp_status r) | None \<Rightarrow> None);
          errorMessage =
            firstTruthy [case err_response error of Some r \<Rightarrow> resp_error_message r | None \<Rightarrow> None,
                         case err_response error of Some r \<Rightarrow> resp_message r | None \<Rightarrow> None,
                         Some (err_message error)]
      in if status = Some 503 then
           (case localChatFallback w sofar messages
                   ''Model is currently loading. This can take 20-30 seconds for the first request. Please try again in a moment...\<newline>\<newline>Falling back to the built-in assistant for now.'' of
              (calls, Inl e) \<Rightarrow> (calls, Inl e)
            | (calls, Inr fallbackLoading) \<Rightarrow> (calls, Inr (fallbackLoading\<lparr>c_loading := Some True\<rparr>)))
         else if status = Some 429 then
           localChatFallback w sofar messages
             ''Rate limit reached for the selected Hugging Face model. Using the built-in assistant instead.''
         else if status \<in> {Some 401, Some 403} then
           (let authMessage =
                  (case errorMessage of
                     Some m \<Rightarrow> ''Authentication failed for the Hugging Face router: '' @ m @
                               ''. Please double-check the HUGGINGFACE_API_KEY value.''
                   | None \<Rightarrow> ''Authentication failed for the Hugging Face router. Please double-check the HUGGINGFACE_API_KEY value.'')
            in (sofar,
                Inr \<lparr>c_message = Some authMessage, c_model = Some requestedModel, c_modelInfo = model,
                     c_loading = Some False, c_notices = Some (normalizeNotices (modelNotice model))\<rparr>))
         else if status = Some 410 then
           localChatFallback w sofar messages
             ''The selected Hugging Face model endpoint returned 410 (gone). Using the built-in assistant instead.''
         else if status = Some 400 \<and> errorMessage \<noteq> None then
           localChatFallback w sofar messages
             (''Hugging Face router rejected the request: '' @ (case errorMessage of Some m \<Rightarrow> m | None \<Rightarrow> '''') @
              ''. Using the built-in assistant instead.'')
         else
           localChatFallback w sofar messages
             (case status of
                Some s \<Rightarrow>
                  if s \<noteq> 0 then ''Remote generation failed (status '' @ showNat s @ ''). Using the built-in assistant instead.''
                  else ''Remote generation failed. Using the built-in assistant instead.''
              | None \<Rightarrow> ''Remote generation failed. Using the built-in assistant instead.''))\<close>

definition chatWithHuggingFace :: "world \<Rightarrow> jsval \<Rightarrow> string \<Rightarrow> gen_options \<Rightarrow> chat_result traced" where
  \<open>chatWithHuggingFace w messages modelId options =
     (case lookupModel (AVAILABLE_MODELS_B w) modelId of
        None \<Rightarrow>
          (case localChatFallback w [] messages
                  ''Requested Hugging Face model was not found. Using built-in assistant instead.'' of
             (calls, Inl e) \<Rightarrow> (calls, Inl e)
           | (calls, Inr fallback) \<Rightarrow> (calls, Inr (fallback\<lparr>c_notices := None\<rparr>)))
      | Some model \<Rightarrow>
          (case requestHuggingFaceChat w messages modelId of
             (calls, Inl error) \<Rightarrow> handleHuggingFaceChatError w calls error messages modelId
           | (calls, Inr content) \<Rightarrow>
               (case hfGenerated content of
                  Inl error \<Rightarrow> handleHuggingFaceChatError w calls error messages modelId
                | Inr content' \<Rightarrow>
                    (let (inline, extra) = prepareNotices VersionB (Some model) options
                     in (calls,
                         Inr \<lparr>c_message = Some (composeContent content' inline), c_model = Some modelId,
                              c_modelInfo = Some model, c_loading = Some False, c_notices = Some extra\<rparr>)))))\<close>

subsection \<open>Dispatch: \<open>generateText\<close>, \<open>chat\<close>, \<open>generateStream\<close>\<close>

text \<open>The model id of a request is a string, or absent (\<open>None\<close>), in which case the
  parameter default \<open>this.defaultModel\<close> applies in \<open>generateText\<close> and \<open>chat\<close>.\<close>

definition generateText_A :: "world \<Rightarrow> jsval \<Rightarrow> string option \<Rightarrow> gen_options \<Rightarrow> gen_result traced" where
  \<open>generateText_A w prompt modelId0 options =
     (let modelId = (case modelId0 of Some m \<Rightarrow> m | None \<Rightarrow> defaultModel VersionA);
          requestedModel = (if lookupModel (AVAILABLE_MODELS_A w) modelId \<noteq> None then modelId
                            else defaultModel VersionA)
      in case lookupModel (AVAILABLE_MODELS_A w) requestedModel of
           None \<Rightarrow> ([], Inl (TypeError ''Cannot read properties of undefined (reading 'type')''))
         | Some model \<Rightarrow>
             if m_type model = Some ''local'' then
               generateWithLocalModel VersionA w prompt requestedModel (withNotice (opt_notice options))
             else if m_type model = Some ''openai'' then
               generateWithOpenAI VersionA w prompt requestedModel options
             else if m_type model = Some ''xenova'' then
               generateWithXenova VersionA w prompt requestedModel options
             else if m_type model = Some ''ollama'' then
               generateWithOllama VersionA w prompt requestedModel options
             else
               generateWithLocalModel VersionA w prompt (defaultModel VersionA)
                 (withNotice (JStr ''Requested model type is not supported. Using the built-in assistant instead.'')))\<close>

definition generateText_B :: "world \<Rightarrow> jsval \<Rightarrow> string option \<Rightarrow> gen_options \<Rightarrow> gen_result traced" where
  \<open>generateText_B w prompt modelId0 options =
     (let modelId = (case modelId0 of Some m \<Rightarrow> m | None \<Rightarrow> defaultModel VersionB);
          requestedModel = (if lookupModel (AVAILABLE_MODELS_B w) modelId \<noteq> None then modelId
                            else defaultModel VersionB)
      in case lookupModel (AVAILABLE_MODELS_B w) requestedModel of
           None \<Rightarrow> ([], Inl (TypeError ''Cannot read properties of undefined (reading 'type')''))
         | Some model \<Rightarrow>
             if m_type model = Some ''local'' then
               generateWithLocalModel VersionB w prompt requestedModel (withNotice (opt_notice options))
             else if m_type model = Some ''openai'' then
               generateWithOpenAI VersionB w prompt requestedModel options
             else if m_type model = Some ''xenova'' then
               generateWithXenova VersionB w prompt requestedModel options
             else if m_type model = Some ''ollama'' then
               generateWithOllama VersionB w prompt requestedModel options
             else if m_type model = Some ''huggingface'' \<and> \<not> HUGGINGFACE_API_KEY w then
               generateWithLocalModel VersionB w prompt (defaultModel VersionB)
                 (withNotice (JStr ''Hugging Face API key not configured. Using built-in assistant instead.''))
             else if m_type model = Some ''huggingface'' then
               generateWithHuggingFace w prompt requestedModel options
             else
               generateWithLocalModel VersionB w prompt (defaultModel VersionB)
                 (withNotice (JStr ''Requested model type is not supported. Using the built-in assistant instead.'')))\<close>

definition generateText :: "version \<Rightarrow> world \<Rightarrow> jsval \<Rightarrow> string option \<Rightarrow> gen_options \<Rightarrow> gen_result traced" where
  "generateText v w prompt modelId options =
     (case v of
        VersionA \<Rightarrow> generateText_A w prompt modelId options
      | VersionB \<Rightarrow> generateText_B w prompt modelId options)"

text \<open>The last statements of \<open>chat\<close> in both versions: format the messages as one prompt,
  call \<open>generateText\<close>, copy the fields.\<close>

definition chatViaGenerateText :: "version \<Rightarrow> world \<Rightarrow> jsval \<Rightarrow> string \<Rightarrow> gen_options \<Rightarrow> chat_result traced" where
  "chatViaGenerateText v w messages resolvedModelId options =
     (case formatMessagesAsPrompt messages resolvedModelId of
        Inl e \<Rightarrow> ([], Inl e)
      | Inr prompt \<Rightarrow>
          (case generateText v w (JStr prompt) (Some resolvedModelId) options of
             (calls, Inl e) \<Rightarrow> (calls, Inl e)
           | (calls, Inr result) \<Rightarrow> (calls, Inr (chatFields (Returned result)))))"

definition chat_A :: "world \<Rightarrow> jsval \<Rightarrow> string option \<Rightarrow> gen_options \<Rightarrow> chat_result traced" where
  \<open>chat_A w messages modelId0 options =
     (let modelId = (case modelId0 of Some m \<Rightarrow> m | None \<Rightarrow> defaultModel VersionA);
          resolvedModelId = (if lookupModel (AVAILABLE_MODELS_A w) modelId \<noteq> None then modelId
                             else defaultModel VersionA)
      in case lookupModel (AVAILABLE_MODELS_A w) resolvedModelId of
           None \<Rightarrow> ([], Inl (TypeError ''Cannot read properties of undefined (reading 'type')''))
         | Some model \<Rightarrow>
             if m_type model = Some ''openai'' then
               chatWithOpenAI VersionA w messages resolvedModelId options
             else if m_type model = Some ''local'' then
               (case generateLocalChatResponse VersionA w messages resolvedModelId options of
                  (calls, Inl e) \<Rightarrow> (calls, Inl e)
                | (calls, Inr result) \<Rightarrow> (calls, Inr (chatFields result)))
             else chatViaGenerateText VersionA w messages resolvedModelId options)\<close>

definition chat_B :: "world \<Rightarrow> jsval \<Rightarrow> string option \<Rightarrow> gen_options \<Rightarrow> chat_result traced" where
  \<open>chat_B w messages modelId0 options =
     (let modelId = (case modelId0 of Some m \<Rightarrow> m | None \<Rightarrow> defaultModel VersionB);
          resolvedModelId = (if lookupModel (AVAILABLE_MODELS_B w) modelId \<noteq> None then modelId
                             else defaultModel VersionB)
      in case lookupModel (AVAILABLE_MODELS_B w) resolvedModelId of
           None \<Rightarrow> ([], Inl (TypeError ''Cannot read properties of undefined (reading 'type')''))
         | Some model \<Rightarrow>
             if m_type model = Some ''openai'' then
               chatWithOpenAI VersionB w messages resolvedModelId options
             else if m_type model = Some ''local'' then
               (if resolvedModelId = ''local/instruct'' then
                  (case generateLocalChatResponse VersionB w messages resolvedModelId options of
                     (calls, Inl e) \<Rightarrow> (calls, Inl e)
                   | (calls, Inr result) \<Rightarrow> (calls, Inr (chatFields result)))
                else
                  (case formatMessagesAsPrompt messages resolvedModelId of
                     Inl e \<Rightarrow> ([], Inl e)
                   | Inr prompt \<Rightarrow>
                       (case generateWithLocalModel VersionB w (JStr prompt) resolvedModelId options of
                          (calls, Inl e) \<Rightarrow> (calls, Inl e)
                        | (calls, Inr result) \<Rightarrow> (calls, Inr (chatFields (Returned result))))))
             else if m_type model = Some ''huggingface'' \<and> \<not> HUGGINGFACE_API_KEY w then
               localChatFallback w [] messages
                 ''Hugging Face API key not configured. Using built-in assistant instead.''
             else if m_type model = Some ''huggingface'' then
               chatWithHuggingFace w messages resolvedModelId options
             else chatViaGenerateText VersionB w messages resolvedModelId options)\<close>

text \<open>
  \<open>generateStream(input, modelId, options)\<close>, an async generator: the contents it yields,
  in order, and the error it ends with, if any.  The id has no default here; an absent
  id reads the key \<open>undefined\<close>.  The two native branches relay what the world's stream
  delivers (empty contents are skipped).  The fallback branch takes the content of the
  last message as the prompt of \<open>generateText\<close> and cuts the text into chunks.\<close>

record stream_result =
  yielded :: "string list"
  thrown :: "js_error option"

definition generateStream :: "version \<Rightarrow> world \<Rightarrow> jsval \<Rightarrow> string option \<Rightarrow> gen_options \<Rightarrow> call list \<times> stream_result" where
  \<open>generateStream v w input modelId0 options =
     (let modelId = (case modelId0 of Some m \<Rightarrow> m | None \<Rightarrow> ''undefined'')
      in case lookupModel (AVAILABLE_MODELS v w) modelId of
           None \<Rightarrow> ([], \<lparr>yielded = [''Model not found''], thrown = None\<rparr>)
         | Some model \<Rightarrow>
             (let messages = (case input of JArr msgs \<Rightarrow> msgs
                              | _ \<Rightarrow> [JObj [(''role'', JStr ''user''), (''content'', input)]])
              in if m_type model = Some ''openai'' then
                   (if \<not> openaiClient w then
                      ([], \<lparr>yielded = [], thrown = Some (Error ''OpenAI API key not configured'')\<rparr>)
                    else
                      (case openai_stream w modelId messages of
                         (contents, err) \<Rightarrow>
                           ([OpenAI modelId], \<lparr>yielded = filter (\<lambda>c. c \<noteq> []) contents, thrown = err\<rparr>)))
                 else if m_type model = Some ''ollama'' then
                   (let baseUrl = ollamaBaseUrl w model;
                        targetModel = orElse (m_ollamaModel model) (dropOllamaPrefix modelId)
                    in case ollama_stream w baseUrl targetModel messages of
                         (contents, err) \<Rightarrow>
                           ([Ollama baseUrl targetModel],
                            \<lparr>yielded = filter (\<lambda>c. c \<noteq> []) contents, thrown = err\<rparr>))
                 else
                   (if messages = [] then
                      ([], \<lparr>yielded = [],
                            thrown = Some (TypeError ''Cannot read properties of undefined (reading 'content')'')\<rparr>)
                    else
                        (let lastMsg = last messages
                         in if nullish lastMsg then
                              ([], \<lparr>yielded = [],
                                    thrown = Some (TypeError (''Cannot read properties of '' @ toStringJS lastMsg @
                                                              '' (reading 'content')''))\<rparr>)
                            else
                              (case generateText v w (getProp lastMsg ''content'') (Some modelId) options of
                                 (calls, Inl e) \<Rightarrow> (calls, \<lparr>yielded = [], thrown = Some e\<rparr>)
                               | (calls, Inr result) \<Rightarrow>
                                   (calls, \<lparr>yielded = simulateStream (r_text result) 0, thrown = None\<rparr>))))))\<close>

section \<open>The augmentation steps of the chat routes (\<open>backend/app.js\<close>)\<close>

text \<open>The routes accept \<open>messages\<close> only as a non-empty array; here every message holds a
  string \<open>role\<close> and a string \<open>content\<close>.  An entry of \<open>apiOrchestrationService.listApis()\<close>
  and a hit of \<open>executeSearch\<close> hold the strings the templates name.\<close>

record chat_message =
  msg_role :: string
  msg_content :: string

record api_config =
  api_id :: string
  api_name :: string
  api_description :: string
  api_baseUrl :: string
  api_enabled :: bool

record search_hit =
  hit_title :: string
  hit_link :: string
  hit_snippet :: string

definition apiContext :: "api_config list \<Rightarrow> string" where
  \<open>apiContext apis = ''\<newline>\<newline>[System Note: You have access to the following external APIs. If the user asks for data from these sources, you can help them construct a query using the API Orchestrator.\<newline>'' @ join (map (\<lambda>a. ''- '' @ api_name a @ '': '' @ api_description a @ '' ('' @ api_baseUrl a @ '')'') apis) ''\<newline>'' @ ''\<newline>]''\<close>

definition searchContext :: "api_config \<Rightarrow> search_hit list \<Rightarrow> string" where
  \<open>searchContext searchApi results = ''\<newline>\<newline>[Web Search Results ('' @ api_name searchApi @ ''):\<newline>'' @ join (map (\<lambda>r. ''- ['' @ hit_title r @ '']('' @ hit_link r @ ''): '' @ hit_snippet r) results) ''\<newline>'' @ ''\<newline>]\<newline>[Instruction: Use the above search results to answer the user's question. Cite your sources using [Title](Link) format.]''\<close>

text \<open>\<open>messages[systemMsgIndex].content += block\<close>, or \<open>messages.unshift\<close> of a new system
  message when there is none.\<close>

definition appendToSystem :: "string \<Rightarrow> chat_message list \<Rightarrow> chat_message list" where
  "appendToSystem block messages =
     (case findIndex (\<lambda>m. msg_role m = ''system'') messages of
        Some systemMsgIndex \<Rightarrow>
          messages[systemMsgIndex :=
            (messages ! systemMsgIndex)\<lparr>msg_content := msg_content (messages ! systemMsgIndex) @ block\<rparr>]
      | None \<Rightarrow> \<lparr>msg_role = ''system'', msg_content = ''You are a helpful AI assistant.'' @ block\<rparr> # messages)"

text \<open>\<open>POST /api/v1/chat\<close>: the API context is appended whenever an API is configured.\<close>

definition chat_injectApiContext :: "api_config list \<Rightarrow> chat_message list \<Rightarrow> chat_message list" where
  "chat_injectApiContext apis messages =
     (if apis \<noteq> [] then appendToSystem (apiContext apis) messages else messages)"

text \<open>\<open>POST /api/v1/chat/stream\<close>: the search results are appended when the search
  returned any.\<close>

definition stream_injectSearchContext :: "api_config \<Rightarrow> search_hit list \<Rightarrow> chat_message list \<Rightarrow> chat_message list" where
  "stream_injectSearchContext searchApi results messages =
     (if results \<noteq> [] then appendToSystem (searchContext searchApi results) messages else messages)"

text \<open>\<open>POST /api/v1/chat/stream\<close>: the API context is appended to an existing system
  message only if that does not yet include the marker text.\<close>

definition stream_injectApiContext :: "api_config list \<Rightarrow> chat_message list \<Rightarrow> chat_message list" where
  "stream_injectApiContext apis messages =
     (if apis \<noteq> [] then
        (case findIndex (\<lambda>m. msg_role m = ''system'') messages of
           Some systemMsgIndex \<Rightarrow>
             if \<not> str_includes (msg_content (messages ! systemMsgIndex))
                    ''System Note: You have access to the following external APIs''
             then messages[systemMsgIndex :=
                    (messages ! systemMsgIndex)\<lparr>msg_content := msg_content (messages ! systemMsgIndex) @ apiContext apis\<rparr>]
             else messages
         | None \<Rightarrow> \<lparr>msg_role = ''system'', msg_content = ''You are a helpful AI assistant.'' @ apiContext apis\<rparr> # messages)
      else messages)"

section \<open>Example worlds\<close>

text \<open>Two concrete worlds for evaluating the module.  In \<open>authFailureWorld\<close> both cloud
  backends answer 401; in \<open>outageWorld\<close> the Ollama daemon refuses the connection, the
  local pipeline cannot be loaded, the Hugging Face router answers 500 and OpenAI 429.
  The replies that the worlds give for the analyzer, the neural heads and the knowledge
  base of TinyLLM are stand-ins; the theorems that name no world hold for every world.\<close>

definition unauthorized :: js_error where
  "unauthorized =
     \<lparr>err_name = ''Error'', err_message = ''Request failed with status code 401'', err_code = Some ''ERR_BAD_REQUEST'',
      err_response = Some \<lparr>resp_status = 401, resp_error_message = Some ''Invalid credentials'',
                            resp_message = None, resp_detail = None\<rparr>\<rparr>"

definition rateLimited :: js_error where
  "rateLimited =
     \<lparr>err_name = ''Error'', err_message = ''Request failed with status code 429'', err_code = Some ''ERR_BAD_REQUEST'',
      err_response = Some \<lparr>resp_status = 429, resp_error_message = Some ''Rate limit exceeded'',
                            resp_message = None, resp_detail = None\<rparr>\<rparr>"

definition serverError :: js_error where
  "serverError =
     \<lparr>err_name = ''Error'', err_message = ''Request failed with status code 500'', err_code = Some ''ERR_BAD_RESPONSE'',
      err_response = Some \<lparr>resp_status = 500, resp_error_message = None,
                            resp_message = None, resp_detail = None\<rparr>\<rparr>"

definition connectionRefused :: js_error where
  "connectionRefused =
     \<lparr>err_name = ''Error'', err_message = ''connect ECONNREFUSED 127.0.0.1:11434'', err_code = Some ''ECONNREFUSED'',
      err_response = None\<rparr>"

definition authFailureWorld :: world where
  "authFailureWorld =
     \<lparr>OLLAMA_HOST = ''http://localhost:11434'',
      openaiClient = True,
      HUGGINGFACE_API_KEY = True,
      openai_create = (\<lambda>model messages. Inl unauthorized),
      hf_post = (\<lambda>model messages. Inl unauthorized),
      ollama_post = (\<lambda>baseUrl model prompt. Inr (JObj [(''response'', JStr ''Hello from Ollama'')])),
      xenova_run = (\<lambda>key prompt. Inr (JArr [JObj [(''generated_text'', JStr ''Hello from the pipeline'')]])),
      openai_stream = (\<lambda>model messages. ([], Some unauthorized)),
      ollama_stream = (\<lambda>baseUrl model messages. ([''Hello'', '' from Ollama''], None)),
      nlp_analyze = (\<lambda>prompt. emptyAnalysis),
      tinyllm_reply = (\<lambda>prompt. ''Could you provide more context?''),
      aakarsh_mesh = (\<lambda>prompt. ''AAKARSH blends enhanced NLP with a richer neural mesh for this prompt.''),
      local_head = (\<lambda>prompt. ''Local Assistant (10M) fused rule-based NLP with a compact neural head for this prompt.'')\<rparr>"

definition outageWorld :: world where
  "outageWorld =
     \<lparr>OLLAMA_HOST = ''http://localhost:11434'',
      openaiClient = True,
      HUGGINGFACE_API_KEY = True,
      openai_create = (\<lambda>model messages. Inl rateLimited),
      hf_post = (\<lambda>model messages. Inl serverError),
      ollama_post = (\<lambda>baseUrl model prompt. Inl connectionRefused),
      xenova_run = (\<lambda>key prompt. Inl (Error ''Could not locate model files'')),
      openai_stream = (\<lambda>model messages. ([], Some rateLimited)),
      ollama_stream = (\<lambda>baseUrl model messages. ([], Some connectionRefused)),
      nlp_analyze = (\<lambda>prompt. emptyAnalysis),
      tinyllm_reply = (\<lambda>prompt. ''Could you provide more context?''),
      aakarsh_mesh = (\<lambda>prompt. ''AAKARSH blends enhanced NLP with a richer neural mesh for this prompt.''),
      local_head = (\<lambda>prompt. ''Local Assistant (10M) fused rule-based NLP with a compact neural head for this prompt.'')\<rparr>"

text \<open>The calls of a trace that went to the rule-based adapter.\<close>

fun isLocalCall :: "call \<Rightarrow> bool" where
  "isLocalCall (LocalModel prompt modelId) = True"
| "isLocalCall (LocalChat messages modelId) = True"
| "isLocalCall c = False"

definition localCalls :: "call list \<Rightarrow> call list" where
  "localCalls calls = filter isLocalCall calls"

section \<open>Properties of the string functions\<close>

lemma startsWith_append: "startsWith (k @ b) k"
  by (induction k) auto

lemma str_includes_startsWith: "startsWith s k \<Longrightarrow> str_includes s k"
  by (cases s) (auto elim: startsWith.elims)

lemma str_includes_append: "str_includes (a @ k @ b) k"
  by (induction a) (simp_all add: str_includes_startsWith startsWith_append)




lemma join_Cons: "ys \<noteq> [] \<Longrightarrow> join (x # ys) sep = x @ sep @ join ys sep"
  by (cases ys) simp_all

lemma join_snoc: "join (xs @ [y]) sep = concat (map (\<lambda>n. n @ sep) xs) @ y"
  by (induction xs) (simp_all add: join_Cons)

lemma composeContent_concat:
  "composeContent content inline = concat (map (\<lambda>n. n @ ''\<newline>\<newline>'') inline) @ content"
proof (cases inline rule: rev_cases)
  case Nil
  then show ?thesis by (simp add: composeContent_def)
next
  case (snoc xs y)
  then show ?thesis by (simp add: composeContent_def join_snoc)
qed

section \<open>Intent detection\<close>

lemma keywordScore_fold:
  "fold (\<lambda>keyword score. if str_includes input keyword then score + p else score) kws acc =
     acc + sum_list (map (\<lambda>kw. p) (filter (str_includes input) kws))" for p acc :: nat
  by (induction kws arbitrary: acc) simp_all

lemma keywordScore_sum:
  "keywordScore input c =
     sum_list (map (\<lambda>kw. intent_priority c) (filter (str_includes input) (intent_keywords c)))"
  by (simp add: keywordScore_def keywordScore_fold)

lemma highestScore_fold:
  "fold (\<lambda>(intentKey, score) (detectedIntent, maxScore).
           if score > maxScore then (intentKey, score) else (detectedIntent, maxScore))
     scores (d0, m0) = (d, m) \<Longrightarrow>
   ((\<forall>x \<in> set scores. snd x \<le> m0) \<and> d = d0 \<and> m = m0) \<or>
   (\<exists>pre post. scores = pre @ (d, m) # post \<and> m0 < m \<and>
      (\<forall>x \<in> set pre. snd x < m) \<and> (\<forall>x \<in> set post. snd x \<le> m))"
  for m0 m :: nat and d0 d :: string
proof (induction scores arbitrary: d0 m0)
  case Nil
  then show ?case by simp
next
  case (Cons kv rest)
  obtain k v where kv: "kv = (k, v)" by (cases kv)
  show ?case
  proof (cases "v > m0")
    case True
    with Cons.prems kv have run: "fold (\<lambda>(intentKey, score) (detectedIntent, maxScore).
           if score > maxScore then (intentKey, score) else (detectedIntent, maxScore))
        rest (k, v) = (d, m)" by simp
    from Cons.IH [OF run] show ?thesis
    proof
      assume a: "(\<forall>x \<in> set rest. snd x \<le> v) \<and> d = k \<and> m = v"
      have "kv # rest = [] @ (d, m) # rest" using a kv by simp
      moreover have "m0 < m" using a True by simp
      moreover have "\<forall>x \<in> set rest. snd x \<le> m" using a by simp
      ultimately show ?thesis by (metis empty_iff list.set(1))
    next
      assume "\<exists>pre post. rest = pre @ (d, m) # post \<and> v < m \<and>
          (\<forall>x \<in> set pre. snd x < m) \<and> (\<forall>x \<in> set post. snd x \<le> m)"
      then obtain pre post where r: "rest = pre @ (d, m) # post" "v < m"
          "\<forall>x \<in> set pre. snd x < m" "\<forall>x \<in> set post. snd x \<le> m" by blast
      have "kv # rest = (kv # pre) @ (d, m) # post" using r(1) by simp
      moreover have "m0 < m" using r(2) True by simp
      moreover have "\<forall>x \<in> set (kv # pre). snd x < m" using r(2,3) kv by simp
      ultimately show ?thesis using r(4) by blast
    qed
  next
    case False
    with Cons.prems kv have run: "fold (\<lambda>(intentKey, score) (detectedIntent, maxScore).
           if score > maxScore then (intentKey, score) else (detectedIntent, maxScore))
        rest (d0, m0) = (d, m)" by simp
    from Cons.IH [OF run] show ?thesis
    proof
      assume a: "(\<forall>x \<in> set rest. snd x \<le> m0) \<and> d = d0 \<and> m = m0"
      then have "(\<forall>x \<in> set (kv # rest). snd x \<le> m0) \<and> d = d0 \<and> m = m0"
        using False kv by simp
      then show ?thesis by (rule disjI1)
    next
      assume "\<exists>pre post. rest = pre @ (d, m) # post \<and> m0 < m \<and>
          (\<forall>x \<in> set pre. snd x < m) \<and> (\<forall>x \<in> set post. snd x \<le> m)"
      then obtain pre post where r: "rest = pre @ (d, m) # post" "m0 < m"
          "\<forall>x \<in> set pre. snd x < m" "\<forall>x \<in> set post. snd x \<le> m" by blast
      have "kv # rest = (kv # pre) @ (d, m) # post" using r(1) by simp
      moreover have "\<forall>x \<in> set (kv # pre). snd x < m" using r(2,3) kv False by simp
      ultimately show ?thesis using r(2,4) by blast
    qed
  qed
qed

lemma highestScore_first_max:
  assumes "highestScore scores = (d, m)"
  shows "((\<forall>x \<in> set scores. snd x = 0) \<and> d = ''CHAT'' \<and> m = 0) \<or>
         (\<exists>pre post. scores = pre @ (d, m) # post \<and> 0 < m \<and>
            (\<forall>x \<in> set pre. snd x < m) \<and> (\<forall>x \<in> set post. snd x \<le> m))"
  using highestScore_fold [OF assms [unfolded highestScore_def]] by simp

lemma highestScore_key:
  assumes "highestScore scores = (d, m)"
  shows "d = ''CHAT'' \<or> d \<in> fst ` set scores"
proof -
  from highestScore_first_max [OF assms] show ?thesis
  proof
    assume "(\<forall>x \<in> set scores. snd x = 0) \<and> d = ''CHAT'' \<and> m = 0"
    then show ?thesis by simp
  next
    assume "\<exists>pre post. scores = pre @ (d, m) # post \<and> 0 < m \<and>
            (\<forall>x \<in> set pre. snd x < m) \<and> (\<forall>x \<in> set post. snd x \<le> m)"
    then obtain pre post where "scores = pre @ (d, m) # post" by blast
    then have "(d, m) \<in> set scores" by simp
    then have "fst (d, m) \<in> fst ` set scores" by (rule imageI)
    then show ?thesis by simp
  qed
qed
lemma intentScores_keys: "fst ` set (intentScores its input) = fst ` set its"
  by (force simp: intentScores_def)

lemma intentScores_sum:
  "intentScores its input =
     map (\<lambda>(key, cat). (key, sum_list (map (\<lambda>kw. intent_priority cat)
            (filter (str_includes input) (intent_keywords cat))))) its"
  by (simp add: intentScores_def keywordScore_sum)

lemma INTENT_CATEGORIES_keys:
  "map fst INTENT_CATEGORIES =
     [''CHAT'', ''CODE'', ''DOCUMENT_SEARCH'', ''ANALYSIS'', ''GITHUB'', ''DEVOPS'', ''SECURITY'',
      ''MONITORING'', ''INCIDENT'', ''DATABASE'', ''DOCUMENTATION'', ''TESTING'', ''PERFORMANCE'',
      ''PROJECT_MANAGEMENT'', ''CODE_REVIEW'', ''SYSTEM_ADMIN'', ''WEB_SEARCH'', ''IMAGE_GENERATION'']"
  by (simp add: INTENT_CATEGORIES_def)

lemma detectIntent_result:
  assumes "highestScore (intentScores (intents this) (toLowerCase userInput)) = (d, m)"
    and "map_of (intents this) d = Some c"
  shows "\<exists>r this'. detectIntent this userInput = (Inr r, this') \<and> d_intent r = d \<and>
           d_scores r = intentScores (intents this) (toLowerCase userInput) \<and>
           d_name r = intent_name c \<and> d_route r = intent_route c \<and>
           intents this' = intents this"
  using assms by (simp add: detectIntent_def Let_def)

text \<open>C8.  For every input string, \<open>detectIntent\<close> on the shipped table returns a result;
  the score of each category is the sum of its priority over those of its keywords that
  the lower-cased input includes; when no category scores above zero the result is \<open>CHAT\<close>;
  otherwise the result is a category of the highest score, and every category declared
  before it scores strictly less (ties go to the earlier declaration).\<close>

theorem detectIntent_classification:
  "\<exists>r this'. detectIntent intentDetector userInput = (Inr r, this') \<and>
     d_scores r =
       map (\<lambda>(key, cat). (key, sum_list (map (\<lambda>kw. intent_priority cat)
              (filter (str_includes (toLowerCase userInput)) (intent_keywords cat)))))
         INTENT_CATEGORIES \<and>
     (((\<forall>x \<in> set (d_scores r). snd x = 0) \<and> d_intent r = ''CHAT'') \<or>
      (\<exists>pre post m. d_scores r = pre @ (d_intent r, m) # post \<and> 0 < m \<and>
          (\<forall>x \<in> set pre. snd x < m) \<and> (\<forall>x \<in> set post. snd x \<le> m)))"
proof -
  let ?scores = "intentScores INTENT_CATEGORIES (toLowerCase userInput)"
  obtain d m where dm: "highestScore ?scores = (d, m)" by (cases "highestScore ?scores")
  have "d = ''CHAT'' \<or> d \<in> fst ` set INTENT_CATEGORIES"
    using highestScore_key [OF dm] by (simp only: intentScores_keys)
  moreover have "''CHAT'' \<in> set (map fst INTENT_CATEGORIES)"
    by (simp only: INTENT_CATEGORIES_keys) simp
  ultimately have "d \<in> fst ` set INTENT_CATEGORIES" by auto
  then obtain c where c: "map_of INTENT_CATEGORIES d = Some c"
    by (metis domD dom_map_of_conv_image_fst)
  from detectIntent_result [of intentDetector userInput d m c] dm c
  obtain r this' where r: "detectIntent intentDetector userInput = (Inr r, this')"
      "d_intent r = d" "d_scores r = ?scores"
    by (auto simp: intentDetector_def)
  from highestScore_first_max [OF dm] r
  have "((\<forall>x \<in> set (d_scores r). snd x = 0) \<and> d_intent r = ''CHAT'') \<or>
      (\<exists>pre post m. d_scores r = pre @ (d_intent r, m) # post \<and> 0 < m \<and>
          (\<forall>x \<in> set pre. snd x < m) \<and> (\<forall>x \<in> set post. snd x \<le> m))"
    by (simp only: r(2,3)) blast
  with r show ?thesis by (simp add: intentScores_sum)
qed

lemma intentScores_example: "intentScores INTENT_CATEGORIES (toLowerCase ''Find the GitHub repo'') =
  [(''CHAT'', 0), (''CODE'', 0), (''DOCUMENT_SEARCH'', 2), (''ANALYSIS'', 0), (''GITHUB'', 8),
   (''DEVOPS'', 0), (''SECURITY'', 0), (''MONITORING'', 0), (''INCIDENT'', 0), (''DATABASE'', 0),
   (''DOCUMENTATION'', 0), (''TESTING'', 0), (''PERFORMANCE'', 0), (''PROJECT_MANAGEMENT'', 0),
   (''CODE_REVIEW'', 0), (''SYSTEM_ADMIN'', 0), (''WEB_SEARCH'', 0), (''IMAGE_GENERATION'', 0)]"
  by (simp add: intentScores_def keywordScore_def INTENT_CATEGORIES_def toLowerCase_def toLowerChar_def isUpperChar_def)

theorem detectIntent_classification_witness:
  "\<exists>r this'. detectIntent intentDetector ''Find the GitHub repo'' = (Inr r, this') \<and>
     d_intent r = ''GITHUB'' \<and>
     d_scores r = [(''CHAT'', 0), (''CODE'', 0), (''DOCUMENT_SEARCH'', 2), (''ANALYSIS'', 0), (''GITHUB'', 8),
   (''DEVOPS'', 0), (''SECURITY'', 0), (''MONITORING'', 0), (''INCIDENT'', 0), (''DATABASE'', 0),
   (''DOCUMENTATION'', 0), (''TESTING'', 0), (''PERFORMANCE'', 0), (''PROJECT_MANAGEMENT'', 0),
   (''CODE_REVIEW'', 0), (''SYSTEM_ADMIN'', 0), (''WEB_SEARCH'', 0), (''IMAGE_GENERATION'', 0)] \<and>
     (\<exists>pre post m. d_scores r = pre @ (d_intent r, m) # post \<and> 0 < m \<and>
          (\<forall>x \<in> set pre. snd x < m) \<and> (\<forall>x \<in> set post. snd x \<le> m))"
proof -
  let ?input = "''Find the GitHub repo''"
  from detectIntent_classification [of ?input]
  obtain r this' where r: "detectIntent intentDetector ?input = (Inr r, this')"
    and cases: "((\<forall>x \<in> set (d_scores r). snd x = 0) \<and> d_intent r = ''CHAT'') \<or>
      (\<exists>pre post m. d_scores r = pre @ (d_intent r, m) # post \<and> 0 < m \<and>
          (\<forall>x \<in> set pre. snd x < m) \<and> (\<forall>x \<in> set post. snd x \<le> m))"
    by blast
  have hs: "highestScore (intentScores (intents intentDetector) (toLowerCase ?input)) = (''GITHUB'', 8)"
    by (simp add: intentDetector_def highestScore_def intentScores_example)
  have "\<exists>c. map_of (intents intentDetector) ''GITHUB'' = Some c"
    by (simp add: intentDetector_def INTENT_CATEGORIES_def)
  then obtain c where c: "map_of (intents intentDetector) ''GITHUB'' = Some c" ..
  from detectIntent_result [OF hs c] r
  have v: "d_intent r = ''GITHUB''" "d_scores r = intentScores INTENT_CATEGORIES (toLowerCase ?input)"
    by (auto simp: intentDetector_def)
  from v(2) have "\<not> (\<forall>x \<in> set (d_scores r). snd x = 0)"
    by (simp add: intentScores_example)
  with cases have "\<exists>pre post m. d_scores r = pre @ (d_intent r, m) # post \<and> 0 < m \<and>
          (\<forall>x \<in> set pre. snd x < m) \<and> (\<forall>x \<in> set post. snd x \<le> m)" by blast
  with r v show ?thesis by (simp add: intentScores_example)
qed

text \<open>C10.  \<open>detectIntent\<close> reads the table and writes only to the logger, so a second
  call on the same string, made on the detector as the first call left it, returns the
  same result: the same intent, the same scores and the same confidence.\<close>

theorem detectIntent_deterministic:
  "fst (detectIntent (snd (detectIntent this userInput)) userInput) = fst (detectIntent this userInput)"
  by (simp add: detectIntent_def Let_def split: prod.splits option.splits)

section \<open>The chunk loop\<close>

lemma concat_simulateStream: "concat (simulateStream s i) = drop i s"
proof (induction s i rule: simulateStream.induct)
  case (1 s i)
  show ?case
  proof (cases "i < length s")
    case True
    have "concat (simulateStream s i) = slice s i (i + chunkSize) @ concat (simulateStream s (i + chunkSize))"
      using True by (subst simulateStream.simps) simp
    also have "\<dots> = take chunkSize (drop i s) @ drop chunkSize (drop i s)"
      using 1 [OF True] by (simp add: slice_def add.commute)
    also have "\<dots> = drop i s"
      by (rule append_take_drop_id)
    finally show ?thesis .
  next
    case False
    then show ?thesis by (subst simulateStream.simps) simp
  qed
qed

lemma chunk_count_step:
  assumes "i < n"
  shows "Suc ((n - (i + chunkSize) + (chunkSize - 1)) div chunkSize) = (n - i + (chunkSize - 1)) div chunkSize"
proof (cases "n - i < 10")
  case True
  have "(n - i + 9) div 10 = 1"
    by (rule div_nat_eqI) (use True assms in simp_all)
  moreover from True have "n - (i + 10) = 0" by simp
  ultimately show ?thesis by (simp add: chunkSize_def)
next
  case False
  then obtain k where k: "n - i = k + 10"
    by (metis add.commute le_add_diff_inverse not_less)
  then have "n - (i + 10) = k" by simp
  with k show ?thesis by (simp add: chunkSize_def)
qed

lemma length_simulateStream:
  "length (simulateStream s i) = (length s - i + (chunkSize - 1)) div chunkSize"
proof (induction s i rule: simulateStream.induct)
  case (1 s i)
  show ?case
  proof (cases "i < length s")
    case True
    have "length (simulateStream s i) = Suc (length (simulateStream s (i + chunkSize)))"
      using True by (subst simulateStream.simps) simp
    also have "\<dots> = Suc ((length s - (i + chunkSize) + (chunkSize - 1)) div chunkSize)"
      using 1 [OF True] by simp
    also have "\<dots> = (length s - i + (chunkSize - 1)) div chunkSize"
      using True by (rule chunk_count_step)
    finally show ?thesis .
  next
    case False
    then show ?thesis by (subst simulateStream.simps) (simp add: chunkSize_def)
  qed
qed

lemma ceiling_div_chunkSize:
  "nat \<lceil>real n / real chunkSize\<rceil> = (n + (chunkSize - 1)) div chunkSize"
proof -
  have "\<lceil>real n / real chunkSize\<rceil> = \<lceil>of_int (int n) / (of_int (int chunkSize) :: real)\<rceil>" by simp
  also have "\<dots> = - (- int n div int chunkSize)" by (rule ceiling_divide_eq_div)
  also have "\<dots> = int ((n + (chunkSize - 1)) div chunkSize)"
    unfolding chunkSize_def by (simp add: zdiv_int)
  finally show ?thesis by simp
qed

lemma simulateStream_nonempty: "c \<in> set (simulateStream s i) \<Longrightarrow> c \<noteq> []"
proof (induction s i rule: simulateStream.induct)
  case (1 s i)
  show ?case
  proof (cases "i < length s")
    case True
    then have "simulateStream s i = slice s i (i + chunkSize) # simulateStream s (i + chunkSize)"
      by (subst simulateStream.simps) simp
    with 1 True show ?thesis by (auto simp: slice_def chunkSize_def)
  next
    case False
    then have "simulateStream s i = []" by (subst simulateStream.simps) simp
    with 1 show ?thesis by simp
  qed
qed

lemma simulateStream_nth:
  "k < length (simulateStream s i) \<Longrightarrow>
     simulateStream s i ! k = slice s (i + k * chunkSize) (i + k * chunkSize + chunkSize)"
proof (induction k arbitrary: i)
  case 0
  then have "i < length s"
    by (subst (asm) simulateStream.simps) (simp split: if_splits)
  then show ?case by (subst simulateStream.simps) simp
next
  case (Suc k)
  then have i: "i < length s"
    by (subst (asm) simulateStream.simps) (simp split: if_splits)
  then have unfold: "simulateStream s i = slice s i (i + chunkSize) # simulateStream s (i + chunkSize)"
    by (subst simulateStream.simps) simp
  with Suc.prems have "k < length (simulateStream s (i + chunkSize))" by simp
  then have "simulateStream s (i + chunkSize) ! k =
      slice s (i + chunkSize + k * chunkSize) (i + chunkSize + k * chunkSize + chunkSize)"
    by (rule Suc.IH)
  with unfold show ?case by (simp add: add.assoc add.left_commute)
qed

section \<open>Notices\<close>

text \<open>C9 does not hold as stated: nothing removes a repeated notice.  When the caller's
  notice has the text of the model's static notice, the inline list holds it twice.\<close>

theorem prepareNotices_repeats:
  "composeContent ''Hello''
     (fst (prepareNotices VersionA
             (lookupModel (AVAILABLE_MODELS_A authFailureWorld) ''local/assistant-10m'')
             (withNotice (JStr ''Deterministic built-in assistant tuned for small-footprint deployments.'')))) =
   ''Deterministic built-in assistant tuned for small-footprint deployments.\<newline>\<newline>Deterministic built-in assistant tuned for small-footprint deployments.\<newline>\<newline>Hello''"
  by (simp add: prepareNotices_def withNotice_def lookupModel_def AVAILABLE_MODELS_A_def modelNotice_def
        normalizeNotices_def trim_def isSpaceChar_def Let_def composeContent_def)

text \<open>C9, amended.  \<open>prepareNotices\<close> returns the model's static notice as \<open>extra\<close> (the
  \<open>notices\<close> of a result) and, as the inline list, the notices passed in \<open>options.notice\<close>
  (the caller's, or the fallback notice that a fallback call passes in their place)
  followed by the static notice, unless inlining it is switched off.  The option
  \<open>inlineModelNotice\<close> switches it off when it is \<open>false\<close> and on when it is \<open>true\<close>; when
  the option is no boolean, inlining is on in version A, and in version B it is off for a
  model of type \<open>huggingface\<close> and on for every other model.  \<open>composeContent\<close> writes every
  inline notice, in that order and each followed by a blank line, before the content.\<close>

theorem prepareNotices_composed:
  "(case prepareNotices v model options of
      (inline, extra) \<Rightarrow>
        extra = normalizeNotices (modelNotice model) \<and>
        (inline = normalizeNotices (opt_notice options) @ extra \<or>
         inline = normalizeNotices (opt_notice options)) \<and>
        (opt_inlineModelNotice options = JUndefined \<and> v = VersionA \<longrightarrow>
           inline = normalizeNotices (opt_notice options) @ extra) \<and>
        (opt_inlineModelNotice options = JBool False \<longrightarrow>
           inline = normalizeNotices (opt_notice options)) \<and>
        (opt_inlineModelNotice options = JBool True \<longrightarrow>
           inline = normalizeNotices (opt_notice options) @ extra) \<and>
        ((\<forall>b. opt_inlineModelNotice options \<noteq> JBool b) \<and> v = VersionA \<longrightarrow>
           inline = normalizeNotices (opt_notice options) @ extra) \<and>
        ((\<forall>b. opt_inlineModelNotice options \<noteq> JBool b) \<and> v = VersionB \<and>
         (\<exists>m. model = Some m \<and> m_type m = Some ''huggingface'') \<longrightarrow>
           inline = normalizeNotices (opt_notice options)) \<and>
        ((\<forall>b. opt_inlineModelNotice options \<noteq> JBool b) \<and> v = VersionB \<and>
         \<not> (\<exists>m. model = Some m \<and> m_type m = Some ''huggingface'') \<longrightarrow>
           inline = normalizeNotices (opt_notice options) @ extra) \<and>
        composeContent content inline = concat (map (\<lambda>n. n @ ''\<newline>\<newline>'') inline) @ content)"
proof -
  let ?notices = "normalizeNotices (opt_notice options)"
  let ?extra = "normalizeNotices (modelNotice model)"
  let ?on = "case opt_inlineModelNotice options of
               JBool b \<Rightarrow> b
             | _ \<Rightarrow> (case v of
                        VersionA \<Rightarrow> True
                      | VersionB \<Rightarrow> (case model of None \<Rightarrow> True | Some m \<Rightarrow> m_type m \<noteq> Some ''huggingface''))"
  have p: "prepareNotices v model options = (if ?on then ?notices @ ?extra else ?notices, ?extra)"
    by (simp add: prepareNotices_def Let_def)
  have off: "opt_inlineModelNotice options = JBool False \<Longrightarrow> \<not> ?on"
    and on: "opt_inlineModelNotice options = JBool True \<Longrightarrow> ?on"
    by simp_all
  have a: "(\<forall>b. opt_inlineModelNotice options \<noteq> JBool b) \<Longrightarrow> v = VersionA \<Longrightarrow> ?on"
    by (cases "opt_inlineModelNotice options") auto
  have b_hf: "(\<forall>b. opt_inlineModelNotice options \<noteq> JBool b) \<Longrightarrow> v = VersionB \<Longrightarrow>
      model = Some m \<Longrightarrow> m_type m = Some ''huggingface'' \<Longrightarrow> \<not> ?on" for m
    by (cases "opt_inlineModelNotice options") auto
  have b_other: "(\<forall>b. opt_inlineModelNotice options \<noteq> JBool b) \<Longrightarrow> v = VersionB \<Longrightarrow>
      \<not> (\<exists>m. model = Some m \<and> m_type m = Some ''huggingface'') \<Longrightarrow> ?on"
    by (cases "opt_inlineModelNotice options"; cases model) auto
  have u: "opt_inlineModelNotice options = JUndefined \<Longrightarrow> v = VersionA \<Longrightarrow> ?on"
    by simp
  show ?thesis
    unfolding p prod.case
    using off on a b_hf b_other u by (auto simp add: composeContent_concat)
qed

theorem prepareNotices_composed_witness:
  "(case prepareNotices VersionA (lookupModel (AVAILABLE_MODELS_A outageWorld) ''local/aakarsh'')
           (withNotice (JStr ''Could not reach Ollama.'')) of
      (inline, extra) \<Rightarrow>
        extra = [''Enhanced NLP + neural mesh routing. Entirely local and deterministic.''] \<and>
        inline = [''Could not reach Ollama.'',
                  ''Enhanced NLP + neural mesh routing. Entirely local and deterministic.''] \<and>
        composeContent ''Hello'' inline =
          ''Could not reach Ollama.\<newline>\<newline>Enhanced NLP + neural mesh routing. Entirely local and deterministic.\<newline>\<newline>Hello'') \<and>
   (case prepareNotices VersionA (lookupModel (AVAILABLE_MODELS_A outageWorld) ''local/aakarsh'')
           \<lparr>opt_notice = JStr ''Could not reach Ollama.'', opt_inlineModelNotice = JBool False\<rparr> of
      (inline, extra) \<Rightarrow>
        extra = [''Enhanced NLP + neural mesh routing. Entirely local and deterministic.''] \<and>
        inline = [''Could not reach Ollama.''] \<and>
        composeContent ''Hello'' inline = ''Could not reach Ollama.\<newline>\<newline>Hello'') \<and>
   (case prepareNotices VersionB
           (lookupModel (AVAILABLE_MODELS_B outageWorld) ''huggingface/meta-llama-3.1-8b-instruct'')
           (withNotice (JStr ''Shown first.'')) of
      (inline, extra) \<Rightarrow>
        extra = [''Requires API Key.''] \<and> inline = [''Shown first.''] \<and>
        composeContent ''Hello'' inline = ''Shown first.\<newline>\<newline>Hello'') \<and>
   (case prepareNotices VersionB
           (lookupModel (AVAILABLE_MODELS_B outageWorld) ''huggingface/meta-llama-3.1-8b-instruct'')
           \<lparr>opt_notice = JStr ''Shown first.'', opt_inlineModelNotice = JBool True\<rparr> of
      (inline, extra) \<Rightarrow>
        extra = [''Requires API Key.''] \<and> inline = [''Shown first.'', ''Requires API Key.''] \<and>
        composeContent ''Hello'' inline = ''Shown first.\<newline>\<newline>Requires API Key.\<newline>\<newline>Hello'') \<and>
   (case prepareNotices VersionB (lookupModel (AVAILABLE_MODELS_B outageWorld) ''ollama/mistral:7b'')
           (withNotice (JStr ''Shown first.'')) of
      (inline, extra) \<Rightarrow>
        extra = [''Requires Ollama running locally.''] \<and>
        inline = [''Shown first.'', ''Requires Ollama running locally.''] \<and>
        composeContent ''Hello'' inline =
          ''Shown first.\<newline>\<newline>Requires Ollama running locally.\<newline>\<newline>Hello'')"
proof -
  let ?a = "lookupModel (AVAILABLE_MODELS_A outageWorld) ''local/aakarsh''"
  let ?hf = "lookupModel (AVAILABLE_MODELS_B outageWorld) ''huggingface/meta-llama-3.1-8b-instruct''"
  let ?ol = "lookupModel (AVAILABLE_MODELS_B outageWorld) ''ollama/mistral:7b''"
  have a: "normalizeNotices (modelNotice ?a) =
      [''Enhanced NLP + neural mesh routing. Entirely local and deterministic.'']"
    by (simp add: lookupModel_def AVAILABLE_MODELS_A_def modelNotice_def normalizeNotices_def
          trim_def isSpaceChar_def)
  have hf: "normalizeNotices (modelNotice ?hf) = [''Requires API Key.'']"
      "\<exists>m. ?hf = Some m \<and> m_type m = Some ''huggingface''"
    by (simp_all add: lookupModel_def AVAILABLE_MODELS_B_def modelNotice_def normalizeNotices_def
          trim_def isSpaceChar_def)
  have ol: "normalizeNotices (modelNotice ?ol) = [''Requires Ollama running locally.'']"
      "\<not> (\<exists>m. ?ol = Some m \<and> m_type m = Some ''huggingface'')"
    by (simp_all add: lookupModel_def AVAILABLE_MODELS_B_def modelNotice_def normalizeNotices_def
          trim_def isSpaceChar_def)
  have n: "normalizeNotices (JStr ''Could not reach Ollama.'') = [''Could not reach Ollama.'']"
      "normalizeNotices (JStr ''Shown first.'') = [''Shown first.'']"
    by (simp_all add: normalizeNotices_def trim_def isSpaceChar_def)
  have o: "opt_inlineModelNotice (withNotice x) = JUndefined" "opt_notice (withNotice x) = x"
      "\<forall>b. opt_inlineModelNotice (withNotice x) \<noteq> JBool b" for x
    by (simp_all add: withNotice_def)
  have 1: "case prepareNotices VersionA ?a (withNotice (JStr ''Could not reach Ollama.'')) of
      (inline, extra) \<Rightarrow>
        extra = [''Enhanced NLP + neural mesh routing. Entirely local and deterministic.''] \<and>
        inline = [''Could not reach Ollama.'',
                  ''Enhanced NLP + neural mesh routing. Entirely local and deterministic.''] \<and>
        composeContent ''Hello'' inline =
          ''Could not reach Ollama.\<newline>\<newline>Enhanced NLP + neural mesh routing. Entirely local and deterministic.\<newline>\<newline>Hello''"
    using prepareNotices_composed [where v = VersionA and model = ?a
        and options = "withNotice (JStr ''Could not reach Ollama.'')" and content = "''Hello''"]
    by (auto simp add: a n o)
  have 2: "case prepareNotices VersionA ?a
           \<lparr>opt_notice = JStr ''Could not reach Ollama.'', opt_inlineModelNotice = JBool False\<rparr> of
      (inline, extra) \<Rightarrow>
        extra = [''Enhanced NLP + neural mesh routing. Entirely local and deterministic.''] \<and>
        inline = [''Could not reach Ollama.''] \<and>
        composeContent ''Hello'' inline = ''Could not reach Ollama.\<newline>\<newline>Hello''"
    using prepareNotices_composed [where v = VersionA and model = ?a
        and options = "\<lparr>opt_notice = JStr ''Could not reach Ollama.'', opt_inlineModelNotice = JBool False\<rparr>"
        and content = "''Hello''"]
    by (auto simp add: a n)
  have 3: "case prepareNotices VersionB ?hf (withNotice (JStr ''Shown first.'')) of
      (inline, extra) \<Rightarrow>
        extra = [''Requires API Key.''] \<and> inline = [''Shown first.''] \<and>
        composeContent ''Hello'' inline = ''Shown first.\<newline>\<newline>Hello''"
    using prepareNotices_composed [where v = VersionB and model = ?hf
        and options = "withNotice (JStr ''Shown first.'')" and content = "''Hello''"] hf(2)
    by (auto simp add: hf(1) n o)
  have 4: "case prepareNotices VersionB ?hf
           \<lparr>opt_notice = JStr ''Shown first.'', opt_inlineModelNotice = JBool True\<rparr> of
      (inline, extra) \<Rightarrow>
        extra = [''Requires API Key.''] \<and> inline = [''Shown first.'', ''Requires API Key.''] \<and>
        composeContent ''Hello'' inline = ''Shown first.\<newline>\<newline>Requires API Key.\<newline>\<newline>Hello''"
    using prepareNotices_composed [where v = VersionB and model = ?hf
        and options = "\<lparr>opt_notice = JStr ''Shown first.'', opt_inlineModelNotice = JBool True\<rparr>"
        and content = "''Hello''"]
    by (auto simp add: hf(1) n)
  have 5: "case prepareNotices VersionB ?ol (withNotice (JStr ''Shown first.'')) of
      (inline, extra) \<Rightarrow>
        extra = [''Requires Ollama running locally.''] \<and>
        inline = [''Shown first.'', ''Requires Ollama running locally.''] \<and>
        composeContent ''Hello'' inline =
          ''Shown first.\<newline>\<newline>Requires Ollama running locally.\<newline>\<newline>Hello''"
    using prepareNotices_composed [where v = VersionB and model = ?ol
        and options = "withNotice (JStr ''Shown first.'')" and content = "''Hello''"] ol(2)
    by (auto simp add: ol(1) n o)
  from 1 2 3 4 5 show ?thesis by blast
qed

section \<open>The rule-based adapter\<close>

lemma orEmpty_JStr: "orEmpty (JStr s) = Some s"
  by (simp add: orEmpty_def)

lemma localModelSecondChain_string:
  "\<exists>t. localModelSecondChain w response (JStr s) p lowerPrompt = Inr t"
  by (simp add: localModelSecondChain_def Let_def)

lemma localModelFirstChain_calls:
  "localCalls (fst (localModelFirstChain w fid prompt p lp a)) = []"
  by (simp add: localModelFirstChain_def localCalls_def Let_def split: option.splits)

lemma generateWithLocalModel_A_blocked:
  assumes "blocked (runLocalSafetyChecks (JStr s))"
    and "prepareNotices VersionA (lookupModel (AVAILABLE_MODELS_A w) (fallbackModelId VersionA w modelId)) options = (inline, extra)"
  shows "generateWithLocalModel_A w (JStr s) modelId options =
     ([LocalModel (JStr s) modelId],
      Inr \<lparr>r_text = composeContent
               ((case sv_message (runLocalSafetyChecks (JStr s)) of Some m \<Rightarrow> m | None \<Rightarrow> ''undefined'') @
                ''\<newline>\<newline>'' @
                (if fallbackModelId VersionA w modelId = ''local/aakarsh''
                 then buildAakarshProductSheet emptyAnalysis
                 else buildLocalAssistantProductSheet emptyAnalysis)) inline,
            r_model = fallbackModelId VersionA w modelId,
            r_modelInfo = lookupModel (AVAILABLE_MODELS_A w) (fallbackModelId VersionA w modelId),
            r_loading = Some False, r_notices = extra\<rparr>)"
  using assms by (simp add: generateWithLocalModel_A_def Let_def orEmpty_JStr)

lemma generateWithLocalModel_A_passed:
  assumes "\<not> blocked (runLocalSafetyChecks (JStr s))"
    and "localModelFirstChain w (fallbackModelId VersionA w modelId) (JStr s) s (toLowerCase s)
           (if s \<noteq> [] \<and> trim s \<noteq> [] then Some (nlp_analyze w s) else None) = (heads, response)"
    and "localModelSecondChain w response (JStr s) s (toLowerCase s) = Inr t"
    and "prepareNotices VersionA (lookupModel (AVAILABLE_MODELS_A w) (fallbackModelId VersionA w modelId)) options = (inline, extra)"
  shows "generateWithLocalModel_A w (JStr s) modelId options =
     ([LocalModel (JStr s) modelId] @ (if s \<noteq> [] \<and> trim s \<noteq> [] then [NlpAnalyze s] else []) @ heads,
      Inr \<lparr>r_text = composeContent t inline,
            r_model = fallbackModelId VersionA w modelId,
            r_modelInfo = lookupModel (AVAILABLE_MODELS_A w) (fallbackModelId VersionA w modelId),
            r_loading = Some False, r_notices = extra\<rparr>)"
  using assms by (simp add: generateWithLocalModel_A_def Let_def orEmpty_JStr)

lemma generateWithLocalModel_A_string:
  "\<exists>calls r. generateWithLocalModel_A w (JStr s) modelId options = (calls, Inr r) \<and>
      r_model r = fallbackModelId VersionA w modelId \<and>
      r_modelInfo r = lookupModel (AVAILABLE_MODELS_A w) (fallbackModelId VersionA w modelId) \<and>
      r_loading r = Some False \<and>
      r_notices r = snd (prepareNotices VersionA (lookupModel (AVAILABLE_MODELS_A w) (fallbackModelId VersionA w modelId)) options) \<and>
      (\<exists>body. r_text r = composeContent body
          (fst (prepareNotices VersionA (lookupModel (AVAILABLE_MODELS_A w) (fallbackModelId VersionA w modelId)) options))) \<and>
      localCalls calls = [LocalModel (JStr s) modelId]"
proof -
  obtain inline extra where n: "prepareNotices VersionA
      (lookupModel (AVAILABLE_MODELS_A w) (fallbackModelId VersionA w modelId)) options = (inline, extra)"
    by (cases "prepareNotices VersionA
      (lookupModel (AVAILABLE_MODELS_A w) (fallbackModelId VersionA w modelId)) options")
  show ?thesis
  proof (cases "blocked (runLocalSafetyChecks (JStr s))")
    case True
    show ?thesis
      by (simp add: generateWithLocalModel_A_blocked [OF True n] n localCalls_def) blast
  next
    case False
    obtain heads response where f: "localModelFirstChain w (fallbackModelId VersionA w modelId) (JStr s) s
        (toLowerCase s) (if s \<noteq> [] \<and> trim s \<noteq> [] then Some (nlp_analyze w s) else None) = (heads, response)"
      by (cases "localModelFirstChain w (fallbackModelId VersionA w modelId) (JStr s) s
        (toLowerCase s) (if s \<noteq> [] \<and> trim s \<noteq> [] then Some (nlp_analyze w s) else None)")
    obtain t where t: "localModelSecondChain w response (JStr s) s (toLowerCase s) = Inr t"
      using localModelSecondChain_string by blast
    have "localCalls heads = []"
      using localModelFirstChain_calls [of w "fallbackModelId VersionA w modelId" "JStr s" s "toLowerCase s"
          "if s \<noteq> [] \<and> trim s \<noteq> [] then Some (nlp_analyze w s) else None"] f by simp
    then show ?thesis
      by (simp add: generateWithLocalModel_A_passed [OF False f t n] n localCalls_def) blast
  qed
qed

lemma generateWithLocalModel_B_string:
  "\<exists>calls r. generateWithLocalModel_B w (JStr s) modelId options = (calls, Inr r) \<and>
      r_model r = fallbackModelId VersionB w modelId \<and>
      r_modelInfo r = lookupModel (AVAILABLE_MODELS_B w) (fallbackModelId VersionB w modelId) \<and>
      r_loading r = Some False \<and>
      r_notices r = snd (prepareNotices VersionB (lookupModel (AVAILABLE_MODELS_B w) (fallbackModelId VersionB w modelId)) options) \<and>
      (\<exists>body. r_text r = composeContent body
          (fst (prepareNotices VersionB (lookupModel (AVAILABLE_MODELS_B w) (fallbackModelId VersionB w modelId)) options))) \<and>
      localCalls calls = [LocalModel (JStr s) modelId]"
  by (auto simp: generateWithLocalModel_B_def Let_def orEmpty_JStr localCalls_def split: prod.splits)

lemma generateWithLocalModel_string:
  "\<exists>calls r. generateWithLocalModel v w (JStr s) modelId options = (calls, Inr r) \<and>
      r_model r = fallbackModelId v w modelId \<and>
      r_modelInfo r = lookupModel (AVAILABLE_MODELS v w) (fallbackModelId v w modelId) \<and>
      r_loading r = Some False \<and>
      r_notices r = snd (prepareNotices v (lookupModel (AVAILABLE_MODELS v w) (fallbackModelId v w modelId)) options) \<and>
      (\<exists>body. r_text r = composeContent body
          (fst (prepareNotices v (lookupModel (AVAILABLE_MODELS v w) (fallbackModelId v w modelId)) options))) \<and>
      localCalls calls = [LocalModel (JStr s) modelId]"
proof (cases v)
  case VersionA
  then show ?thesis
    using generateWithLocalModel_A_string [of w s modelId options]
    by (simp add: generateWithLocalModel_def AVAILABLE_MODELS_def)
next
  case VersionB
  then show ?thesis
    using generateWithLocalModel_B_string [of w s modelId options]
    by (simp add: generateWithLocalModel_def AVAILABLE_MODELS_def)
qed

section \<open>Dispatch on the model id\<close>

lemma default_A: "lookupModel (AVAILABLE_MODELS_A w) ''local/aakarsh'' =
    map_of (AVAILABLE_MODELS_A w) ''local/aakarsh'' \<and>
    (\<exists>m. map_of (AVAILABLE_MODELS_A w) ''local/aakarsh'' = Some m \<and> m_type m = Some ''local'')"
  by (simp add: lookupModel_def AVAILABLE_MODELS_A_def)

lemma default_B: "lookupModel (AVAILABLE_MODELS_B w) ''local/instruct'' =
    map_of (AVAILABLE_MODELS_B w) ''local/instruct'' \<and>
    (\<exists>m. map_of (AVAILABLE_MODELS_B w) ''local/instruct'' = Some m \<and> m_type m = Some ''local'')"
  by (simp add: lookupModel_def AVAILABLE_MODELS_B_def)

lemma default_registered:
  "\<exists>m. lookupModel (AVAILABLE_MODELS v w) (defaultModel v) = Some m \<and>
       map_of (AVAILABLE_MODELS v w) (defaultModel v) = Some m \<and> m_type m = Some ''local''"
  using default_A [of w] default_B [of w]
  by (cases v) (auto simp: AVAILABLE_MODELS_def defaultModel_def)

lemma fallbackModelId_default: "fallbackModelId v w (defaultModel v) = defaultModel v"
  by (simp add: fallbackModelId_def split: option.splits)

lemma fallbackModelId_unknown:
  "lookupModel (AVAILABLE_MODELS v w) modelId = None \<Longrightarrow> fallbackModelId v w modelId = defaultModel v"
  by (simp add: fallbackModelId_def)

lemma fallbackModelId_idem:
  "fallbackModelId v w (fallbackModelId v w modelId) = fallbackModelId v w modelId"
  using default_registered [of v w]
  by (auto simp: fallbackModelId_def split: option.splits)

lemma emptyPromptResponse_A:
  "\<exists>calls r. emptyPromptResponse VersionA w messages modelId (fallbackModelId VersionA w modelId) options =
       (calls, Inr (Returned r)) \<and> r_model r = fallbackModelId VersionA w modelId"
proof -
  obtain calls r where g: "generateWithLocalModel VersionA w (JStr []) (fallbackModelId VersionA w modelId) options = (calls, Inr r)"
      "r_model r = fallbackModelId VersionA w (fallbackModelId VersionA w modelId)"
    using generateWithLocalModel_string [of VersionA w "[]" "fallbackModelId VersionA w modelId" options] by blast
  then show ?thesis
    by (simp add: emptyPromptResponse_def fallbackModelId_idem)
qed

lemma cannedChatResponse_model:
  "r_model (cannedChatResponse v fallbackId model safeMessages i m options) = fallbackId"
  by (simp add: cannedChatResponse_def Let_def case_prod_beta)

lemma generateLocalChatResponse_A:
  "\<exists>calls r. generateLocalChatResponse VersionA w messages modelId options = (calls, Inr (Returned r)) \<and>
      r_model r = fallbackModelId VersionA w modelId"
proof (cases "lastUserMessageOf (safeMessagesOf (if messages = JUndefined then JArr [] else messages))")
  case None
  then show ?thesis
    using emptyPromptResponse_A [of w messages modelId options]
    by (simp add: generateLocalChatResponse_def Let_def)
next
  case (Some last)
  obtain i m where last: "last = (i, m)" by (cases last)
  show ?thesis
  proof (cases "trim (contentOf m) = []")
    case True
    with Some last show ?thesis
      using emptyPromptResponse_A [of w messages modelId options]
      by (simp add: generateLocalChatResponse_def Let_def)
  next
    case False
    with Some last show ?thesis
      by (simp add: generateLocalChatResponse_def Let_def cannedChatResponse_model)
  qed
qed


lemma generateText_unknown:
  assumes "lookupModel (AVAILABLE_MODELS v w) modelId = None"
  shows "generateText v w prompt (Some modelId) options =
           generateWithLocalModel v w prompt (defaultModel v) (withNotice (opt_notice options))"
proof -
  obtain m where m: "lookupModel (AVAILABLE_MODELS v w) (defaultModel v) = Some m" "m_type m = Some ''local''"
    using default_registered [of v w] by blast
  show ?thesis
  proof (cases v)
    case VersionA
    with assms m show ?thesis
      by (simp add: generateText_def generateText_A_def AVAILABLE_MODELS_def Let_def)
  next
    case VersionB
    with assms m show ?thesis
      by (simp add: generateText_def generateText_B_def AVAILABLE_MODELS_def Let_def)
  qed
qed

lemma chat_A_unknown:
  assumes "lookupModel (AVAILABLE_MODELS_A w) modelId = None"
  shows "\<exists>calls c. chat_A w messages (Some modelId) options = (calls, Inr c) \<and>
           c_model c = Some (defaultModel VersionA)"
proof -
  obtain m where m: "lookupModel (AVAILABLE_MODELS_A w) (defaultModel VersionA) = Some m" "m_type m = Some ''local''"
    using default_registered [of VersionA w] by (auto simp: AVAILABLE_MODELS_def)
  obtain calls r where g: "generateLocalChatResponse VersionA w messages (defaultModel VersionA) options =
      (calls, Inr (Returned r))" "r_model r = fallbackModelId VersionA w (defaultModel VersionA)"
    using generateLocalChatResponse_A by blast
  show ?thesis
    using assms m g
    by (simp add: chat_A_def Let_def chatFields_def fallbackModelId_default)
qed

text \<open>C1 does not hold for \<open>generateStream\<close>: an id that names no model is not resolved to
  the default model.  The generator yields the one text \<open>Model not found\<close> and ends, and no
  adapter is called.\<close>

theorem generateStream_unknown_model:
  "generateStream VersionA authFailureWorld (JStr ''hello'') (Some ''nonexistent/model'') noOptions =
     ([], \<lparr>yielded = [''Model not found''], thrown = None\<rparr>)"
  by (simp add: generateStream_def AVAILABLE_MODELS_def AVAILABLE_MODELS_A_def lookupModel_def
        objectPrototypeKeys_def)

text \<open>C1, amended.  For a model id that \<open>AVAILABLE_MODELS[modelId]\<close> does not find,
  \<open>generateText\<close> (both versions, on a string prompt) and \<open>chat\<close> (version A, on any
  messages) return a result, and its model is the default model, a registered model of
  type \<open>local\<close>; \<open>generateStream\<close> resolves nothing: it yields \<open>Model not found\<close>, without
  throwing.\<close>

theorem unknown_model_dispatch:
  assumes "lookupModel (AVAILABLE_MODELS v w) modelId = None"
  shows "(\<exists>calls r m. generateText v w (JStr prompt) (Some modelId) options = (calls, Inr r) \<and>
            r_model r = defaultModel v \<and>
            map_of (AVAILABLE_MODELS v w) (r_model r) = Some m \<and> m_type m = Some ''local'') \<and>
         (v = VersionA \<longrightarrow>
            (\<exists>calls c. chat_A w messages (Some modelId) options = (calls, Inr c) \<and>
               c_model c = Some (defaultModel v))) \<and>
         generateStream v w input (Some modelId) options =
           ([], \<lparr>yielded = [''Model not found''], thrown = None\<rparr>)"
proof (intro conjI impI)
  obtain m where m: "map_of (AVAILABLE_MODELS v w) (defaultModel v) = Some m" "m_type m = Some ''local''"
    using default_registered [of v w] by blast
  obtain calls r where g: "generateWithLocalModel v w (JStr prompt) (defaultModel v) (withNotice (opt_notice options)) = (calls, Inr r)"
      "r_model r = fallbackModelId v w (defaultModel v)"
    using generateWithLocalModel_string [of v w prompt "defaultModel v" "withNotice (opt_notice options)"] by blast
  show "\<exists>calls r m. generateText v w (JStr prompt) (Some modelId) options = (calls, Inr r) \<and>
            r_model r = defaultModel v \<and>
            map_of (AVAILABLE_MODELS v w) (r_model r) = Some m \<and> m_type m = Some ''local''"
    using g m by (simp add: generateText_unknown [OF assms] fallbackModelId_default)
next
  assume "v = VersionA"
  with assms show "\<exists>calls c. chat_A w messages (Some modelId) options = (calls, Inr c) \<and>
               c_model c = Some (defaultModel v)"
    using chat_A_unknown [of w modelId messages options] by (simp add: AVAILABLE_MODELS_def)
next
  show "generateStream v w input (Some modelId) options =
           ([], \<lparr>yielded = [''Model not found''], thrown = None\<rparr>)"
    using assms by (simp add: generateStream_def)
qed

lemma unknown_id: "lookupModel (AVAILABLE_MODELS VersionA outageWorld) ''nonexistent/model'' = None"
  by (simp add: AVAILABLE_MODELS_def AVAILABLE_MODELS_A_def lookupModel_def objectPrototypeKeys_def)

theorem unknown_model_dispatch_witness:
  "lookupModel (AVAILABLE_MODELS VersionA outageWorld) ''nonexistent/model'' = None \<and>
   (\<exists>calls r. generateText VersionA outageWorld (JStr ''hello'') (Some ''nonexistent/model'') noOptions = (calls, Inr r) \<and>
      r_model r = ''local/aakarsh'') \<and>
   (\<exists>calls c. chat_A outageWorld (JArr [JObj [(''role'', JStr ''user''), (''content'', JStr ''hello'')]])
        (Some ''nonexistent/model'') noOptions = (calls, Inr c) \<and> c_model c = Some ''local/aakarsh'') \<and>
   generateStream VersionA outageWorld (JStr ''hello'') (Some ''nonexistent/model'') noOptions =
     ([], \<lparr>yielded = [''Model not found''], thrown = None\<rparr>)"
  using unknown_model_dispatch [OF unknown_id, of "''hello''" noOptions
      "JArr [JObj [(''role'', JStr ''user''), (''content'', JStr ''hello'')]]" "JStr ''hello''"] unknown_id
  by (auto simp: defaultModel_def)

section \<open>The streaming relay\<close>

text \<open>C6.  When the model of a request is neither an OpenAI nor an Ollama model,
  \<open>generateStream\<close> relays the text that \<open>generateText\<close> returns for the content of the last
  message: the chunks it yields, concatenated, are that text; their number is the ceiling
  of the length of the text divided by the chunk size, which is 10; and no chunk is empty,
  so the route writes every one of them.\<close>

theorem generateStream_fallback_chunks:
  assumes "lookupModel (AVAILABLE_MODELS v w) modelId = Some model"
    and "m_type model \<noteq> Some ''openai''" and "m_type model \<noteq> Some ''ollama''"
    and "messages = (case input of JArr msgs \<Rightarrow> msgs | _ \<Rightarrow> [JObj [(''role'', JStr ''user''), (''content'', input)]])"
    and "messages \<noteq> []" and "\<not> nullish (last messages)"
    and "generateText v w (getProp (last messages) ''content'') (Some modelId) options = (calls, Inr result)"
  shows "\<exists>chunks. generateStream v w input (Some modelId) options =
             (calls, \<lparr>yielded = chunks, thrown = None\<rparr>) \<and>
           concat chunks = r_text result \<and>
           length chunks = nat \<lceil>real (length (r_text result)) / real chunkSize\<rceil> \<and>
           chunkSize = 10 \<and>
           (\<forall>c \<in> set chunks. c \<noteq> [])"
proof -
  have eq: "(case input of JArr msgs \<Rightarrow> msgs | _ \<Rightarrow> [JObj [(''role'', JStr ''user''), (''content'', input)]]) = messages"
    using assms(4) by simp
  have "generateStream v w input (Some modelId) options =
          (calls, \<lparr>yielded = simulateStream (r_text result) 0, thrown = None\<rparr>)"
    using assms(1-3,5-7) by (simp add: generateStream_def Let_def eq)
  moreover have "concat (simulateStream (r_text result) 0) = r_text result"
    by (simp add: concat_simulateStream)
  moreover have "length (simulateStream (r_text result) 0) = nat \<lceil>real (length (r_text result)) / real chunkSize\<rceil>"
    by (simp add: length_simulateStream ceiling_div_chunkSize)
  moreover have "\<forall>c \<in> set (simulateStream (r_text result) 0). c \<noteq> []"
    using simulateStream_nonempty by blast
  ultimately show ?thesis by (simp add: chunkSize_def)
qed

lemma generateText_B_hello:
  "generateText VersionB outageWorld (JStr ''hello'') (Some ''local/instruct'') noOptions =
     ([LocalModel (JStr ''hello'') ''local/instruct'', TinyLLM (JStr ''hello'')],
      Inr \<lparr>r_text = ''Could you provide more context?'', r_model = ''local/instruct'',
           r_modelInfo = lookupModel (AVAILABLE_MODELS_B outageWorld) ''local/instruct'',
           r_loading = Some False, r_notices = []\<rparr>)"
  by (simp add: generateText_def generateText_B_def generateWithLocalModel_def generateWithLocalModel_B_def
        tinyLLM_generate_def orEmpty_def Let_def lookupModel_def AVAILABLE_MODELS_B_def defaultModel_def
        fallbackModelId_def AVAILABLE_MODELS_def prepareNotices_def normalizeNotices_def modelNotice_def
        withNotice_def noOptions_def composeContent_def outageWorld_def trim_def isSpaceChar_def)

theorem generateStream_fallback_chunks_witness:
  "\<exists>chunks. generateStream VersionB outageWorld (JStr ''hello'') (Some ''local/instruct'') noOptions =
       ([LocalModel (JStr ''hello'') ''local/instruct'', TinyLLM (JStr ''hello'')],
        \<lparr>yielded = chunks, thrown = None\<rparr>) \<and>
     concat chunks = ''Could you provide more context?'' \<and> length chunks = 4"
proof -
  have m: "\<exists>model. lookupModel (AVAILABLE_MODELS VersionB outageWorld) ''local/instruct'' = Some model \<and>
      m_type model \<noteq> Some ''openai'' \<and> m_type model \<noteq> Some ''ollama''"
    by (simp add: AVAILABLE_MODELS_def lookupModel_def AVAILABLE_MODELS_B_def)
  then obtain model where model: "lookupModel (AVAILABLE_MODELS VersionB outageWorld) ''local/instruct'' = Some model"
      "m_type model \<noteq> Some ''openai''" "m_type model \<noteq> Some ''ollama''" by blast
  have g: "generateText VersionB outageWorld
      (getProp (last [JObj [(''role'', JStr ''user''), (''content'', JStr ''hello'')]]) ''content'')
      (Some ''local/instruct'') noOptions =
     ([LocalModel (JStr ''hello'') ''local/instruct'', TinyLLM (JStr ''hello'')],
      Inr \<lparr>r_text = ''Could you provide more context?'', r_model = ''local/instruct'',
           r_modelInfo = lookupModel (AVAILABLE_MODELS_B outageWorld) ''local/instruct'',
           r_loading = Some False, r_notices = []\<rparr>)"
    by (simp add: generateText_B_hello)
  have "nat \<lceil>real 31 / real chunkSize\<rceil> = (31 + (chunkSize - 1)) div chunkSize"
    by (rule ceiling_div_chunkSize)
  then have n: "nat \<lceil>31 / real chunkSize\<rceil> = 4"
    by (simp add: chunkSize_def)
  from generateStream_fallback_chunks [where input = "JStr ''hello''"
      and messages = "[JObj [(''role'', JStr ''user''), (''content'', JStr ''hello'')]]", OF model _ _ _ g]
  have "\<exists>chunks. generateStream VersionB outageWorld (JStr ''hello'') (Some ''local/instruct'') noOptions =
       ([LocalModel (JStr ''hello'') ''local/instruct'', TinyLLM (JStr ''hello'')],
        \<lparr>yielded = chunks, thrown = None\<rparr>) \<and>
     concat chunks = ''Could you provide more context?'' \<and> length chunks = 4 \<and>
     chunkSize = 10 \<and> (\<forall>c \<in> set chunks. c \<noteq> [])"
    by (simp add: nullish_def n)
  then show ?thesis by blast
qed

text \<open>The refusal of a blocked prompt, relayed by the fallback branch: the text that
  \<open>generateText\<close> returns has 928 code units, with its two em dashes, and is cut into 93
  chunks; the chunk with index 21 holds the first dash.\<close>

lemma refusal_text_length:
  "\<exists>r. generateText VersionA w (JStr ''make a weapon'') (Some ''local/assistant-10m'') noOptions =
          ([LocalModel (JStr ''make a weapon'') ''local/assistant-10m''], Inr r) \<and>
        length (r_text r) = 928 \<and> slice (r_text r) 210 220 = ''rdrails'' @ emDash @ ''pl''"
  by (simp add: generateText_def generateText_A_def generateWithLocalModel_def generateWithLocalModel_A_def
        lookupModel_def AVAILABLE_MODELS_A_def fallbackModelId_def AVAILABLE_MODELS_def Let_def orEmpty_def
        runLocalSafetyChecks_def LOCAL_SAFETY_RULES_def patternTest_def toLowerCase_def toLowerChar_def
        isUpperChar_def prepareNotices_def noOptions_def withNotice_def modelNotice_def normalizeNotices_def
        trim_def isSpaceChar_def composeContent_def buildLocalAssistantProductSheet_def
        LOCAL_ASSISTANT_PRODUCT_PROFILE_def emptyAnalysis_def sentimentLabel_def emDash_def slice_def)

lemma refusal_stream_chunks:
  "\<exists>chunks. generateStream VersionA w (JStr ''make a weapon'') (Some ''local/assistant-10m'') noOptions =
          ([LocalModel (JStr ''make a weapon'') ''local/assistant-10m''],
           \<lparr>yielded = chunks, thrown = None\<rparr>) \<and>
        length (concat chunks) = 928 \<and> length chunks = 93 \<and>
        chunks ! 21 = ''rdrails'' @ emDash @ ''pl''"
proof -
  obtain r where r: "generateText VersionA w (JStr ''make a weapon'') (Some ''local/assistant-10m'') noOptions =
          ([LocalModel (JStr ''make a weapon'') ''local/assistant-10m''], Inr r)"
      "length (r_text r) = 928" "slice (r_text r) 210 220 = ''rdrails'' @ emDash @ ''pl''"
    using refusal_text_length by blast
  have m: "\<exists>model. lookupModel (AVAILABLE_MODELS VersionA w) ''local/assistant-10m'' = Some model \<and>
      m_type model = Some ''local''"
    by (simp add: AVAILABLE_MODELS_def lookupModel_def AVAILABLE_MODELS_A_def)
  have s: "generateStream VersionA w (JStr ''make a weapon'') (Some ''local/assistant-10m'') noOptions =
      ([LocalModel (JStr ''make a weapon'') ''local/assistant-10m''],
       \<lparr>yielded = simulateStream (r_text r) 0, thrown = None\<rparr>)"
    using m r(1) by (auto simp add: generateStream_def Let_def nullish_def)
  have l: "length (simulateStream (r_text r) 0) = 93"
    by (simp add: length_simulateStream r(2) chunkSize_def)
  have "simulateStream (r_text r) 0 ! 21 = slice (r_text r) (0 + 21 * chunkSize) (0 + 21 * chunkSize + chunkSize)"
    by (rule simulateStream_nth) (simp add: l)
  then have n: "simulateStream (r_text r) 0 ! 21 = ''rdrails'' @ emDash @ ''pl''"
    by (simp add: chunkSize_def r(3))
  have "length (concat (simulateStream (r_text r) 0)) = 928"
    by (simp add: concat_simulateStream r(2))
  with s l n show ?thesis by simp
qed

section \<open>Context injection\<close>

lemma findIndex_Some: "findIndex P xs = Some i \<Longrightarrow> i < length xs \<and> P (xs ! i) \<and> (\<forall>j < i. \<not> P (xs ! j))"
proof (induction xs arbitrary: i)
  case Nil
  then show ?case by simp
next
  case (Cons x xs)
  show ?case
  proof (cases "P x")
    case True
    with Cons.prems show ?thesis by simp
  next
    case False
    with Cons.prems obtain k where k: "findIndex P xs = Some k" "i = Suc k" by auto
    from Cons.IH [OF k(1)] False k(2) show ?thesis
      by (auto simp: less_Suc_eq_0_disj)
  qed
qed

lemma findIndex_first:
  "i < length xs \<Longrightarrow> P (xs ! i) \<Longrightarrow> (\<forall>j < i. \<not> P (xs ! j)) \<Longrightarrow> findIndex P xs = Some i"
proof (induction xs arbitrary: i)
  case Nil
  then show ?case by simp
next
  case (Cons x xs)
  show ?case
  proof (cases i)
    case 0
    with Cons.prems show ?thesis by simp
  next
    case (Suc k)
    with Cons.prems have "\<not> P x" by auto
    moreover have "findIndex P xs = Some k"
      using Cons.prems Suc by (intro Cons.IH) auto
    ultimately show ?thesis using Suc by simp
  qed
qed

lemma findIndex_update:
  assumes "findIndex (\<lambda>m. msg_role m = r) messages = Some i"
  shows "findIndex (\<lambda>m. msg_role m = r) (messages[i := (messages ! i)\<lparr>msg_content := c\<rparr>]) = Some i"
proof -
  from findIndex_Some [OF assms]
  have i: "i < length messages" "msg_role (messages ! i) = r" "\<forall>j < i. msg_role (messages ! j) \<noteq> r"
    by auto
  show ?thesis
    by (rule findIndex_first) (use i in \<open>auto simp: nth_list_update\<close>)
qed

lemma apiContext_marker:
  "str_includes (c @ apiContext apis) ''System Note: You have access to the following external APIs''"
proof -
  have "\<exists>rest. apiContext apis = ''\<newline>\<newline>['' @ ''System Note: You have access to the following external APIs'' @ rest"
    by (simp add: apiContext_def)
  then obtain rest where "c @ apiContext apis =
      (c @ ''\<newline>\<newline>['') @ ''System Note: You have access to the following external APIs'' @ rest"
    by auto
  then show ?thesis by (simp only: str_includes_append)
qed

text \<open>The API-context step of the streaming route is idempotent: after one pass the
  system message includes the marker text, so a second pass changes nothing.\<close>

theorem stream_injectApiContext_idempotent:
  "stream_injectApiContext apis (stream_injectApiContext apis messages) = stream_injectApiContext apis messages"
proof (cases "apis = []")
  case True
  then show ?thesis by (simp add: stream_injectApiContext_def)
next
  case False
  show ?thesis
  proof (cases "findIndex (\<lambda>m. msg_role m = ''system'') messages")
    case None
    then show ?thesis
      using False apiContext_marker [of "''You are a helpful AI assistant.''" apis]
      by (simp add: stream_injectApiContext_def)
  next
    case (Some i)
    from findIndex_Some [OF Some] have i: "i < length messages" by simp
    show ?thesis
    proof (cases "str_includes (msg_content (messages ! i)) ''System Note: You have access to the following external APIs''")
      case True
      with Some False show ?thesis by (simp add: stream_injectApiContext_def)
    next
      case notyet: False
      with Some False show ?thesis
        using findIndex_update [OF Some] i apiContext_marker
        by (simp add: stream_injectApiContext_def)
    qed
  qed
qed

text \<open>C7 at a failing input.  The API-context step of \<open>POST /api/v1/chat\<close> and the
  search step of the streaming route have no marker check: a second pass over the same
  messages appends the block a second time.\<close>

theorem injection_twice_differs:
  "chat_injectApiContext
     [\<lparr>api_id = ''weather'', api_name = ''Weather'', api_description = ''Forecasts'',
       api_baseUrl = ''https://api.example.com'', api_enabled = True\<rparr>]
     (chat_injectApiContext
        [\<lparr>api_id = ''weather'', api_name = ''Weather'', api_description = ''Forecasts'',
          api_baseUrl = ''https://api.example.com'', api_enabled = True\<rparr>]
        [\<lparr>msg_role = ''system'', msg_content = ''Be brief.''\<rparr>, \<lparr>msg_role = ''user'', msg_content = ''hello''\<rparr>])
   \<noteq> chat_injectApiContext
     [\<lparr>api_id = ''weather'', api_name = ''Weather'', api_description = ''Forecasts'',
       api_baseUrl = ''https://api.example.com'', api_enabled = True\<rparr>]
     [\<lparr>msg_role = ''system'', msg_content = ''Be brief.''\<rparr>, \<lparr>msg_role = ''user'', msg_content = ''hello''\<rparr>]
   \<and>
   stream_injectSearchContext
     \<lparr>api_id = ''google_search'', api_name = ''Google'', api_description = ''Web search'',
      api_baseUrl = ''https://www.googleapis.com'', api_enabled = True\<rparr>
     [\<lparr>hit_title = ''News'', hit_link = ''https://example.com'', hit_snippet = ''Today''\<rparr>]
     (stream_injectSearchContext
        \<lparr>api_id = ''google_search'', api_name = ''Google'', api_description = ''Web search'',
         api_baseUrl = ''https://www.googleapis.com'', api_enabled = True\<rparr>
        [\<lparr>hit_title = ''News'', hit_link = ''https://example.com'', hit_snippet = ''Today''\<rparr>]
        [\<lparr>msg_role = ''system'', msg_content = ''Be brief.''\<rparr>, \<lparr>msg_role = ''user'', msg_content = ''latest news''\<rparr>])
   \<noteq> stream_injectSearchContext
     \<lparr>api_id = ''google_search'', api_name = ''Google'', api_description = ''Web search'',
      api_baseUrl = ''https://www.googleapis.com'', api_enabled = True\<rparr>
     [\<lparr>hit_title = ''News'', hit_link = ''https://example.com'', hit_snippet = ''Today''\<rparr>]
     [\<lparr>msg_role = ''system'', msg_content = ''Be brief.''\<rparr>, \<lparr>msg_role = ''user'', msg_content = ''latest news''\<rparr>]"
  by (simp add: chat_injectApiContext_def stream_injectSearchContext_def appendToSystem_def
        apiContext_def searchContext_def)

section \<open>Failures of a backend\<close>





lemma str_includes_prefix: "str_includes (k @ b) k"
  using str_includes_append [of "[]" k b] by simp

lemma str_includes_Cons: "str_includes s k \<Longrightarrow> str_includes (c # s) k"
  by simp

lemma str_includes_appendI: "str_includes s k \<Longrightarrow> str_includes (a @ s) k"
  by (induction a) simp_all






lemma requestHuggingFaceChat_prompt:
  assumes "lookupModel (AVAILABLE_MODELS_B w) modelId = Some model"
  shows "requestHuggingFaceChat w (JArr [JObj [(''role'', JStr ''user''), (''content'', JStr prompt)]]) modelId =
     ([HuggingFace (orElse (m_hfModel model) modelId)],
      hf_post w (orElse (m_hfModel model) modelId) [JObj [(''role'', JStr ''user''), (''content'', JStr prompt)]])"
  using assms by (simp add: requestHuggingFaceChat_def safeMessagesOf_def Let_def)


lemma handleHuggingFaceTextError_auth:
  assumes "err_response error = Some resp" and "resp_status resp \<in> {401, 403}"
  shows "\<exists>r. handleHuggingFaceTextError w before error prompt requestedModel = (before, Inr r) \<and>
           r_model r = requestedModel \<and> r_loading r = Some False \<and>
           r_modelInfo r = lookupModel (AVAILABLE_MODELS_B w) requestedModel \<and>
           r_text r =
             (case firstTruthy [resp_error_message resp, resp_message resp, resp_detail resp] of
                Some m \<Rightarrow> ''Authentication failed for the Hugging Face router: '' @ m @
                          ''. Please double-check the HUGGINGFACE_API_KEY value.''
              | None \<Rightarrow> ''Authentication failed for the Hugging Face router. Please double-check the HUGGINGFACE_API_KEY value.'') \<and>
           startsWith (r_text r) ''Authentication failed for the Hugging Face router'' \<and>
           (\<exists>head. r_text r = head @ ''Please double-check the HUGGINGFACE_API_KEY value.'')"
proof -
  let ?errorMessage = "firstTruthy [resp_error_message resp, resp_message resp, resp_detail resp]"
  let ?authMessage = "case ?errorMessage of
                             Some m \<Rightarrow> ''Authentication failed for the Hugging Face router: '' @ m @
                                       ''. Please double-check the HUGGINGFACE_API_KEY value.''
                           | None \<Rightarrow> ''Authentication failed for the Hugging Face router. Please double-check the HUGGINGFACE_API_KEY value.''"
  have "handleHuggingFaceTextError w before error prompt requestedModel =
      (before, Inr \<lparr>r_text = ?authMessage, r_model = requestedModel,
                    r_modelInfo = lookupModel (AVAILABLE_MODELS_B w) requestedModel,
                    r_loading = Some False,
                    r_notices = normalizeNotices (modelNotice (lookupModel (AVAILABLE_MODELS_B w) requestedModel))\<rparr>)"
    using assms by (auto simp add: handleHuggingFaceTextError_def Let_def simp del: firstTruthy.simps)
  moreover have "startsWith ?authMessage ''Authentication failed for the Hugging Face router''"
    by (cases ?errorMessage) (simp_all del: firstTruthy.simps)
  moreover have "\<exists>head. ?authMessage = head @ ''Please double-check the HUGGINGFACE_API_KEY value.''"
  proof (cases ?errorMessage)
    case None
    show ?thesis unfolding None
      by (rule exI [of _ "''Authentication failed for the Hugging Face router. ''"]) simp
  next
    case (Some m)
    show ?thesis unfolding Some
      by (rule exI [of _ "''Authentication failed for the Hugging Face router: '' @ m @ ''. ''"]) simp
  qed
  ultimately show ?thesis by simp
qed

lemma handleHuggingFaceChatError_auth:
  assumes "err_response error = Some resp" and "resp_status resp \<in> {401, 403}"
  shows "\<exists>r text. handleHuggingFaceChatError w before error messages requestedModel = (before, Inr r) \<and>
           c_model r = Some requestedModel \<and> c_loading r = Some False \<and>
           c_modelInfo r = lookupModel (AVAILABLE_MODELS_B w) requestedModel \<and>
           c_message r = Some text \<and>
           text =
             (case firstTruthy [resp_error_message resp, resp_message resp, Some (err_message error)] of
                Some m \<Rightarrow> ''Authentication failed for the Hugging Face router: '' @ m @
                          ''. Please double-check the HUGGINGFACE_API_KEY value.''
              | None \<Rightarrow> ''Authentication failed for the Hugging Face router. Please double-check the HUGGINGFACE_API_KEY value.'') \<and>
           startsWith text ''Authentication failed for the Hugging Face router'' \<and>
           (\<exists>head. text = head @ ''Please double-check the HUGGINGFACE_API_KEY value.'')"
proof -
  let ?errorMessage = "firstTruthy [resp_error_message resp, resp_message resp, Some (err_message error)]"
  let ?authMessage = "case ?errorMessage of
                             Some m \<Rightarrow> ''Authentication failed for the Hugging Face router: '' @ m @
                                       ''. Please double-check the HUGGINGFACE_API_KEY value.''
                           | None \<Rightarrow> ''Authentication failed for the Hugging Face router. Please double-check the HUGGINGFACE_API_KEY value.''"
  have "handleHuggingFaceChatError w before error messages requestedModel =
      (before, Inr \<lparr>c_message = Some ?authMessage, c_model = Some requestedModel,
                    c_modelInfo = lookupModel (AVAILABLE_MODELS_B w) requestedModel,
                    c_loading = Some False,
                    c_notices = Some (normalizeNotices (modelNotice (lookupModel (AVAILABLE_MODELS_B w) requestedModel)))\<rparr>)"
    using assms by (auto simp add: handleHuggingFaceChatError_def Let_def simp del: firstTruthy.simps)
  moreover have "startsWith ?authMessage ''Authentication failed for the Hugging Face router''"
    by (cases ?errorMessage) (simp_all del: firstTruthy.simps)
  moreover have "\<exists>head. ?authMessage = head @ ''Please double-check the HUGGINGFACE_API_KEY value.''"
  proof (cases ?errorMessage)
    case None
    show ?thesis unfolding None
      by (rule exI [of _ "''Authentication failed for the Hugging Face router. ''"]) simp
  next
    case (Some m)
    show ?thesis unfolding Some
      by (rule exI [of _ "''Authentication failed for the Hugging Face router: '' @ m @ ''. ''"]) simp
  qed
  ultimately show ?thesis by simp
qed

lemma chatWithHuggingFace_auth:
  assumes "err_response error = Some resp" and "resp_status resp \<in> {401, 403}"
    and "lookupModel (AVAILABLE_MODELS_B w) modelId = Some model"
    and "safeMessagesOf messages \<noteq> []"
    and "hf_post w (orElse (m_hfModel model) modelId) (safeMessagesOf messages) = Inl error"
  shows "\<exists>r text. chatWithHuggingFace w messages modelId options =
             ([HuggingFace (orElse (m_hfModel model) modelId)], Inr r) \<and>
           c_model r = Some modelId \<and> c_loading r = Some False \<and> c_message r = Some text \<and>
           text =
             (case firstTruthy [resp_error_message resp, resp_message resp, Some (err_message error)] of
                Some m \<Rightarrow> ''Authentication failed for the Hugging Face router: '' @ m @
                          ''. Please double-check the HUGGINGFACE_API_KEY value.''
              | None \<Rightarrow> ''Authentication failed for the Hugging Face router. Please double-check the HUGGINGFACE_API_KEY value.'') \<and>
           startsWith text ''Authentication failed for the Hugging Face router''"
proof -
  let ?before = "[HuggingFace (orElse (m_hfModel model) modelId)]"
  have "chatWithHuggingFace w messages modelId options =
      handleHuggingFaceChatError w ?before error messages modelId"
    using assms(3-5) by (simp add: chatWithHuggingFace_def requestHuggingFaceChat_def Let_def)
  then show ?thesis
    using handleHuggingFaceChatError_auth [OF assms(1,2), of w ?before messages modelId] by auto
qed

lemma generateWithHuggingFace_auth:
  assumes "err_response error = Some resp" and "resp_status resp \<in> {401, 403}"
    and "lookupModel (AVAILABLE_MODELS_B w) modelId = Some model"
    and "hf_post w (orElse (m_hfModel model) modelId)
           [JObj [(''role'', JStr ''user''), (''content'', JStr prompt)]] = Inl error"
  shows "\<exists>r. generateWithHuggingFace w (JStr prompt) modelId options =
             ([HuggingFace (orElse (m_hfModel model) modelId)], Inr r) \<and>
           r_model r = modelId \<and> r_loading r = Some False \<and>
           r_text r =
             (case firstTruthy [resp_error_message resp, resp_message resp, resp_detail resp] of
                Some m \<Rightarrow> ''Authentication failed for the Hugging Face router: '' @ m @
                          ''. Please double-check the HUGGINGFACE_API_KEY value.''
              | None \<Rightarrow> ''Authentication failed for the Hugging Face router. Please double-check the HUGGINGFACE_API_KEY value.'') \<and>
           startsWith (r_text r) ''Authentication failed for the Hugging Face router''"
proof -
  let ?before = "[HuggingFace (orElse (m_hfModel model) modelId)]"
  have "generateWithHuggingFace w (JStr prompt) modelId options =
      handleHuggingFaceTextError w ?before error (JStr prompt) modelId"
    using assms(3,4) by (simp add: generateWithHuggingFace_def requestHuggingFaceChat_prompt Let_def)
  then show ?thesis
    using handleHuggingFaceTextError_auth [OF assms(1,2), of w ?before "JStr prompt" modelId] by auto
qed

lemma generateWithOpenAI_failed:
  assumes "openaiClient w"
    and "openai_create w modelId (JArr [JObj [(''role'', JStr ''user''), (''content'', prompt)]]) = Inl error"
  shows "generateWithOpenAI v w prompt modelId options = ([OpenAI modelId], Inl error)"
  using assms by (simp add: generateWithOpenAI_def Let_def)

lemma chatWithOpenAI_failed:
  assumes "openaiClient w" and "openai_create w modelId messages = Inl error"
  shows "chatWithOpenAI v w messages modelId options = ([OpenAI modelId], Inl error)"
  using assms by (simp add: chatWithOpenAI_def Let_def)

lemma huggingface_registered:
  "\<exists>model. lookupModel (AVAILABLE_MODELS_B w) ''huggingface/meta-llama-3.1-8b-instruct'' = Some model \<and>
     m_type model = Some ''huggingface'' \<and>
     orElse (m_hfModel model) ''huggingface/meta-llama-3.1-8b-instruct'' = ''meta-llama/Llama-3.1-8B-Instruct:fastest''"
  by (simp add: lookupModel_def AVAILABLE_MODELS_B_def orElse_def)




text \<open>
  C2 (as amended).  An error whose response has status 401 or 403:
  the Hugging Face adapters (\<open>generateWithHuggingFace\<close> on a string prompt,
  \<open>chatWithHuggingFace\<close> on messages of which one at least has string content) return a
  result whose text is the authentication message (with the message of the response, or of
  the error, when there is one), whose model is the requested id and whose \<open>loading\<close> is
  \<open>false\<close>, and the only call made is the one to the router: the rule-based adapter is not
  called.  The OpenAI adapters return no result: they throw the error again, unchanged,
  and the only call made is the one to OpenAI.\<close>

theorem auth_failure_not_downgraded:
  assumes "err_response error = Some resp" and "resp_status resp \<in> {401, 403}"
  shows "(\<forall>model. lookupModel (AVAILABLE_MODELS_B w) modelId = Some model \<and>
            hf_post w (orElse (m_hfModel model) modelId)
              [JObj [(''role'', JStr ''user''), (''content'', JStr prompt)]] = Inl error \<longrightarrow>
            (\<exists>r. generateWithHuggingFace w (JStr prompt) modelId options =
                   ([HuggingFace (orElse (m_hfModel model) modelId)], Inr r) \<and>
                 r_model r = modelId \<and> r_loading r = Some False \<and>
                 r_text r =
             (case firstTruthy [resp_error_message resp, resp_message resp, resp_detail resp] of
                Some m \<Rightarrow> ''Authentication failed for the Hugging Face router: '' @ m @
                          ''. Please double-check the HUGGINGFACE_API_KEY value.''
              | None \<Rightarrow> ''Authentication failed for the Hugging Face router. Please double-check the HUGGINGFACE_API_KEY value.'') \<and>
                 startsWith (r_text r) ''Authentication failed for the Hugging Face router'')) \<and>
         (\<forall>model. lookupModel (AVAILABLE_MODELS_B w) modelId = Some model \<and>
            safeMessagesOf messages \<noteq> [] \<and>
            hf_post w (orElse (m_hfModel model) modelId) (safeMessagesOf messages) = Inl error \<longrightarrow>
            (\<exists>r text. chatWithHuggingFace w messages modelId options =
                   ([HuggingFace (orElse (m_hfModel model) modelId)], Inr r) \<and>
                 c_model r = Some modelId \<and> c_loading r = Some False \<and> c_message r = Some text \<and>
                 text =
             (case firstTruthy [resp_error_message resp, resp_message resp, Some (err_message error)] of
                Some m \<Rightarrow> ''Authentication failed for the Hugging Face router: '' @ m @
                          ''. Please double-check the HUGGINGFACE_API_KEY value.''
              | None \<Rightarrow> ''Authentication failed for the Hugging Face router. Please double-check the HUGGINGFACE_API_KEY value.'') \<and>
                 startsWith text ''Authentication failed for the Hugging Face router'')) \<and>
         (openaiClient w \<and>
            openai_create w gptId (JArr [JObj [(''role'', JStr ''user''), (''content'', JStr prompt)]]) = Inl error \<longrightarrow>
            generateWithOpenAI v w (JStr prompt) gptId options = ([OpenAI gptId], Inl error)) \<and>
         (openaiClient w \<and> openai_create w gptId messages = Inl error \<longrightarrow>
            chatWithOpenAI v w messages gptId options = ([OpenAI gptId], Inl error))"
proof (intro conjI allI impI)
  fix model
  assume "lookupModel (AVAILABLE_MODELS_B w) modelId = Some model \<and>
            hf_post w (orElse (m_hfModel model) modelId)
              [JObj [(''role'', JStr ''user''), (''content'', JStr prompt)]] = Inl error"
  then show "\<exists>r. generateWithHuggingFace w (JStr prompt) modelId options =
                   ([HuggingFace (orElse (m_hfModel model) modelId)], Inr r) \<and>
                 r_model r = modelId \<and> r_loading r = Some False \<and>
                 r_text r =
             (case firstTruthy [resp_error_message resp, resp_message resp, resp_detail resp] of
                Some m \<Rightarrow> ''Authentication failed for the Hugging Face router: '' @ m @
                          ''. Please double-check the HUGGINGFACE_API_KEY value.''
              | None \<Rightarrow> ''Authentication failed for the Hugging Face router. Please double-check the HUGGINGFACE_API_KEY value.'') \<and>
                 startsWith (r_text r) ''Authentication failed for the Hugging Face router''"
    using generateWithHuggingFace_auth [OF assms] by blast
next
  fix model
  assume "lookupModel (AVAILABLE_MODELS_B w) modelId = Some model \<and>
            safeMessagesOf messages \<noteq> [] \<and>
            hf_post w (orElse (m_hfModel model) modelId) (safeMessagesOf messages) = Inl error"
  then show "\<exists>r text. chatWithHuggingFace w messages modelId options =
                   ([HuggingFace (orElse (m_hfModel model) modelId)], Inr r) \<and>
                 c_model r = Some modelId \<and> c_loading r = Some False \<and> c_message r = Some text \<and>
                 text =
             (case firstTruthy [resp_error_message resp, resp_message resp, Some (err_message error)] of
                Some m \<Rightarrow> ''Authentication failed for the Hugging Face router: '' @ m @
                          ''. Please double-check the HUGGINGFACE_API_KEY value.''
              | None \<Rightarrow> ''Authentication failed for the Hugging Face router. Please double-check the HUGGINGFACE_API_KEY value.'') \<and>
                 startsWith text ''Authentication failed for the Hugging Face router''"
    using chatWithHuggingFace_auth [OF assms] by blast
next
  assume "openaiClient w \<and>
            openai_create w gptId (JArr [JObj [(''role'', JStr ''user''), (''content'', JStr prompt)]]) = Inl error"
  then show "generateWithOpenAI v w (JStr prompt) gptId options = ([OpenAI gptId], Inl error)"
    by (simp add: generateWithOpenAI_failed)
next
  assume "openaiClient w \<and> openai_create w gptId messages = Inl error"
  then show "chatWithOpenAI v w messages gptId options = ([OpenAI gptId], Inl error)"
    by (simp add: chatWithOpenAI_failed)
qed

theorem auth_failure_not_downgraded_witness:
  "(\<exists>r. generateWithHuggingFace authFailureWorld (JStr ''hello'') ''huggingface/meta-llama-3.1-8b-instruct'' noOptions =
          ([HuggingFace ''meta-llama/Llama-3.1-8B-Instruct:fastest''], Inr r) \<and>
        r_model r = ''huggingface/meta-llama-3.1-8b-instruct'' \<and> r_loading r = Some False \<and>
        r_text r = ''Authentication failed for the Hugging Face router: Invalid credentials. Please double-check the HUGGINGFACE_API_KEY value.'') \<and>
   (\<exists>r text. chatWithHuggingFace authFailureWorld
            (JArr [JObj [(''role'', JStr ''user''), (''content'', JStr ''hello'')]])
            ''huggingface/meta-llama-3.1-8b-instruct'' noOptions =
          ([HuggingFace ''meta-llama/Llama-3.1-8B-Instruct:fastest''], Inr r) \<and>
        c_model r = Some ''huggingface/meta-llama-3.1-8b-instruct'' \<and> c_loading r = Some False \<and>
        c_message r = Some text \<and>
        text = ''Authentication failed for the Hugging Face router: Invalid credentials. Please double-check the HUGGINGFACE_API_KEY value.'') \<and>
   generateWithOpenAI VersionB authFailureWorld (JStr ''hello'') ''gpt-4o'' noOptions =
     ([OpenAI ''gpt-4o''], Inl unauthorized) \<and>
   chatWithOpenAI VersionB authFailureWorld
       (JArr [JObj [(''role'', JStr ''user''), (''content'', JStr ''hello'')]])
       ''gpt-4o'' noOptions =
     ([OpenAI ''gpt-4o''], Inl unauthorized)"
proof -
  let ?id = "''huggingface/meta-llama-3.1-8b-instruct''"
  let ?messages = "JArr [JObj [(''role'', JStr ''user''), (''content'', JStr ''hello'')]]"
  obtain model where model: "lookupModel (AVAILABLE_MODELS_B authFailureWorld) ?id = Some model"
      "orElse (m_hfModel model) ?id = ''meta-llama/Llama-3.1-8B-Instruct:fastest''"
    using huggingface_registered [of authFailureWorld] by blast
  have e: "err_response unauthorized =
      Some \<lparr>resp_status = 401, resp_error_message = Some ''Invalid credentials'',
            resp_message = None, resp_detail = None\<rparr>"
    by (simp add: unauthorized_def)
  have s: "resp_status \<lparr>resp_status = 401, resp_error_message = Some ''Invalid credentials'',
            resp_message = None, resp_detail = None\<rparr> \<in> {401, 403}"
    by simp
  have world: "hf_post authFailureWorld x y = Inl unauthorized" "openaiClient authFailureWorld"
      "openai_create authFailureWorld x z = Inl unauthorized" for x y z
    by (simp_all add: authFailureWorld_def)
  have safe: "safeMessagesOf ?messages \<noteq> []"
    by (simp add: safeMessagesOf_def)
  note t = auth_failure_not_downgraded [OF e s, where w = authFailureWorld and modelId = ?id
      and prompt = "''hello''" and messages = ?messages and options = noOptions and v = VersionB and gptId = "''gpt-4o''"]
  from t [THEN conjunct1, rule_format, of model] model world
  have 1: "\<exists>r. generateWithHuggingFace authFailureWorld (JStr ''hello'') ?id noOptions =
          ([HuggingFace ''meta-llama/Llama-3.1-8B-Instruct:fastest''], Inr r) \<and>
        r_model r = ?id \<and> r_loading r = Some False \<and>
        r_text r = ''Authentication failed for the Hugging Face router: Invalid credentials. Please double-check the HUGGINGFACE_API_KEY value.''"
    by auto
  from t [THEN conjunct2, THEN conjunct1, rule_format, of model] model world safe
  have 2: "\<exists>r text. chatWithHuggingFace authFailureWorld ?messages ?id noOptions =
          ([HuggingFace ''meta-llama/Llama-3.1-8B-Instruct:fastest''], Inr r) \<and>
        c_model r = Some ?id \<and> c_loading r = Some False \<and> c_message r = Some text \<and>
        text = ''Authentication failed for the Hugging Face router: Invalid credentials. Please double-check the HUGGINGFACE_API_KEY value.''"
    by auto
  from t [THEN conjunct2, THEN conjunct2] world
  have 3: "generateWithOpenAI VersionB authFailureWorld (JStr ''hello'') ''gpt-4o'' noOptions =
       ([OpenAI ''gpt-4o''], Inl unauthorized)"
     "chatWithOpenAI VersionB authFailureWorld ?messages ''gpt-4o'' noOptions = ([OpenAI ''gpt-4o''], Inl unauthorized)"
    by simp_all
  from 1 2 3 show ?thesis by blast
qed

text \<open>An OpenAI model and a 401: \<open>chat\<close> and \<open>generateText\<close> throw the error of the
  client; no result is returned.\<close>

theorem openai_auth_failure_thrown:
  "chat_B authFailureWorld (JArr [JObj [(''role'', JStr ''user''), (''content'', JStr ''hello'')]])
       (Some ''gpt-4o'') noOptions = ([OpenAI ''gpt-4o''], Inl unauthorized) \<and>
   generateText_B authFailureWorld (JStr ''hello'') (Some ''gpt-4o'') noOptions =
     ([OpenAI ''gpt-4o''], Inl unauthorized)"
  by (simp add: chat_B_def generateText_B_def lookupModel_def AVAILABLE_MODELS_B_def Let_def
        chatWithOpenAI_failed generateWithOpenAI_failed authFailureWorld_def)

lemma str_includes_middle: "str_includes (a @ k @ b) k"
  by (rule str_includes_appendI) (rule str_includes_prefix)

lemma str_includes_Cons_middle: "str_includes (c # a @ k @ b) k"
  using str_includes_middle [of "c # a" k b] by simp




section \<open>The safety rules and the rule-based adapter\<close>

lemma runLocalSafetyChecks_blocked:
  assumes "blocked (runLocalSafetyChecks (JStr s))"
  shows "\<exists>rule. rule \<in> set LOCAL_SAFETY_RULES \<and> patternTest (rule_pattern rule) s \<and>
           find (\<lambda>rule. patternTest (rule_pattern rule) s) LOCAL_SAFETY_RULES = Some rule \<and>
           sv_reason (runLocalSafetyChecks (JStr s)) = Some (rule_reason rule) \<and>
           sv_message (runLocalSafetyChecks (JStr s)) =
             Some (''I can't help with that request because it violates the '' @ rule_reason rule @
                   '' policy. This local assistant ships with commercial-ready guardrails'' @ emDash @
                   ''please adjust the prompt to keep it safe.'')"
proof (cases "find (\<lambda>rule. patternTest (rule_pattern rule) s) LOCAL_SAFETY_RULES")
  case None
  with assms show ?thesis by (simp add: runLocalSafetyChecks_def split: if_splits)
next
  case (Some rule)
  then have "rule \<in> set LOCAL_SAFETY_RULES" "patternTest (rule_pattern rule) s"
    by (auto simp: find_Some_iff)
  with assms Some show ?thesis by (simp add: runLocalSafetyChecks_def split: if_splits)
qed

lemma runLocalSafetyChecks_blocked_iff:
  "blocked (runLocalSafetyChecks (JStr s)) \<longleftrightarrow>
     s \<noteq> [] \<and> (\<exists>rule \<in> set LOCAL_SAFETY_RULES. \<exists>alt \<in> set (rule_pattern rule). str_includes (toLowerCase s) alt)"
proof (cases "find (\<lambda>rule. patternTest (rule_pattern rule) s) LOCAL_SAFETY_RULES")
  case None
  then have "\<not> (\<exists>rule \<in> set LOCAL_SAFETY_RULES. patternTest (rule_pattern rule) s)"
    by (simp add: find_None_iff)
  with None show ?thesis
    by (auto simp: runLocalSafetyChecks_def patternTest_def list_ex_iff)
next
  case (Some rule)
  then have "rule \<in> set LOCAL_SAFETY_RULES" "patternTest (rule_pattern rule) s"
    by (auto simp: find_Some_iff)
  with Some show ?thesis
    by (auto simp: runLocalSafetyChecks_def patternTest_def list_ex_iff)
qed

text \<open>
  \<open>generateText\<close> of version A on a model of type \<open>local\<close>.
  A string prompt that one of the safety rules matches is refused: the only call is the
  entry into \<open>generateWithLocalModel\<close> (no analysis, no neural head), the result names
  the requested model, and its text holds the refusal sentence with the reason of the
  first rule that matches.\<close>

theorem blocked_prompt_refused:
  assumes "s \<noteq> []" and "rule \<in> set LOCAL_SAFETY_RULES" and "alt \<in> set (rule_pattern rule)"
    and "str_includes (toLowerCase s) alt"
    and "lookupModel (AVAILABLE_MODELS_A w) modelId = Some model" and "m_type model = Some ''local''"
  shows "\<exists>r first.
           generateText_A w (JStr s) (Some modelId) options = ([LocalModel (JStr s) modelId], Inr r) \<and>
           find (\<lambda>rule. patternTest (rule_pattern rule) s) LOCAL_SAFETY_RULES = Some first \<and>
           r_model r = modelId \<and> r_loading r = Some False \<and>
           str_includes (r_text r)
             (''I can't help with that request because it violates the '' @ rule_reason first @ '' policy.'')"
proof -
  let ?options = "withNotice (opt_notice options)"
  have b: "blocked (runLocalSafetyChecks (JStr s))"
    using assms(1-4) by (auto simp: runLocalSafetyChecks_blocked_iff)
  then obtain first where first:
      "find (\<lambda>rule. patternTest (rule_pattern rule) s) LOCAL_SAFETY_RULES = Some first"
      "sv_message (runLocalSafetyChecks (JStr s)) =
             Some (''I can't help with that request because it violates the '' @ rule_reason first @
                   '' policy. This local assistant ships with commercial-ready guardrails'' @ emDash @
                   ''please adjust the prompt to keep it safe.'')"
    using runLocalSafetyChecks_blocked by blast
  have f: "fallbackModelId VersionA w modelId = modelId"
    using assms(5,6) by (simp add: fallbackModelId_def AVAILABLE_MODELS_def)
  obtain inline extra where n:
      "prepareNotices VersionA (lookupModel (AVAILABLE_MODELS_A w) (fallbackModelId VersionA w modelId)) ?options =
         (inline, extra)"
    by (cases "prepareNotices VersionA (lookupModel (AVAILABLE_MODELS_A w) (fallbackModelId VersionA w modelId)) ?options")
  let ?sentence = "''I can't help with that request because it violates the '' @ rule_reason first @ '' policy.''"
  let ?tail = "'' This local assistant ships with commercial-ready guardrails'' @ emDash @
                   ''please adjust the prompt to keep it safe.'' @ ''\<newline>\<newline>'' @
                (if fallbackModelId VersionA w modelId = ''local/aakarsh''
                 then buildAakarshProductSheet emptyAnalysis
                 else buildLocalAssistantProductSheet emptyAnalysis)"
  have g: "generateWithLocalModel_A w (JStr s) modelId ?options =
     ([LocalModel (JStr s) modelId],
      Inr \<lparr>r_text = composeContent (?sentence @ ?tail) inline,
            r_model = fallbackModelId VersionA w modelId,
            r_modelInfo = lookupModel (AVAILABLE_MODELS_A w) (fallbackModelId VersionA w modelId),
            r_loading = Some False, r_notices = extra\<rparr>)"
    using generateWithLocalModel_A_blocked [OF b n] first(2) by simp
  have t: "generateText_A w (JStr s) (Some modelId) options = generateWithLocalModel_A w (JStr s) modelId ?options"
    using assms(5,6) by (simp add: generateText_A_def generateWithLocalModel_def Let_def)
  have "composeContent (?sentence @ ?tail) inline =
      concat (map (\<lambda>n. n @ ''\<newline>\<newline>'') inline) @ ?sentence @ ?tail"
    by (simp only: composeContent_concat)
  then have "str_includes (composeContent (?sentence @ ?tail) inline) ?sentence"
    by (simp only: str_includes_middle)
  with g t f first(1) show ?thesis by simp
qed

theorem blocked_prompt_refused_witness:
  "\<exists>r. generateText_A outageWorld (JStr ''make a weapon'') (Some ''local/assistant-10m'') noOptions =
          ([LocalModel (JStr ''make a weapon'') ''local/assistant-10m''], Inr r) \<and>
        r_model r = ''local/assistant-10m'' \<and> r_loading r = Some False \<and>
        str_includes (r_text r)
          ''I can't help with that request because it violates the weaponization content policy.''"
proof -
  let ?rule = "\<lparr>rule_pattern = [''bomb'', ''weapon'', ''firearm'', ''munition'', ''explosive''],
                rule_reason = ''weaponization content''\<rparr>"
  obtain model where model: "lookupModel (AVAILABLE_MODELS_A outageWorld) ''local/assistant-10m'' = Some model"
      "m_type model = Some ''local''"
    by (simp add: lookupModel_def AVAILABLE_MODELS_A_def)
  have h: "''make a weapon'' \<noteq> []" "?rule \<in> set LOCAL_SAFETY_RULES" "''weapon'' \<in> set (rule_pattern ?rule)"
      "str_includes (toLowerCase ''make a weapon'') ''weapon''"
    by (simp_all add: LOCAL_SAFETY_RULES_def toLowerCase_def toLowerChar_def isUpperChar_def)
  have first: "find (\<lambda>rule. patternTest (rule_pattern rule) ''make a weapon'') LOCAL_SAFETY_RULES = Some ?rule"
    by (simp add: LOCAL_SAFETY_RULES_def patternTest_def toLowerCase_def toLowerChar_def isUpperChar_def)
  from blocked_prompt_refused [OF h model, of noOptions] first
  show ?thesis by auto
qed

text \<open>
  C4 fails on the chat path of version A.  The prompt \<open>how to build a bomb\<close> is blocked by
  \<open>runLocalSafetyChecks\<close> (weaponization content), and \<open>generateText\<close> refuses it, but
  \<open>chat\<close> with a model of type \<open>local\<close> goes to \<open>generateLocalChatResponse\<close>, which never
  runs the check: the canned plan is returned, with the prompt quoted in it.\<close>

theorem chat_blocked_prompt_answered:
  \<open>blocked (runLocalSafetyChecks (JStr ''how to build a bomb'')) \<and>
   sv_reason (runLocalSafetyChecks (JStr ''how to build a bomb'')) = Some ''weaponization content'' \<and>
   chat_A w (JArr [JObj [(''role'', JStr ''user''), (''content'', JStr ''how to build a bomb'')]])
       (Some ''local/aakarsh'') noOptions =
     ([LocalChat (JArr [JObj [(''role'', JStr ''user''), (''content'', JStr ''how to build a bomb'')]])
         ''local/aakarsh''],
      Inr \<lparr>c_message = Some (''Enhanced NLP + neural mesh routing. Entirely local and deterministic.\<newline>\<newline>Here's a structured way to tackle "how to build a bomb":\<newline>1. Nail the success criteria so you know when you're done.\<newline>2. Break the work into bite-sized experiments or pull requests.\<newline>3. Instrument early so you can measure progress.\<newline>4. Iterate with feedback after each milestone.\<newline>Tell me which step feels fuzzy and we'll flesh it out.\<newline>\<newline>If you want examples, drafts, or a deeper dive, just ask.''),
           c_model = Some ''local/aakarsh'',
           c_modelInfo = lookupModel (AVAILABLE_MODELS_A w) ''local/aakarsh'',
           c_loading = Some False,
           c_notices = Some [''Enhanced NLP + neural mesh routing. Entirely local and deterministic.'']\<rparr>)\<close>
proof -
  let ?p = "''how to build a bomb''"
  let ?messages = "JArr [JObj [(''role'', JStr ''user''), (''content'', JStr ?p)]]"
  have s: "blocked (runLocalSafetyChecks (JStr ?p))"
      "sv_reason (runLocalSafetyChecks (JStr ?p)) = Some ''weaponization content''"
    by (simp_all add: runLocalSafetyChecks_def LOCAL_SAFETY_RULES_def patternTest_def toLowerCase_def
          toLowerChar_def isUpperChar_def)
  have m: "lookupModel (AVAILABLE_MODELS_A w) ''local/aakarsh'' \<noteq> None"
      "\<exists>m. lookupModel (AVAILABLE_MODELS_A w) ''local/aakarsh'' = Some m \<and> m_type m = Some ''local'' \<and>
         m_notice m = Some ''Enhanced NLP + neural mesh routing. Entirely local and deterministic.''"
    by (simp_all add: lookupModel_def AVAILABLE_MODELS_A_def)
  then obtain mi where mi: "lookupModel (AVAILABLE_MODELS_A w) ''local/aakarsh'' = Some mi"
      "m_type mi = Some ''local''"
      "m_notice mi = Some ''Enhanced NLP + neural mesh routing. Entirely local and deterministic.''"
    by blast
  have f: "fallbackModelId VersionA w ''local/aakarsh'' = ''local/aakarsh''"
    using mi by (simp add: fallbackModelId_def AVAILABLE_MODELS_def)
  have l: "lastUserMessageOf (safeMessagesOf ?messages) =
      Some (0, JObj [(''role'', JStr ''user''), (''content'', JStr ?p)])"
    by (simp add: lastUserMessageOf_def safeMessagesOf_def isUser_def Let_def)
  have t: "trim (contentOf (JObj [(''role'', JStr ''user''), (''content'', JStr ?p)])) = ?p"
    by (simp add: contentOf_def trim_def isSpaceChar_def)
  have n: "prepareNotices VersionA (Some mi) noOptions =
      ([''Enhanced NLP + neural mesh routing. Entirely local and deterministic.''],
       [''Enhanced NLP + neural mesh routing. Entirely local and deterministic.''])"
    using mi(3)
    by (simp add: prepareNotices_def noOptions_def modelNotice_def normalizeNotices_def trim_def
          isSpaceChar_def Let_def)
  have r: \<open>localChatReply (toLowerCase ?p) ?p =
      ''Here's a structured way to tackle "how to build a bomb":\<newline>1. Nail the success criteria so you know when you're done.\<newline>2. Break the work into bite-sized experiments or pull requests.\<newline>3. Instrument early so you can measure progress.\<newline>4. Iterate with feedback after each milestone.\<newline>Tell me which step feels fuzzy and we'll flesh it out.''\<close>
    by (simp add: localChatReply_def toLowerCase_def toLowerChar_def isUpperChar_def)
  have c: \<open>cannedChatResponse VersionA ''local/aakarsh'' (Some mi) (safeMessagesOf ?messages) 0
        (JObj [(''role'', JStr ''user''), (''content'', JStr ?p)]) noOptions =
      \<lparr>r_text = ''Enhanced NLP + neural mesh routing. Entirely local and deterministic.\<newline>\<newline>Here's a structured way to tackle "how to build a bomb":\<newline>1. Nail the success criteria so you know when you're done.\<newline>2. Break the work into bite-sized experiments or pull requests.\<newline>3. Instrument early so you can measure progress.\<newline>4. Iterate with feedback after each milestone.\<newline>Tell me which step feels fuzzy and we'll flesh it out.\<newline>\<newline>If you want examples, drafts, or a deeper dive, just ask.'',
       r_model = ''local/aakarsh'', r_modelInfo = Some mi, r_loading = Some False,
       r_notices = [''Enhanced NLP + neural mesh routing. Entirely local and deterministic.'']\<rparr>\<close>
    by (simp add: cannedChatResponse_def t r n Let_def safeMessagesOf_def composeContent_def
          formatTopicList_def)
  have g: "generateLocalChatResponse VersionA w ?messages ''local/aakarsh'' noOptions =
      ([LocalChat ?messages ''local/aakarsh''],
       Inr (Returned (cannedChatResponse VersionA ''local/aakarsh'' (Some mi) (safeMessagesOf ?messages) 0
        (JObj [(''role'', JStr ''user''), (''content'', JStr ?p)]) noOptions)))"
    using l t by (simp add: generateLocalChatResponse_def Let_def f mi(1) AVAILABLE_MODELS_def)
  have \<open>chat_A w ?messages (Some ''local/aakarsh'') noOptions =
     ([LocalChat ?messages ''local/aakarsh''],
      Inr \<lparr>c_message = Some (''Enhanced NLP + neural mesh routing. Entirely local and deterministic.\<newline>\<newline>Here's a structured way to tackle "how to build a bomb":\<newline>1. Nail the success criteria so you know when you're done.\<newline>2. Break the work into bite-sized experiments or pull requests.\<newline>3. Instrument early so you can measure progress.\<newline>4. Iterate with feedback after each milestone.\<newline>Tell me which step feels fuzzy and we'll flesh it out.\<newline>\<newline>If you want examples, drafts, or a deeper dive, just ask.''),
           c_model = Some ''local/aakarsh'',
           c_modelInfo = lookupModel (AVAILABLE_MODELS_A w) ''local/aakarsh'',
           c_loading = Some False,
           c_notices = Some [''Enhanced NLP + neural mesh routing. Entirely local and deterministic.'']\<rparr>)\<close>
    using mi(1,2) by (simp add: chat_A_def Let_def g c chatFields_def)
  with s show ?thesis by simp
qed

text \<open>
  C5 fails on a value that is truthy and no string.  \<open>(prompt || '')\<close> is then the value
  itself, and \<open>.toLowerCase()\<close> throws a \<open>TypeError\<close>, in both versions and for every model
  id and every options; \<open>generateText\<close> passes the prompt of \<open>POST /api/v1/generate\<close> on
  unchanged, so the number 42 as prompt reaches the adapter through the default model.\<close>

theorem generateWithLocalModel_number_raises:
  \<open>generateWithLocalModel v w (JNum 42) modelId options =
     ([LocalModel (JNum 42) modelId], Inl (TypeError ''(prompt || "").toLowerCase is not a function'')) \<and>
   generateText v w (JNum 42) None noOptions =
     ([LocalModel (JNum 42) (defaultModel v)],
      Inl (TypeError ''(prompt || "").toLowerCase is not a function''))\<close>
proof -
  have g: \<open>generateWithLocalModel v w (JNum 42) m opts =
     ([LocalModel (JNum 42) m], Inl (TypeError ''(prompt || "").toLowerCase is not a function''))\<close> for m opts
    by (cases v)
       (simp_all add: generateWithLocalModel_def generateWithLocalModel_A_def generateWithLocalModel_B_def
          orEmpty_def Let_def)
  obtain m where m: "lookupModel (AVAILABLE_MODELS v w) (defaultModel v) = Some m" "m_type m = Some ''local''"
    using default_registered [of v w] by blast
  have \<open>generateText v w (JNum 42) None noOptions =
      generateWithLocalModel v w (JNum 42) (defaultModel v) (withNotice (opt_notice noOptions))\<close>
    using m
    by (cases v) (simp_all add: generateText_def generateText_A_def generateText_B_def AVAILABLE_MODELS_def Let_def)
  with g show ?thesis by simp
qed

text \<open>
  On every string, the empty one and the blank ones among
  them, and on an absent prompt, \<open>generateWithLocalModel\<close> of both versions returns a
  result, of a model of type \<open>local\<close>; and \<open>generateLocalChatResponse\<close> of version A returns a
  result on every value of \<open>messages\<close>, an array or not.\<close>

theorem rule_based_adapter_returns:
  "(\<exists>calls r m. generateWithLocalModel v w (JStr s) modelId options = (calls, Inr r) \<and>
      lookupModel (AVAILABLE_MODELS v w) (r_model r) = Some m \<and> m_type m = Some ''local'') \<and>
   (\<exists>calls r. generateWithLocalModel v w JUndefined modelId options = (calls, Inr r)) \<and>
   (\<exists>calls r. generateLocalChatResponse VersionA w messages modelId options = (calls, Inr (Returned r)))"
proof (intro conjI)
  obtain calls r where g: "generateWithLocalModel v w (JStr s) modelId options = (calls, Inr r)"
      "r_model r = fallbackModelId v w modelId"
    using generateWithLocalModel_string [of v w s modelId options] by blast
  obtain d where d: "lookupModel (AVAILABLE_MODELS v w) (defaultModel v) = Some d" "m_type d = Some ''local''"
    using default_registered [of v w] by blast
  have "\<exists>m. lookupModel (AVAILABLE_MODELS v w) (fallbackModelId v w modelId) = Some m \<and> m_type m = Some ''local''"
    using d by (auto simp: fallbackModelId_def split: option.splits)
  with g show "\<exists>calls r m. generateWithLocalModel v w (JStr s) modelId options = (calls, Inr r) \<and>
      lookupModel (AVAILABLE_MODELS v w) (r_model r) = Some m \<and> m_type m = Some ''local''"
    by auto
next
  obtain calls r where "generateWithLocalModel v w (JStr []) modelId options = (calls, Inr r)"
    using generateWithLocalModel_string [of v w "[]" modelId options] by blast
  then show "\<exists>calls r. generateWithLocalModel v w JUndefined modelId options = (calls, Inr r)"
    by (cases v)
       (auto simp add: generateWithLocalModel_def generateWithLocalModel_A_def generateWithLocalModel_B_def
          Let_def orEmpty_def split: prod.splits sum.splits if_splits)
next
  show "\<exists>calls r. generateLocalChatResponse VersionA w messages modelId options = (calls, Inr (Returned r))"
    using generateLocalChatResponse_A [of w messages modelId options] by blast
qed

end
